(* ===== verification/Prelude.thy ===== *)
theory Prelude
  imports Complex_Main "HOL-Library.Stream"
begin

text \<open>
  Shared vocabulary of the model of \<open>src/load_data.py\<close>: the module-level pseudo-random
  generator of Python's \<open>random\<close> module as an explicit state, \<open>random.uniform\<close>,
  Python's \<open>round(x, 2)\<close> on floats, \<open>range\<close> on ints, dictionary lookup that raises
  \<open>KeyError\<close>, float division that raises \<open>ZeroDivisionError\<close>, and the exceptions the
  script can meet. Floats are modelled as \<open>real\<close> (no binary rounding); Python ints as
  \<open>int\<close>.
\<close>

named_theorems rng_simps "how the random state advances"
named_theorems round_simps "Python round(x, 2) on grid values"

section \<open>Exceptions\<close>

datatype error =
    KeyError string
  | ZeroDivisionError
  | ValueError string
  | IOError string
  | DatabaseError string

type_synonym 'a result = "error + 'a"

section \<open>The random generator\<close>

text \<open>
  The state of Python's global generator is represented by the stream of the values its
  \<open>random()\<close> will return, in order. \<open>random()\<close> returns the head and advances the
  state; \<open>uniform(a, b)\<close> is \<open>a + (b - a) * random()\<close> (CPython's definition). A valid
  state only ever yields values in \<open>[0, 1)\<close>.
\<close>

type_synonym rng = "real stream"

definition valid_rng :: "rng \<Rightarrow> bool" where
  "valid_rng s \<longleftrightarrow> sset s \<subseteq> {0..<1}"

definition random :: "rng \<Rightarrow> real \<times> rng" where
  "random s = (shd s, stl s)"

definition uniform :: "real \<Rightarrow> real \<Rightarrow> rng \<Rightarrow> real \<times> rng" where
  "uniform a b s = (let (u, s') = random s in (a + (b - a) * u, s'))"

section \<open>Python's round(x, 2) and range\<close>

text \<open>
  \<open>round(x, 2)\<close> rounds to the nearest multiple of \<open>0.01\<close>, ties to even.
\<close>

definition round_half_even :: "real \<Rightarrow> int" where
  "round_half_even y =
     (let f = \<lfloor>y\<rfloor>; d = y - of_int f in
      if d < 1/2 then f else if 1/2 < d then f + 1 else if even f then f else f + 1)"

definition round2 :: "real \<Rightarrow> real" where
  "round2 x = of_int (round_half_even (x * 100)) / 100"

definition py_range :: "int \<Rightarrow> int \<Rightarrow> int list" where
  "py_range a b = [a..b - 1]"

section \<open>Raising primitives\<close>

definition dict_get :: "(string \<times> 'v) list \<Rightarrow> string \<Rightarrow> 'v result" where
  "dict_get d k = (case map_of d k of None \<Rightarrow> Inl (KeyError k) | Some v \<Rightarrow> Inr v)"

definition py_div :: "real \<Rightarrow> real \<Rightarrow> real result" where
  "py_div a b = (if b = 0 then Inl ZeroDivisionError else Inr (a / b))"

section \<open>Row-producing loops\<close>

text \<open>
  Every generator is a \<open>for\<close> loop whose body appends rows to one list \<open>data\<close> and
  draws from the global generator; an exception in a body ends the loop. \<open>loop_rows f xs s\<close>
  runs the body \<open>f\<close> on each element of \<open>xs\<close> in order, threading the random
  state and concatenating the rows each iteration appends. Nested loops nest it.
\<close>

fun loop_rows :: "('a \<Rightarrow> rng \<Rightarrow> ('r list \<times> rng) result) \<Rightarrow> 'a list \<Rightarrow> rng \<Rightarrow> ('r list \<times> rng) result" where
  "loop_rows f [] s = Inr ([], s)"
| "loop_rows f (x # xs) s =
     (case f x s of
        Inl e \<Rightarrow> Inl e
      | Inr (rs, s1) \<Rightarrow>
          (case loop_rows f xs s1 of
             Inl e \<Rightarrow> Inl e
           | Inr (rs', s2) \<Rightarrow> Inr (rs @ rs', s2)))"

section \<open>Three draws in given ranges\<close>

text \<open>Two generators draw three values in a row, each uniformly from its own range. For
  the specifications: \<open>draws3 rs s\<close> decodes the three draws from \<open>s\<close>, \<open>in_ranges\<close>
  says a triple lies in the ranges, and \<open>inv_draws3\<close> gives the \<open>random()\<close> outputs that
  produce a given triple.\<close>

type_synonym ranges3 = "(real \<times> real) \<times> (real \<times> real) \<times> (real \<times> real)"

definition draws3 :: "ranges3 \<Rightarrow> rng \<Rightarrow> (real \<times> real \<times> real) \<times> rng" where
  "draws3 rs s = (case rs of ((a1, b1), (a2, b2), (a3, b3)) \<Rightarrow>
     ((a1 + (b1 - a1) * shd s, a2 + (b2 - a2) * shd (stl s), a3 + (b3 - a3) * shd (stl (stl s))), sdrop 3 s))"

definition in_ranges :: "ranges3 \<Rightarrow> real \<times> real \<times> real \<Rightarrow> bool" where
  "in_ranges rs v = (case (rs, v) of (((a1, b1), (a2, b2), (a3, b3)), (x, y, z)) \<Rightarrow>
     a1 \<le> x \<and> x < b1 \<and> a2 \<le> y \<and> y < b2 \<and> a3 \<le> z \<and> z < b3)"

definition ranges_ok :: "ranges3 \<Rightarrow> bool" where
  "ranges_ok rs = (case rs of ((a1, b1), (a2, b2), (a3, b3)) \<Rightarrow> a1 < b1 \<and> a2 < b2 \<and> a3 < b3)"

definition inv_draws3 :: "ranges3 \<Rightarrow> real \<times> real \<times> real \<Rightarrow> real list" where
  "inv_draws3 rs v = (case (rs, v) of (((a1, b1), (a2, b2), (a3, b3)), (x, y, z)) \<Rightarrow>
     [(x - a1) / (b1 - a1), (y - a2) / (b2 - a2), (z - a3) / (b3 - a3)])"

section \<open>Lemmas: the random state\<close>

lemma valid_rng_stl [rng_simps]: "valid_rng s \<Longrightarrow> valid_rng (stl s)"
  by (auto simp: valid_rng_def dest: stl_sset)

lemma valid_rng_shd: "valid_rng s \<Longrightarrow> 0 \<le> shd s \<and> shd s < 1"
  using shd_sset [of s] by (auto simp: valid_rng_def)

lemma valid_rng_sdrop [rng_simps]: "valid_rng s \<Longrightarrow> valid_rng (sdrop n s)"
  by (induction n arbitrary: s) (auto intro: valid_rng_stl)

lemma shd_sconst [simp]: "shd (sconst u) = u"
  by (simp add: siterate.sel)

lemma stl_sconst [simp]: "stl (sconst u) = sconst u"
  by (simp add: siterate.sel)

lemma sdrop_numeral: "sdrop (numeral k) s = sdrop (pred_numeral k) (stl s)"
  by (simp add: numeral_eq_Suc)

lemma valid_rng_SCons [rng_simps]: "valid_rng (x ## s) \<longleftrightarrow> 0 \<le> x \<and> x < 1 \<and> valid_rng s"
  by (auto simp: valid_rng_def)

lemma valid_rng_shift [rng_simps]: "valid_rng (xs @- s) \<longleftrightarrow> set xs \<subseteq> {0..<1} \<and> valid_rng s"
  by (auto simp: valid_rng_def)

lemma valid_rng_sconst: "0 \<le> u \<Longrightarrow> u < 1 \<Longrightarrow> valid_rng (sconst u)"
  by (simp add: valid_rng_def)

lemma uniform_fst [rng_simps]: "fst (uniform a b s) = a + (b - a) * shd s"
  by (simp add: uniform_def random_def)

lemma uniform_snd [rng_simps]: "snd (uniform a b s) = stl s"
  by (simp add: uniform_def random_def)

lemma uniform_eq: "uniform a b s = (a + (b - a) * shd s, stl s)"
  by (simp add: uniform_def random_def)

text \<open>Every value of \<open>[a, b)\<close> is the result of \<open>uniform a b\<close> for some \<open>random()\<close>
  output in \<open>[0, 1)\<close>.\<close>

lemma uniform_inverse:
  fixes a b v :: real
  assumes "a < b" and "a \<le> v" and "v < b"
  shows "0 \<le> (v - a) / (b - a) \<and> (v - a) / (b - a) < 1 \<and> a + (b - a) * ((v - a) / (b - a)) = v"
proof -
  have d: "0 < b - a" using assms(1) by simp
  have "(v - a) / (b - a) < 1" using d assms(3) by (simp add: divide_less_eq)
  moreover have "0 \<le> (v - a) / (b - a)" using d assms(2) by simp
  moreover have "a + (b - a) * ((v - a) / (b - a)) = v" using d by simp
  ultimately show ?thesis by blast
qed

lemma uniform_bounds:
  assumes "valid_rng s" and "a < b"
  shows "a \<le> fst (uniform a b s) \<and> fst (uniform a b s) < b"
proof -
  from assms(1) have u: "0 \<le> shd s" "shd s < 1" by (auto dest: valid_rng_shd)
  have "0 \<le> (b - a) * shd s" using assms(2) u(1) by simp
  moreover have "(b - a) * shd s < b - a" using assms(2) u(2) by simp
  ultimately show ?thesis by (simp add: uniform_fst)
qed

lemma uniform_le:
  "valid_rng s \<Longrightarrow> a < b \<Longrightarrow> uniform a b s = (x, s') \<Longrightarrow> a \<le> x \<and> x < b \<and> s' = stl s"
  using uniform_bounds [of s a b] by (simp add: uniform_eq)

section \<open>Lemmas: loops\<close>

text \<open>A loop whose every iteration succeeds and consumes a known number of draws succeeds
  and consumes their sum.\<close>

lemma loop_rows_ok:
  assumes "valid_rng s"
    and "\<And>x s. x \<in> set xs \<Longrightarrow> valid_rng s \<Longrightarrow> \<exists>rs. f x s = Inr (rs, sdrop (k x) s)"
  shows "\<exists>rs. loop_rows f xs s = Inr (rs, sdrop (sum_list (map k xs)) s)"
  using assms
proof (induction xs arbitrary: s)
  case Nil
  then show ?case by simp
next
  case (Cons x xs)
  from Cons.prems(2) [of x s] Cons.prems(1) obtain rs where rs: "f x s = Inr (rs, sdrop (k x) s)"
    by auto
  have "valid_rng (sdrop (k x) s)" using Cons.prems(1) by (rule valid_rng_sdrop)
  with Cons.IH Cons.prems(2) obtain rs' where
    "loop_rows f xs (sdrop (k x) s) = Inr (rs', sdrop (sum_list (map k xs)) (sdrop (k x) s))"
    by force
  with rs show ?case by (simp add: add.commute)
qed

text \<open>A loop whose body draws nothing and appends one row per element.\<close>

lemma loop_rows_pure:
  "(\<And>x s. x \<in> set xs \<Longrightarrow> f x s = Inr ([g x], s)) \<Longrightarrow> loop_rows f xs s = Inr (map g xs, s)"
  by (induction xs) auto

text \<open>An exception that ends a loop was raised by one of its iterations.\<close>

lemma loop_rows_Inl:
  "loop_rows f xs s = Inl e \<Longrightarrow> \<exists>x \<in> set xs. \<exists>s'. f x s' = Inl e"
  by (induction xs arbitrary: s) (fastforce split: sum.splits prod.splits)+

text \<open>The same without a validity requirement, for loops whose bodies never fail.\<close>

lemma loop_rows_total:
  assumes "\<And>x s. x \<in> set xs \<Longrightarrow> \<exists>rs. f x s = Inr (rs, sdrop (k x) s)"
  shows "\<exists>rs. loop_rows f xs s = Inr (rs, sdrop (sum_list (map k xs)) s)"
  using assms
proof (induction xs arbitrary: s)
  case Nil
  then show ?case by simp
next
  case (Cons x xs)
  from Cons.prems [of x s] obtain rs where rs: "f x s = Inr (rs, sdrop (k x) s)" by auto
  from Cons.IH [of "sdrop (k x) s"] Cons.prems obtain rs' where
    "loop_rows f xs (sdrop (k x) s) = Inr (rs', sdrop (sum_list (map k xs)) (sdrop (k x) s))"
    by force
  with rs show ?case by (simp add: add.commute)
qed

text \<open>Keys (or any per-row projection) of the appended rows are those of each iteration,
  in order.\<close>

lemma loop_rows_map:
  assumes "loop_rows f xs s = Inr (rs, s')"
    and "\<And>x s rs s'. x \<in> set xs \<Longrightarrow> f x s = Inr (rs, s') \<Longrightarrow> map g rs = K x"
  shows "map g rs = concat (map K xs)"
  using assms
proof (induction xs arbitrary: s rs)
  case Nil
  then show ?case by simp
next
  case (Cons x xs)
  then show ?case by (auto split: sum.splits prod.splits)
qed

lemma loop_rows_length:
  assumes "loop_rows f xs s = Inr (rs, s')"
    and "\<And>x s rs s'. x \<in> set xs \<Longrightarrow> f x s = Inr (rs, s') \<Longrightarrow> length rs = m x"
  shows "length rs = sum_list (map m xs)"
proof -
  have "map (\<lambda>_. ()) rs = concat (map (\<lambda>x. replicate (m x) ()) xs)"
    using assms(1) by (rule loop_rows_map) (simp add: assms(2) map_replicate_const)
  then have "length (map (\<lambda>_. ()) rs) = length (concat (map (\<lambda>x. replicate (m x) ()) xs))"
    by (rule arg_cong)
  then show ?thesis by (simp add: length_concat comp_def)
qed

text \<open>A property every iteration's rows have, under a valid random state that each
  iteration keeps valid, holds of all the rows of the loop.\<close>

lemma loop_rows_all:
  assumes "loop_rows f xs s = Inr (rs, s')" and "valid_rng s"
    and "\<And>x s rs s'. x \<in> set xs \<Longrightarrow> valid_rng s \<Longrightarrow> f x s = Inr (rs, s') \<Longrightarrow>
           valid_rng s' \<and> (\<forall>r \<in> set rs. P x r)"
  shows "valid_rng s' \<and> (\<forall>r \<in> set rs. \<exists>x \<in> set xs. P x r)"
  using assms
proof (induction xs arbitrary: s rs)
  case Nil
  then show ?case by simp
next
  case (Cons x xs)
  from Cons.prems(1) obtain rs1 s1 rs2 where
    f: "f x s = Inr (rs1, s1)" and l: "loop_rows f xs s1 = Inr (rs2, s')" and rs: "rs = rs1 @ rs2"
    by (auto split: sum.splits prod.splits)
  from Cons.prems(3) [OF _ Cons.prems(2) f] have v1: "valid_rng s1" and p1: "\<forall>r \<in> set rs1. P x r"
    by auto
  have step: "\<And>x s rs s'. x \<in> set xs \<Longrightarrow> valid_rng s \<Longrightarrow> f x s = Inr (rs, s') \<Longrightarrow>
           valid_rng s' \<and> (\<forall>r \<in> set rs. P x r)"
    using Cons.prems(3) by (meson list.set_intros(2))
  have "valid_rng s' \<and> (\<forall>r \<in> set rs2. \<exists>x \<in> set xs. P x r)"
    by (rule Cons.IH [OF l v1]) (rule step)
  with p1 rs show ?case by auto
qed

text \<open>The same for properties of the rows that hold whatever the random state.\<close>

lemma loop_rows_all_any:
  assumes "loop_rows f xs s = Inr (rs, s')"
    and "\<And>x s rs s'. x \<in> set xs \<Longrightarrow> f x s = Inr (rs, s') \<Longrightarrow> \<forall>r \<in> set rs. P x r"
  shows "\<forall>r \<in> set rs. \<exists>x \<in> set xs. P x r"
  using assms
proof (induction xs arbitrary: s rs)
  case Nil
  then show ?case by simp
next
  case (Cons x xs)
  from Cons.prems(1) obtain rs1 s1 rs2 where
    f: "f x s = Inr (rs1, s1)" and l: "loop_rows f xs s1 = Inr (rs2, s')" and rs: "rs = rs1 @ rs2"
    by (auto split: sum.splits prod.splits)
  have "\<forall>r \<in> set rs2. \<exists>x \<in> set xs. P x r"
    by (rule Cons.IH [OF l]) (use Cons.prems(2) in auto)
  with Cons.prems(2) [OF _ f] rs show ?case by auto
qed

text \<open>A loop whose step emits one row per item, the row a function of the item and of the
  values the step decoded from its draws. Soundness: under a valid random state every
  output is the rows of some admissible values. Completeness: the admissible values
  \<open>p\<close> of every item are produced by the draws \<open>enc x p\<close>, which are valid outputs of
  \<open>random()\<close>.\<close>

lemma loop_rows_sound:
  assumes "valid_rng s" and "loop_rows f xs s = Inr (rs, s')"
    and "\<And>x s. x \<in> set xs \<Longrightarrow> valid_rng s \<Longrightarrow> \<exists>p s1. ok x p \<and> f x s = Inr ([row x p], s1) \<and> valid_rng s1"
  shows "\<exists>ps. list_all2 ok xs ps \<and> rs = map2 row xs ps"
  using assms
proof (induction xs arbitrary: s rs s')
  case Nil
  then show ?case by simp
next
  case (Cons x xs)
  obtain p s1 where p: "ok x p" "f x s = Inr ([row x p], s1)" "valid_rng s1"
    using Cons.prems(1,3) by (meson list.set_intros(1))
  obtain rs' where rest: "loop_rows f xs s1 = Inr (rs', s')" and rs: "rs = row x p # rs'"
    using Cons.prems(2) p(2) by (auto split: sum.splits prod.splits)
  obtain ps where "list_all2 ok xs ps" "rs' = map2 row xs ps"
    using Cons.IH [OF p(3) rest] Cons.prems(3) by (meson list.set_intros(2))
  then show ?case using p(1) rs by (intro exI [of _ "p # ps"]) simp
qed

lemma loop_rows_complete:
  assumes "list_all2 ok xs ps"
    and "\<And>x p t. x \<in> set xs \<Longrightarrow> ok x p \<Longrightarrow> f x (enc x p @- t) = Inr ([row x p], t)"
  shows "loop_rows f xs (concat (map2 enc xs ps) @- t) = Inr (map2 row xs ps, t)"
  using assms by (induction xs ps rule: list_all2_induct) simp_all

lemma loop_rows_complete_valid:
  assumes "list_all2 ok xs ps" and "\<And>x p. ok x p \<Longrightarrow> set (enc x p) \<subseteq> {0..<1}"
  shows "set (concat (map2 enc xs ps)) \<subseteq> {0..<1}"
  using assms by (induction xs ps rule: list_all2_induct) auto

section \<open>Lemmas: three draws\<close>

lemma draws3_snd: "snd (draws3 rs s) = sdrop 3 s"
  by (simp add: draws3_def split: prod.split)

lemma draws3_in_ranges:
  assumes "valid_rng s" and "ranges_ok rs"
  shows "in_ranges rs (fst (draws3 rs s))"
proof -
  obtain a1 b1 a2 b2 a3 b3 where r: "rs = ((a1, b1), (a2, b2), (a3, b3))" by (cases rs) auto
  have "a1 \<le> fst (uniform a1 b1 s) \<and> fst (uniform a1 b1 s) < b1"
    "a2 \<le> fst (uniform a2 b2 (stl s)) \<and> fst (uniform a2 b2 (stl s)) < b2"
    "a3 \<le> fst (uniform a3 b3 (stl (stl s))) \<and> fst (uniform a3 b3 (stl (stl s))) < b3"
    using assms(2) uniform_bounds [OF assms(1)] uniform_bounds [OF valid_rng_stl [OF assms(1)]]
      uniform_bounds [OF valid_rng_stl [OF valid_rng_stl [OF assms(1)]]]
    by (simp_all add: r ranges_ok_def)
  then show ?thesis by (simp add: r draws3_def in_ranges_def uniform_fst)
qed

lemma inv_draws3_valid:
  assumes "ranges_ok rs" and "in_ranges rs v"
  shows "set (inv_draws3 rs v) \<subseteq> {0..<1}"
proof -
  obtain a1 b1 a2 b2 a3 b3 where r: "rs = ((a1, b1), (a2, b2), (a3, b3))" by (cases rs) auto
  obtain x y z where v: "v = (x, y, z)" by (cases v) auto
  show ?thesis
    using assms uniform_inverse [of a1 b1 x] uniform_inverse [of a2 b2 y] uniform_inverse [of a3 b3 z]
    by (simp add: r v ranges_ok_def in_ranges_def inv_draws3_def)
qed

lemma draws3_inv:
  assumes "ranges_ok rs" and "in_ranges rs v"
  shows "draws3 rs (inv_draws3 rs v @- t) = (v, t)"
proof -
  obtain a1 b1 a2 b2 a3 b3 where r: "rs = ((a1, b1), (a2, b2), (a3, b3))" by (cases rs) auto
  obtain x y z where v: "v = (x, y, z)" by (cases v) auto
  show ?thesis
    using assms uniform_inverse [of a1 b1 x] uniform_inverse [of a2 b2 y] uniform_inverse [of a3 b3 z]
    by (simp add: r v ranges_ok_def in_ranges_def inv_draws3_def draws3_def sdrop_numeral)
qed

section \<open>Lemmas: rounding\<close>

lemma round_half_even_lower: "y - 1/2 \<le> of_int (round_half_even y)"
  by (simp add: round_half_even_def Let_def) linarith

lemma round_half_even_upper: "of_int (round_half_even y) \<le> y + 1/2"
  by (simp add: round_half_even_def Let_def) linarith

lemma round_half_even_floor: "\<lfloor>y\<rfloor> \<le> round_half_even y \<and> round_half_even y \<le> \<lfloor>y\<rfloor> + 1"
  by (simp add: round_half_even_def Let_def)

lemma round_half_even_of_int [simp]: "round_half_even (of_int k) = k"
  by (simp add: round_half_even_def)

lemma round_half_even_mono:
  assumes "x \<le> y"
  shows "round_half_even x \<le> round_half_even y"
proof (cases "\<lfloor>x\<rfloor> < \<lfloor>y\<rfloor>")
  case True
  then show ?thesis
    using round_half_even_floor [of x] round_half_even_floor [of y] by linarith
next
  case False
  with assms have f: "\<lfloor>x\<rfloor> = \<lfloor>y\<rfloor>" by (meson floor_mono le_less not_less)
  with assms have "x - of_int \<lfloor>x\<rfloor> \<le> y - of_int \<lfloor>y\<rfloor>" by simp
  with f show ?thesis
    by (auto simp: round_half_even_def Let_def)
qed

lemma round2_mono: "x \<le> y \<Longrightarrow> round2 x \<le> round2 y"
  unfolding round2_def by (simp add: divide_right_mono round_half_even_mono)

lemma round2_error: "\<bar>round2 x - x\<bar> \<le> 1/200"
proof -
  define r where "r = real_of_int (round_half_even (x * 100))"
  have "x * 100 - 1/2 \<le> r" "r \<le> x * 100 + 1/2"
    using round_half_even_lower [of "x * 100"] round_half_even_upper [of "x * 100"]
    by (simp_all add: r_def)
  then have "x - 1/200 \<le> r / 100" "r / 100 \<le> x + 1/200"
    by (simp_all add: field_simps)
  then show ?thesis unfolding round2_def r_def [symmetric] abs_le_iff by linarith
qed

lemma round2_of_int [round_simps]: "round2 (of_int k) = of_int k"
proof -
  have "round_half_even (of_int k * 100) = k * 100"
    using round_half_even_of_int [of "k * 100"] by simp
  then show ?thesis by (simp add: round2_def)
qed

lemma round2_numeral [round_simps]: "round2 (numeral n) = numeral n"
  using round2_of_int [of "numeral n"] by simp

lemma round2_neg_numeral [round_simps]: "round2 (- numeral n) = - numeral n"
  using round2_of_int [of "- numeral n"] by simp

lemma round2_zero [round_simps]: "round2 0 = 0"
  using round2_of_int [of 0] by simp

lemma round2_one [round_simps]: "round2 1 = 1"
  using round2_of_int [of 1] by simp

text \<open>\<open>round(x, 2)\<close> of a value strictly within half a hundredth of a grid point.\<close>

lemma round2_grid:
  assumes "of_int k / 100 - 1/200 < x" and "x < of_int k / 100 + 1/200"
  shows "round2 x = of_int k / 100"
proof -
  define r where "r = round_half_even (x * 100)"
  have "x * 100 - 1/2 \<le> of_int r" "of_int r \<le> x * 100 + 1/2"
    unfolding r_def by (rule round_half_even_lower, rule round_half_even_upper)
  moreover have "of_int k - 1/2 < x * 100" "x * 100 < of_int k + 1/2"
    using assms by (simp_all add: field_simps)
  ultimately have "real_of_int (k - 1) < of_int r" "real_of_int r < of_int (k + 1)"
    by simp_all
  then have "r = k" unfolding of_int_less_iff by simp
  then show ?thesis by (simp add: round2_def r_def)
qed

lemma round2_strict: "x + 1/100 < y \<Longrightarrow> round2 x < round2 y"
  using round2_error [of x] round2_error [of y] unfolding abs_le_iff by linarith

lemma round2_le_numeral: "x \<le> numeral n \<Longrightarrow> round2 x \<le> numeral n"
  using round2_mono [of x "numeral n"] by (simp add: round_simps)

lemma round2_ge_numeral: "numeral n \<le> x \<Longrightarrow> numeral n \<le> round2 x"
  using round2_mono [of "numeral n" x] by (simp add: round_simps)

lemma round2_le_neg_numeral: "x \<le> - numeral n \<Longrightarrow> round2 x \<le> - numeral n"
  using round2_mono [of x "- numeral n"] by (simp add: round_simps)

lemma round2_ge_neg_numeral: "- numeral n \<le> x \<Longrightarrow> - numeral n \<le> round2 x"
  using round2_mono [of "- numeral n" x] by (simp add: round_simps)

lemma round2_ge_one: "1 \<le> x \<Longrightarrow> 1 \<le> round2 x"
  using round2_mono [of 1 x] by (simp add: round_simps)

lemma round2_min_le [simp]: "round2 (min (numeral n) x) \<le> numeral n"
  by (rule round2_le_numeral) simp

lemma round2_pos: "1/100 < x \<Longrightarrow> 0 < round2 x"
  using round2_strict [of 0 x] by (simp add: round_simps)

lemmas round2_bounds = round2_le_numeral round2_ge_numeral round2_le_neg_numeral
  round2_ge_neg_numeral round2_pos round2_ge_one

section \<open>Lemmas: range and the raising primitives\<close>

lemma length_py_range [simp]: "length (py_range a b) = nat (b - a)"
  by (simp add: py_range_def)

lemma set_py_range [simp]: "set (py_range a b) = {a..<b}"
  by (auto simp: py_range_def)

lemma distinct_py_range [simp]: "distinct (py_range a b)"
  by (simp add: py_range_def)

lemma distinct_keys_concat:
  "distinct (map f cs) \<Longrightarrow> distinct ys \<Longrightarrow> distinct (concat (map (\<lambda>c. map (Pair (f c)) ys) cs))"
  by (induction cs) (auto simp: distinct_map inj_on_def)

text \<open>Rows keyed by \<open>(code, year)\<close> as listed by a per-country loop carry only the codes
  of the countries looped over.\<close>

lemma keys_in_codes:
  "map (\<lambda>r. (f r, h r)) rs = concat (map (\<lambda>c. map (Pair (k c)) ys) cs) \<Longrightarrow> set (map f rs) \<subseteq> set (map k cs)"
proof -
  assume e: "map (\<lambda>r. (f r, h r)) rs = concat (map (\<lambda>c. map (Pair (k c)) ys) cs)"
  have "map f rs = map fst (map (\<lambda>r. (f r, h r)) rs)" by simp
  also have "\<dots> = map fst (concat (map (\<lambda>c. map (Pair (k c)) ys) cs))" by (simp only: e)
  finally show ?thesis by auto
qed

lemma concat_if_filter:
  "concat (map (\<lambda>x. if P x then g x else []) xs) = concat (map g (filter P xs))"
  by (induction xs) auto

lemma dict_get_Inr: "dict_get d k = Inr v \<longleftrightarrow> map_of d k = Some v"
  by (simp add: dict_get_def split: option.splits)

lemma dict_get_Inl: "dict_get d k = Inl e \<longleftrightarrow> map_of d k = None \<and> e = KeyError k"
  by (auto simp: dict_get_def split: option.splits)

lemma py_div_nonzero: "b \<noteq> 0 \<Longrightarrow> py_div a b = Inr (a / b)"
  by (simp add: py_div_def)

end
