(* ===== verification/Database.thy ===== *)
theory Database
  imports Prelude
begin

text \<open>
  The SQLite database behind \<open>conn\<close>, as far as the script uses it: a map from table names
  to table contents, generic in the type \<open>'t\<close> of a table's contents so that the loaders
  can agree on one type of tables (theory \<open>Loader\<close>). Two operations:
  \<^item> \<open>to_sql_replace\<close>: pandas' \<open>df.to_sql(name, conn, if_exists='replace', index=False)\<close>,
    which drops any table of that name and writes the frame in its place;
  \<^item> \<open>select_count\<close>: \<open>SELECT COUNT(*) FROM name\<close> through \<open>pd.read_sql\<close>, which fails
    when the table does not exist.
  The set \<open>write_faults\<close> is the environment's fault model: the tables whose write fails
  (disk full, database locked), raising a database error as sqlite3 would.
  \<open>row_counts\<close> abstracts a database to the number of rows of each table, and
  \<open>summary_spec\<close> specifies a row-count report over that view; the last section shows that
  both operations refine their effect on the view.
\<close>

record 't db =
  tables :: "string \<rightharpoonup> 't"
  write_faults :: "string set"

definition to_sql_replace :: "string \<Rightarrow> 't \<Rightarrow> 't db \<Rightarrow> 't db result" where
  "to_sql_replace name t d =
     (if name \<in> write_faults d then Inl (DatabaseError name)
      else Inr (d\<lparr>tables := (tables d)(name \<mapsto> t)\<rparr>))"

definition select_count :: "('t \<Rightarrow> nat) \<Rightarrow> 't db \<Rightarrow> string \<Rightarrow> nat result" where
  "select_count rows d name =
     (case tables d name of None \<Rightarrow> Inl (DatabaseError name) | Some t \<Rightarrow> Inr (rows t))"

text \<open>The abstract view of a database that the script's summary observes: the number of
  rows of each table, and the specification of the summary over it, which reports every
  requested table with its count or fails on the first one that does not exist.\<close>

definition row_counts :: "('t \<Rightarrow> nat) \<Rightarrow> 't db \<Rightarrow> string \<rightharpoonup> nat" where
  "row_counts rows d = (\<lambda>name. map_option rows (tables d name))"

definition summary_spec :: "(string \<rightharpoonup> nat) \<Rightarrow> string list \<Rightarrow> (string \<times> nat) list result" where
  "summary_spec m names =
     (case filter (\<lambda>t. m t = None) names of
        [] \<Rightarrow> Inr (map (\<lambda>t. (t, the (m t))) names)
      | t # _ \<Rightarrow> Inl (DatabaseError t))"

section \<open>Lemmas\<close>

lemma to_sql_replace_ok:
  "name \<notin> write_faults d \<Longrightarrow>
   to_sql_replace name t d = Inr (d\<lparr>tables := (tables d)(name \<mapsto> t)\<rparr>)"
  by (simp add: to_sql_replace_def)

lemma to_sql_replace_fault:
  "name \<in> write_faults d \<Longrightarrow> to_sql_replace name t d = Inl (DatabaseError name)"
  by (simp add: to_sql_replace_def)

lemma to_sql_replace_Inr:
  "to_sql_replace name t d = Inr d' \<longleftrightarrow>
   name \<notin> write_faults d \<and> d' = d\<lparr>tables := (tables d)(name \<mapsto> t)\<rparr>"
  by (auto simp: to_sql_replace_def)

lemma to_sql_replace_Inl:
  "to_sql_replace name t d = Inl e \<longleftrightarrow> name \<in> write_faults d \<and> e = DatabaseError name"
  by (auto simp: to_sql_replace_def)

lemma to_sql_replace_faults:
  "to_sql_replace name t d = Inr d' \<Longrightarrow> write_faults d' = write_faults d"
  by (auto simp: to_sql_replace_def split: if_splits)

text \<open>Replacement, not append: a second write of a table forgets the first.\<close>

lemma to_sql_replace_twice:
  "to_sql_replace name t d = Inr d' \<Longrightarrow> to_sql_replace name t' d' = to_sql_replace name t' d"
  by (auto simp: to_sql_replace_def split: if_splits)

lemma select_count_Inr:
  "select_count rows d name = Inr n \<longleftrightarrow> (\<exists>t. tables d name = Some t \<and> n = rows t)"
  by (auto simp: select_count_def split: option.splits)

lemma select_count_after_write:
  "to_sql_replace name t d = Inr d' \<Longrightarrow> select_count rows d' name = Inr (rows t)"
  by (auto simp: to_sql_replace_def select_count_def split: if_splits)

section \<open>Refinement of the row-count view\<close>

lemma to_sql_replace_counts:
  "to_sql_replace name t d = Inr d' \<Longrightarrow> row_counts rows d' = (row_counts rows d)(name \<mapsto> rows t)"
  by (auto simp: to_sql_replace_def row_counts_def split: if_splits)

lemma select_count_counts:
  "select_count rows d name = (case row_counts rows d name of None \<Rightarrow> Inl (DatabaseError name) | Some n \<Rightarrow> Inr n)"
  by (simp add: select_count_def row_counts_def split: option.split)

lemma summary_spec_Nil: "summary_spec m [] = Inr []"
  by (simp add: summary_spec_def)

lemma summary_spec_Cons:
  "summary_spec m (t # ts) =
     (case m t of None \<Rightarrow> Inl (DatabaseError t)
      | Some n \<Rightarrow> (case summary_spec m ts of Inl e \<Rightarrow> Inl e | Inr cs \<Rightarrow> Inr ((t, n) # cs)))"
  by (cases "m t") (simp_all add: summary_spec_def split: list.split)

end
