(* ===== verification/Catalog.thy ===== *)
theory Catalog
  imports Prelude
begin

text \<open>
  The country catalog of \<open>load_country_metadata\<close> (\<open>src/load_data.py\<close>, lines 18--77):
  four parallel column literals turned into a pandas frame, one row per country, with an
  empty \<open>population_2023\<close> column added. Region and income group are the source's strings;
  every generator dispatches on those strings. The frame construction raises
  \<open>ValueError\<close> when the columns differ in length, as pandas does.
\<close>

record country =
  country_code :: string
  country_name :: string
  region :: string
  income_group :: string
  population_2023 :: "real option"

section \<open>The column literals of countries_data\<close>

definition country_code_col :: "string list" where
  "country_code_col =
     [''USA'', ''GBR'', ''DEU'', ''FRA'', ''JPN'', ''CHN'', ''IND'', ''BRA'', ''ZAF'',
      ''NGA'', ''KEN'', ''ETH'', ''MEX'', ''ARG'', ''CHL'', ''POL'', ''CZE'', ''HUN'',
      ''RUS'', ''TUR'', ''IDN'', ''THA'', ''VNM'', ''PHL'', ''EGY'', ''MAR'', ''GHA'',
      ''TZA'', ''UGA'', ''RWA'', ''SWE'', ''NOR'', ''DNK'', ''FIN'', ''NLD'', ''BEL'',
      ''AUT'', ''CHE'', ''ITA'', ''ESP'', ''PRT'', ''GRC'', ''CAN'', ''AUS'', ''NZL'',
      ''KOR'', ''SGP'', ''MYS'']"

definition country_name_col :: "string list" where
  "country_name_col =
     [''United States'', ''United Kingdom'', ''Germany'', ''France'', ''Japan'', ''China'',
      ''India'', ''Brazil'', ''South Africa'', ''Nigeria'', ''Kenya'', ''Ethiopia'',
      ''Mexico'', ''Argentina'', ''Chile'', ''Poland'', ''Czech Republic'', ''Hungary'',
      ''Russia'', ''Turkey'', ''Indonesia'', ''Thailand'', ''Vietnam'', ''Philippines'',
      ''Egypt'', ''Morocco'', ''Ghana'', ''Tanzania'', ''Uganda'', ''Rwanda'', ''Sweden'',
      ''Norway'', ''Denmark'', ''Finland'', ''Netherlands'', ''Belgium'', ''Austria'',
      ''Switzerland'', ''Italy'', ''Spain'', ''Portugal'', ''Greece'', ''Canada'',
      ''Australia'', ''New Zealand'', ''South Korea'', ''Singapore'', ''Malaysia'']"

definition region_col :: "string list" where
  "region_col =
     [''North America'', ''Europe & Central Asia'', ''Europe & Central Asia'',
      ''Europe & Central Asia'', ''East Asia & Pacific'', ''East Asia & Pacific'',
      ''South Asia'', ''Latin America & Caribbean'', ''Sub-Saharan Africa'',
      ''Sub-Saharan Africa'', ''Sub-Saharan Africa'', ''Sub-Saharan Africa'',
      ''Latin America & Caribbean'', ''Latin America & Caribbean'',
      ''Latin America & Caribbean'', ''Europe & Central Asia'', ''Europe & Central Asia'',
      ''Europe & Central Asia'', ''Europe & Central Asia'', ''Europe & Central Asia'',
      ''East Asia & Pacific'', ''East Asia & Pacific'', ''East Asia & Pacific'',
      ''East Asia & Pacific'', ''Middle East & North Africa'',
      ''Middle East & North Africa'', ''Sub-Saharan Africa'', ''Sub-Saharan Africa'',
      ''Sub-Saharan Africa'', ''Sub-Saharan Africa'', ''Europe & Central Asia'',
      ''Europe & Central Asia'', ''Europe & Central Asia'', ''Europe & Central Asia'',
      ''Europe & Central Asia'', ''Europe & Central Asia'', ''Europe & Central Asia'',
      ''Europe & Central Asia'', ''Europe & Central Asia'', ''Europe & Central Asia'',
      ''Europe & Central Asia'', ''Europe & Central Asia'', ''North America'',
      ''East Asia & Pacific'', ''East Asia & Pacific'', ''East Asia & Pacific'',
      ''East Asia & Pacific'', ''East Asia & Pacific'']"

definition income_group_col :: "string list" where
  "income_group_col =
     [''High income'', ''High income'', ''High income'', ''High income'', ''High income'',
      ''Upper middle income'', ''Lower middle income'', ''Upper middle income'',
      ''Upper middle income'', ''Lower middle income'', ''Lower middle income'',
      ''Low income'', ''Upper middle income'', ''Upper middle income'', ''High income'',
      ''High income'', ''High income'', ''High income'', ''Upper middle income'',
      ''Upper middle income'', ''Upper middle income'', ''Upper middle income'',
      ''Lower middle income'', ''Lower middle income'', ''Lower middle income'',
      ''Lower middle income'', ''Lower middle income'', ''Lower middle income'',
      ''Low income'', ''Low income'', ''High income'', ''High income'', ''High income'',
      ''High income'', ''High income'', ''High income'', ''High income'', ''High income'',
      ''High income'', ''High income'', ''High income'', ''High income'', ''High income'',
      ''High income'', ''High income'', ''High income'', ''High income'',
      ''Upper middle income'']"

section \<open>The frame\<close>

text \<open>\<open>pd.DataFrame(countries_data)\<close> zips the columns row by row; then
  \<open>df['population_2023'] = None\<close> adds an empty column.\<close>

fun country_rows :: "string list \<Rightarrow> string list \<Rightarrow> string list \<Rightarrow> string list \<Rightarrow> country list" where
  "country_rows (c # cs) (n # ns) (r # rs) (g # gs) =
     \<lparr>country_code = c, country_name = n, region = r, income_group = g,
      population_2023 = None\<rparr> # country_rows cs ns rs gs"
| "country_rows _ _ _ _ = []"

definition country_frame :: "string list \<Rightarrow> string list \<Rightarrow> string list \<Rightarrow> string list \<Rightarrow> country list result" where
  "country_frame cs ns rs gs =
     (if length ns = length cs \<and> length rs = length cs \<and> length gs = length cs
      then Inr (country_rows cs ns rs gs)
      else Inl (ValueError ''All arrays must be of the same length''))"

definition countries_frame :: "country list result" where
  "countries_frame = country_frame country_code_col country_name_col region_col income_group_col"

definition catalog :: "country list" where
  "catalog = country_rows country_code_col country_name_col region_col income_group_col"

section \<open>Lemmas\<close>

lemma length_country_rows:
  "length ns = length cs \<Longrightarrow> length rs = length cs \<Longrightarrow> length gs = length cs \<Longrightarrow>
   length (country_rows cs ns rs gs) = length cs"
  by (induction cs ns rs gs rule: country_rows.induct) auto

lemma map_code_country_rows:
  "length ns = length cs \<Longrightarrow> length rs = length cs \<Longrightarrow> length gs = length cs \<Longrightarrow>
   map country_code (country_rows cs ns rs gs) = cs"
  by (induction cs ns rs gs rule: country_rows.induct) auto

lemma map_group_country_rows:
  "length ns = length cs \<Longrightarrow> length rs = length cs \<Longrightarrow> length gs = length cs \<Longrightarrow>
   map income_group (country_rows cs ns rs gs) = gs"
  by (induction cs ns rs gs rule: country_rows.induct) auto

lemma map_region_country_rows:
  "length ns = length cs \<Longrightarrow> length rs = length cs \<Longrightarrow> length gs = length cs \<Longrightarrow>
   map region (country_rows cs ns rs gs) = rs"
  by (induction cs ns rs gs rule: country_rows.induct) auto

lemma col_lengths:
  "length country_code_col = 48" "length country_name_col = 48"
  "length region_col = 48" "length income_group_col = 48"
  by (simp_all add: country_code_col_def country_name_col_def region_col_def income_group_col_def)

lemma map_code_catalog: "map country_code catalog = country_code_col"
  by (simp add: catalog_def map_code_country_rows col_lengths)

lemma map_group_catalog: "map income_group catalog = income_group_col"
  by (simp add: catalog_def map_group_country_rows col_lengths)

lemma map_region_catalog: "map region catalog = region_col"
  by (simp add: catalog_def map_region_country_rows col_lengths)

lemma length_catalog: "length catalog = 48"
  using arg_cong [OF map_code_catalog, of length] by (simp add: col_lengths)

lemma catalog_groups:
  "set (map income_group catalog) =
   {''High income'', ''Upper middle income'', ''Lower middle income'', ''Low income''}"
  by (simp add: map_group_catalog income_group_col_def insert_commute)

lemma catalog_regions:
  "set (map region catalog) =
   {''North America'', ''Europe & Central Asia'', ''East Asia & Pacific'', ''South Asia'',
    ''Latin America & Caribbean'', ''Sub-Saharan Africa'', ''Middle East & North Africa''}"
  by (simp add: map_region_catalog region_col_def insert_commute)

lemma catalog_codes_distinct: "distinct (map country_code catalog)"
  by (simp add: map_code_catalog country_code_col_def)

lemma catalog_frame_ok: "countries_frame = Inr catalog"
  by (simp add: countries_frame_def country_frame_def catalog_def col_lengths)

end
