(* ===== verification/Gdp.thy ===== *)
theory Gdp
  imports Prelude Catalog
begin

text \<open>
  The GDP generator, the row-building part of \<open>load_gdp_data\<close> (\<open>src/load_data.py\<close>,
  lines 82--130). Per country: a base GDP per capita drawn from the income group's range
  (a dictionary lookup that raises \<open>KeyError\<close> on an unknown group), then for each year
  of \<open>range(2015, 2024)\<close> a growth rate drawn from the group's range, overwritten in 2020
  by a second draw from \<open>[-5, -2)\<close>, and the value \<open>base * (1 + growth/100) ** (year - 2015)\<close>.
  Writing the rows to the database is in theory \<open>Loader\<close>.
\<close>

record gdp_row =
  gdp_country_code :: string
  gdp_year :: int
  gdp_per_capita_current_usd :: real
  gdp_total_current_usd :: "real option"
  gdp_growth_annual_pct :: real

definition gdp_ranges :: "(string \<times> real \<times> real) list" where
  "gdp_ranges =
     [(''High income'', 40000, 80000),
      (''Upper middle income'', 8000, 20000),
      (''Lower middle income'', 2000, 8000),
      (''Low income'', 500, 2000)]"

definition gdp_growth_draw :: "string \<Rightarrow> rng \<Rightarrow> real \<times> rng" where
  "gdp_growth_draw ig s =
     (if ig = ''High income'' then uniform 1 3 s
      else if ig = ''Upper middle income'' then uniform 3 7 s
      else if ig = ''Lower middle income'' then uniform 4 8 s
      else uniform 3 6 s)"

definition gdp_year_row :: "string \<Rightarrow> string \<Rightarrow> real \<Rightarrow> int \<Rightarrow> rng \<Rightarrow> (gdp_row list \<times> rng) result" where
  "gdp_year_row code ig base_gdp year s =
     (let (growth, s1) = gdp_growth_draw ig s;
          (growth, s2) = (if year = 2020 then uniform (-5) (-2) s1 else (growth, s1));
          years_since_base = year - 2015;
          gdp = base_gdp * (1 + growth / 100) powi years_since_base
      in Inr ([\<lparr>gdp_country_code = code, gdp_year = year,
                gdp_per_capita_current_usd = round2 gdp, gdp_total_current_usd = None,
                gdp_growth_annual_pct = round2 growth\<rparr>], s2))"

definition gdp_country :: "country \<Rightarrow> rng \<Rightarrow> (gdp_row list \<times> rng) result" where
  "gdp_country c s =
     (case dict_get gdp_ranges (income_group c) of
        Inl e \<Rightarrow> Inl e
      | Inr (min_gdp, max_gdp) \<Rightarrow>
          (let (base_gdp, s1) = uniform min_gdp max_gdp s
           in loop_rows (gdp_year_row (country_code c) (income_group c) base_gdp)
                (py_range 2015 2024) s1))"

definition gdp_data :: "country list \<Rightarrow> rng \<Rightarrow> (gdp_row list \<times> rng) result" where
  "gdp_data countries s = loop_rows gdp_country countries s"

section \<open>Lemmas: one year\<close>

lemma gdp_growth_draw_snd [rng_simps]: "snd (gdp_growth_draw ig s) = stl s"
  by (simp add: gdp_growth_draw_def uniform_eq)

lemma gdp_growth_draw_bounds:
  assumes "valid_rng s"
  shows "1 \<le> fst (gdp_growth_draw ig s) \<and> fst (gdp_growth_draw ig s) < 8"
  using uniform_bounds [OF assms, of 1 3] uniform_bounds [OF assms, of 3 7]
    uniform_bounds [OF assms, of 4 8] uniform_bounds [OF assms, of 3 6]
  by (simp add: gdp_growth_draw_def)

lemma gdp_year_row_eq:
  "gdp_year_row code ig b y s =
     (let g = (if y = 2020 then -5 + 3 * shd (stl s) else fst (gdp_growth_draw ig s))
      in Inr ([\<lparr>gdp_country_code = code, gdp_year = y,
                gdp_per_capita_current_usd = round2 (b * (1 + g / 100) powi (y - 2015)),
                gdp_total_current_usd = None, gdp_growth_annual_pct = round2 g\<rparr>],
              sdrop (if y = 2020 then 2 else 1) s))"
  by (simp add: gdp_year_row_def uniform_eq Let_def case_prod_beta gdp_growth_draw_snd sdrop_numeral)

lemma gdp_year_row_ok:
  "\<exists>rs. gdp_year_row code ig b y s = Inr (rs, sdrop (if y = 2020 then 2 else 1) s)"
  by (simp add: gdp_year_row_eq Let_def)

lemma gdp_year_row_keys:
  "gdp_year_row code ig b y s = Inr (rs, s') \<Longrightarrow>
   map (\<lambda>r. (gdp_country_code r, gdp_year r)) rs = [(code, y)]"
  by (auto simp: gdp_year_row_eq Let_def)

lemma gdp_year_row_spec:
  assumes "valid_rng s" and "gdp_year_row code ig b y s = Inr (rs, s')"
  shows "valid_rng s' \<and> (\<forall>r \<in> set rs. gdp_country_code r = code \<and> gdp_year r = y \<and>
           gdp_total_current_usd r = None \<and>
           (\<exists>g. gdp_per_capita_current_usd r = round2 (b * (1 + g / 100) powi (y - 2015)) \<and>
                gdp_growth_annual_pct r = round2 g \<and>
                (if y = 2020 then -5 \<le> g \<and> g < -2 else 1 \<le> g \<and> g < 8)))"
proof -
  define g where "g = (if y = 2020 then -5 + 3 * shd (stl s) else fst (gdp_growth_draw ig s))"
  have v1: "valid_rng (stl s)" using assms(1) by (rule valid_rng_stl)
  have bounds: "if y = 2020 then -5 \<le> g \<and> g < -2 else 1 \<le> g \<and> g < 8"
    using valid_rng_shd [OF v1] gdp_growth_draw_bounds [OF assms(1), of ig] by (simp add: g_def)
  have v': "valid_rng s'" and rs:
    "rs = [\<lparr>gdp_country_code = code, gdp_year = y,
            gdp_per_capita_current_usd = round2 (b * (1 + g / 100) powi (y - 2015)),
            gdp_total_current_usd = None, gdp_growth_annual_pct = round2 g\<rparr>]"
    using assms valid_rng_sdrop [OF assms(1), of "if y = 2020 then 2 else 1"]
    by (simp_all add: gdp_year_row_eq Let_def g_def)
  show ?thesis using v' bounds unfolding rs by auto
qed

section \<open>Lemmas: one country\<close>

lemma gdp_years_sum: "sum_list (map (\<lambda>y. if y = 2020 then 2 else 1) (py_range 2015 2024)) = (10::nat)"
  by (simp add: py_range_def)

lemma gdp_country_unknown:
  "map_of gdp_ranges (income_group c) = None \<Longrightarrow> gdp_country c s = Inl (KeyError (income_group c))"
  by (simp add: gdp_country_def dict_get_def)

lemma gdp_country_known:
  "map_of gdp_ranges (income_group c) = Some (lo, hi) \<Longrightarrow>
   gdp_country c s = loop_rows (gdp_year_row (country_code c) (income_group c) (lo + (hi - lo) * shd s))
                       (py_range 2015 2024) (stl s)"
  by (simp add: gdp_country_def dict_get_def uniform_eq)

lemma gdp_ranges_bounds:
  "map_of gdp_ranges ig = Some (lo, hi) \<Longrightarrow> 500 \<le> lo \<and> lo < hi"
  by (auto simp: gdp_ranges_def split: if_splits)

lemma gdp_country_ok:
  assumes "valid_rng s" and "map_of gdp_ranges (income_group c) \<noteq> None"
  shows "\<exists>rs. gdp_country c s = Inr (rs, sdrop 11 s)"
proof -
  obtain lo hi where r: "map_of gdp_ranges (income_group c) = Some (lo, hi)"
    using assms(2) by auto
  have "\<exists>rs. loop_rows (gdp_year_row (country_code c) (income_group c) (lo + (hi - lo) * shd s))
              (py_range 2015 2024) (stl s) =
            Inr (rs, sdrop (sum_list (map (\<lambda>y. if y = 2020 then 2 else 1) (py_range 2015 2024))) (stl s))"
    by (rule loop_rows_ok) (use assms(1) valid_rng_stl gdp_year_row_ok in auto)
  then show ?thesis by (simp add: gdp_country_known [OF r] gdp_years_sum sdrop_stl)
qed

lemma gdp_country_keys:
  assumes "gdp_country c s = Inr (rs, s')"
  shows "map (\<lambda>r. (gdp_country_code r, gdp_year r)) rs = map (Pair (country_code c)) (py_range 2015 2024)"
proof -
  obtain lo hi where r: "map_of gdp_ranges (income_group c) = Some (lo, hi)"
    using assms by (cases "map_of gdp_ranges (income_group c)") (auto simp: gdp_country_unknown)
  have "map (\<lambda>r. (gdp_country_code r, gdp_year r)) rs =
        concat (map (\<lambda>y. [(country_code c, y)]) (py_range 2015 2024))"
    using assms unfolding gdp_country_known [OF r]
    by (rule loop_rows_map) (rule gdp_year_row_keys)
  then show ?thesis by simp
qed

lemma gdp_country_spec:
  assumes "valid_rng s" and "gdp_country c s = Inr (rs, s')"
  shows "valid_rng s' \<and> (\<exists>lo hi b. map_of gdp_ranges (income_group c) = Some (lo, hi) \<and> lo \<le> b \<and> b < hi \<and>
     (\<forall>r \<in> set rs. gdp_country_code r = country_code c \<and> gdp_total_current_usd r = None \<and>
        (\<exists>g. gdp_per_capita_current_usd r = round2 (b * (1 + g / 100) powi (gdp_year r - 2015)) \<and>
             gdp_growth_annual_pct r = round2 g \<and>
             (if gdp_year r = 2020 then -5 \<le> g \<and> g < -2 else 1 \<le> g \<and> g < 8))))"
proof -
  obtain lo hi where r: "map_of gdp_ranges (income_group c) = Some (lo, hi)"
    using assms(2) by (cases "map_of gdp_ranges (income_group c)") (auto simp: gdp_country_unknown)
  define b where "b = lo + (hi - lo) * shd s"
  have "lo < hi" using gdp_ranges_bounds [OF r] by simp
  then have bb: "lo \<le> b \<and> b < hi"
    using uniform_bounds [OF assms(1), of lo hi] by (simp add: uniform_fst b_def)
  have l: "loop_rows (gdp_year_row (country_code c) (income_group c) b) (py_range 2015 2024) (stl s) =
           Inr (rs, s')"
    using assms(2) by (simp add: gdp_country_known [OF r] b_def)
  have "valid_rng s' \<and> (\<forall>r \<in> set rs. \<exists>y \<in> set (py_range 2015 2024).
          gdp_country_code r = country_code c \<and> gdp_year r = y \<and> gdp_total_current_usd r = None \<and>
          (\<exists>g. gdp_per_capita_current_usd r = round2 (b * (1 + g / 100) powi (y - 2015)) \<and>
               gdp_growth_annual_pct r = round2 g \<and>
               (if y = 2020 then -5 \<le> g \<and> g < -2 else 1 \<le> g \<and> g < 8)))"
    by (rule loop_rows_all [OF l valid_rng_stl [OF assms(1)]]) (rule gdp_year_row_spec)
  then show ?thesis using r bb by fastforce
qed

section \<open>Properties of the generator\<close>

lemma gdp_data_ok:
  assumes "valid_rng s" and "\<forall>c \<in> set cs. map_of gdp_ranges (income_group c) \<noteq> None"
  shows "\<exists>rs. gdp_data cs s = Inr (rs, sdrop (11 * length cs) s)"
proof -
  have "\<exists>rs. loop_rows gdp_country cs s = Inr (rs, sdrop (sum_list (map (\<lambda>_. 11) cs)) s)"
    by (rule loop_rows_ok) (use assms gdp_country_ok in auto)
  then show ?thesis by (simp add: gdp_data_def sum_list_triv mult.commute)
qed

lemma gdp_data_keys:
  "gdp_data cs s = Inr (rs, s') \<Longrightarrow>
   map (\<lambda>r. (gdp_country_code r, gdp_year r)) rs =
   concat (map (\<lambda>c. map (Pair (country_code c)) (py_range 2015 2024)) cs)"
  unfolding gdp_data_def by (erule loop_rows_map) (rule gdp_country_keys)

lemma gdp_country_Inl:
  assumes "gdp_country c s = Inl e"
  shows "map_of gdp_ranges (income_group c) = None \<and> e = KeyError (income_group c)"
proof (cases "map_of gdp_ranges (income_group c)")
  case None
  with assms show ?thesis by (simp add: gdp_country_unknown)
next
  case (Some lohi)
  then obtain lo hi where r: "map_of gdp_ranges (income_group c) = Some (lo, hi)"
    by (cases lohi) auto
  have "loop_rows (gdp_year_row (country_code c) (income_group c) (lo + (hi - lo) * shd s))
          (py_range 2015 2024) (stl s) = Inl e"
    using assms by (simp add: gdp_country_known [OF r])
  then obtain y s' where
    "gdp_year_row (country_code c) (income_group c) (lo + (hi - lo) * shd s) y s' = Inl e"
    by (blast dest: loop_rows_Inl)
  then show ?thesis by (simp add: gdp_year_row_eq Let_def)
qed

lemma gdp_data_unknown_group:
  "gdp_data cs s = Inl e \<Longrightarrow> \<exists>c \<in> set cs. map_of gdp_ranges (income_group c) = None \<and> e = KeyError (income_group c)"
  unfolding gdp_data_def by (blast dest: loop_rows_Inl gdp_country_Inl)

text \<open>C4: in every generated GDP table, each 2020 row records a growth rate in
  \<open>[-5, -2]\<close>, whatever the country's income group.\<close>

theorem gdp_2020_shock:
  assumes "valid_rng s" and "gdp_data cs s = Inr (rs, s')"
  shows "\<forall>r \<in> set rs. gdp_year r = 2020 \<longrightarrow> -5 \<le> gdp_growth_annual_pct r \<and> gdp_growth_annual_pct r \<le> -2"
proof -
  have "valid_rng s' \<and> (\<forall>r \<in> set rs. \<exists>c \<in> set cs.
          gdp_year r = 2020 \<longrightarrow> -5 \<le> gdp_growth_annual_pct r \<and> gdp_growth_annual_pct r \<le> -2)"
    using assms(2,1) unfolding gdp_data_def
  proof (rule loop_rows_all)
    fix c s rs s'
    assume "valid_rng s" "gdp_country c s = Inr (rs, s')"
    from gdp_country_spec [OF this] show "valid_rng s' \<and> (\<forall>r \<in> set rs.
          gdp_year r = 2020 \<longrightarrow> -5 \<le> gdp_growth_annual_pct r \<and> gdp_growth_annual_pct r \<le> -2)"
      by (fastforce intro: round2_ge_neg_numeral round2_le_neg_numeral)
  qed
  then show ?thesis by blast
qed

text \<open>C20: the recorded 2020 growth rate does not describe the series: for every
  country, the 2020 GDP per capita is below 90\% of the 2019 value, although the 2020
  growth column says at least \<open>-5\%\<close>. Each year's value is the base compounded with that
  year's freshly drawn rate over all years since 2015, so the 2020 shock is applied five
  times and replaces the four years of growth before it.\<close>

theorem gdp_2020_drop:
  assumes v: "valid_rng s" and d: "gdp_country c s = Inr (rs, s')"
    and r1: "r1 \<in> set rs" "gdp_year r1 = 2019"
    and r2: "r2 \<in> set rs" "gdp_year r2 = 2020"
  shows "-5 \<le> gdp_growth_annual_pct r2 \<and>
         gdp_per_capita_current_usd r2 < 9/10 * gdp_per_capita_current_usd r1"
proof -
  obtain lo hi b where r: "map_of gdp_ranges (income_group c) = Some (lo, hi)" and b: "lo \<le> b"
    and rows: "\<forall>r \<in> set rs. \<exists>g. gdp_per_capita_current_usd r = round2 (b * (1 + g / 100) powi (gdp_year r - 2015)) \<and>
               gdp_growth_annual_pct r = round2 g \<and>
               (if gdp_year r = 2020 then -5 \<le> g \<and> g < -2 else 1 \<le> g \<and> g < 8)"
    using gdp_country_spec [OF v d] by blast
  have b500: "500 \<le> b" using gdp_ranges_bounds [OF r] b by simp
  obtain g1 where g1: "gdp_per_capita_current_usd r1 = round2 (b * (1 + g1 / 100) ^ 4)" "1 \<le> g1"
    using rows r1 by fastforce
  obtain g2 where g2: "gdp_per_capita_current_usd r2 = round2 (b * (1 + g2 / 100) ^ 5)"
    "gdp_growth_annual_pct r2 = round2 g2" "-5 \<le> g2" "g2 < -2"
    using rows r2 by fastforce
  define A where "A = b * (1 + g1 / 100) ^ 4"
  define B where "B = b * (1 + g2 / 100) ^ 5"
  have "(101/100) ^ 4 \<le> (1 + g1 / 100) ^ 4" by (rule power_mono) (use g1 in auto)
  moreover have "(104/100::real) \<le> (101/100) ^ 4" by (simp add: power_divide)
  ultimately have p1: "b * (104/100) \<le> A" unfolding A_def using b500 by (intro mult_left_mono) simp_all
  have "(1 + g2 / 100) ^ 5 \<le> (98/100) ^ 5" by (rule power_mono) (use g2 in auto)
  moreover have "(98/100::real) ^ 5 \<le> 91/100" by (simp add: power_divide)
  ultimately have p2: "B \<le> b * (91/100)" unfolding B_def using b500 by (intro mult_left_mono) simp_all
  have e1: "A - 1/200 \<le> gdp_per_capita_current_usd r1"
    using round2_error [of A] g1(1) unfolding A_def [symmetric] abs_le_iff by linarith
  have e2: "gdp_per_capita_current_usd r2 \<le> B + 1/200"
    using round2_error [of B] g2(1) unfolding B_def [symmetric] abs_le_iff by linarith
  have lin: "\<And>x y. x \<le> b * (91/100) + 1/200 \<Longrightarrow> b * (104/100) - 1/200 \<le> y \<Longrightarrow> x < 9/10 * y"
    using b500 by (simp add: field_simps)
  have "gdp_per_capita_current_usd r2 < 9/10 * gdp_per_capita_current_usd r1"
    by (rule lin) (use p1 p2 e1 e2 in linarith)+
  moreover have "-5 \<le> gdp_growth_annual_pct r2"
    using round2_ge_neg_numeral [where x = g2] g2 by simp
  ultimately show ?thesis by simp
qed

section \<open>Witnesses\<close>

lemma catalog_gdp_groups: "\<forall>c \<in> set catalog. map_of gdp_ranges (income_group c) \<noteq> None"
proof -
  have "\<forall>ig \<in> set (map income_group catalog). map_of gdp_ranges ig \<noteq> None"
    unfolding catalog_groups by (simp add: gdp_ranges_def)
  then show ?thesis by simp
qed

theorem gdp_2020_shock_witness:
  "\<exists>rs s'. valid_rng (sconst (1/2)) \<and> gdp_data catalog (sconst (1/2)) = Inr (rs, s') \<and>
     (\<forall>r \<in> set rs. gdp_year r = 2020 \<longrightarrow> -5 \<le> gdp_growth_annual_pct r \<and> gdp_growth_annual_pct r \<le> -2)"
proof -
  have v: "valid_rng (sconst (1/2))" by (simp add: valid_rng_sconst)
  obtain rs s' where d: "gdp_data catalog (sconst (1/2)) = Inr (rs, s')"
    using gdp_data_ok [OF v catalog_gdp_groups] by blast
  show ?thesis using v d gdp_2020_shock [OF v d] by blast
qed

theorem gdp_2020_drop_witness:
  "\<exists>rs s' r1 r2. valid_rng (sconst (1/2)) \<and> gdp_country (hd catalog) (sconst (1/2)) = Inr (rs, s') \<and>
     r1 \<in> set rs \<and> gdp_year r1 = 2019 \<and> r2 \<in> set rs \<and> gdp_year r2 = 2020 \<and>
     -5 \<le> gdp_growth_annual_pct r2 \<and>
     gdp_per_capita_current_usd r2 < 9/10 * gdp_per_capita_current_usd r1"
proof -
  have v: "valid_rng (sconst (1/2))" by (simp add: valid_rng_sconst)
  have "hd catalog \<in> set catalog" using length_catalog by (intro hd_in_set) auto
  then have "map_of gdp_ranges (income_group (hd catalog)) \<noteq> None"
    using catalog_gdp_groups by blast
  then obtain rs s' where d: "gdp_country (hd catalog) (sconst (1/2)) = Inr (rs, s')"
    using gdp_country_ok [OF v] by blast
  have keys: "(country_code (hd catalog), 2019) \<in> set (map (\<lambda>r. (gdp_country_code r, gdp_year r)) rs)"
             "(country_code (hd catalog), 2020) \<in> set (map (\<lambda>r. (gdp_country_code r, gdp_year r)) rs)"
    unfolding gdp_country_keys [OF d] by (simp_all add: py_range_def)
  obtain r1 r2 where r: "r1 \<in> set rs" "gdp_year r1 = 2019" "r2 \<in> set rs" "gdp_year r2 = 2020"
    using keys by auto
  show ?thesis using v d r gdp_2020_drop [OF v d r] by blast
qed

end
