(* ===== verification/GdpSpec.thy ===== *)
theory GdpSpec
  imports Gdp
begin

text \<open>
  An abstract specification of the GDP series of one country, after spec section 4.2:
  a base GDP per capita in the income group's range, one growth rate per year in the
  group's range except 2020, whose rate is in \<open>[-5, -2)\<close>, and the stored values
  \<open>round(base * (1 + g/100) ** (year - 2015), 2)\<close> and \<open>round(g, 2)\<close>. The refinement
  theorem shows that the rows \<open>gdp_country\<close> produces over all valid random states are
  exactly the series of this specification: every output is a specified series, and
  every specified series is the output for some random state.
\<close>

definition growth_bounds :: "string \<Rightarrow> real \<times> real" where
  "growth_bounds ig =
     (if ig = ''High income'' then (1, 3)
      else if ig = ''Upper middle income'' then (3, 7)
      else if ig = ''Lower middle income'' then (4, 8)
      else (3, 6))"

definition year_growth_ok :: "string \<Rightarrow> int \<Rightarrow> real \<Rightarrow> bool" where
  "year_growth_ok ig y g =
     (if y = 2020 then -5 \<le> g \<and> g < -2 else fst (growth_bounds ig) \<le> g \<and> g < snd (growth_bounds ig))"

definition gdp_row_spec :: "string \<Rightarrow> real \<Rightarrow> int \<Rightarrow> real \<Rightarrow> gdp_row" where
  "gdp_row_spec code b y g =
     \<lparr>gdp_country_code = code, gdp_year = y,
      gdp_per_capita_current_usd = round2 (b * (1 + g / 100) powi (y - 2015)),
      gdp_total_current_usd = None, gdp_growth_annual_pct = round2 g\<rparr>"

definition gdp_series_ok :: "country \<Rightarrow> real \<Rightarrow> real list \<Rightarrow> bool" where
  "gdp_series_ok c b gs =
     (case map_of gdp_ranges (income_group c) of
        None \<Rightarrow> False
      | Some (lo, hi) \<Rightarrow> lo \<le> b \<and> b < hi \<and> list_all2 (year_growth_ok (income_group c)) (py_range 2015 2024) gs)"

text \<open>The random draws that make one year produce the growth \<open>g\<close>: the group draw, and
  in 2020 the shock draw that overwrites it.\<close>

definition year_draws :: "string \<Rightarrow> int \<Rightarrow> real \<Rightarrow> real list" where
  "year_draws ig y g =
     (if y = 2020 then [0, (g + 5) / 3]
      else [(g - fst (growth_bounds ig)) / (snd (growth_bounds ig) - fst (growth_bounds ig))])"

section \<open>Lemmas\<close>

lemma gdp_growth_draw_bounds_eq:
  "gdp_growth_draw ig s = uniform (fst (growth_bounds ig)) (snd (growth_bounds ig)) s"
  by (simp add: gdp_growth_draw_def growth_bounds_def)

lemma growth_bounds_lt: "fst (growth_bounds ig) < snd (growth_bounds ig)"
  by (simp add: growth_bounds_def)

lemma gdp_year_row_draw:
  "gdp_year_row code ig b y s =
     Inr ([gdp_row_spec code b y (if y = 2020 then -5 + 3 * shd (stl s) else fst (gdp_growth_draw ig s))],
          sdrop (if y = 2020 then 2 else 1) s)"
  by (simp add: gdp_year_row_eq gdp_row_spec_def Let_def)

lemma year_growth_ok_draw:
  assumes "valid_rng s"
  shows "year_growth_ok ig y (if y = 2020 then -5 + 3 * shd (stl s) else fst (gdp_growth_draw ig s))"
  using valid_rng_shd [OF valid_rng_stl [OF assms]]
    uniform_bounds [OF assms growth_bounds_lt [of ig]]
  by (simp add: year_growth_ok_def gdp_growth_draw_bounds_eq)

lemma year_draws_valid: "year_growth_ok ig y g \<Longrightarrow> set (year_draws ig y g) \<subseteq> {0..<1}"
  using uniform_inverse [OF growth_bounds_lt [of ig], of g]
  by (auto simp: year_draws_def year_growth_ok_def)

lemma gdp_year_row_year_draws:
  assumes "year_growth_ok ig y g"
  shows "gdp_year_row code ig b y (year_draws ig y g @- t) = Inr ([gdp_row_spec code b y g], t)"
proof (cases "y = 2020")
  case True
  have "(3 * g + 15) / 3 - 5 = g" by (simp add: field_simps)
  then show ?thesis using True by (simp add: gdp_year_row_draw year_draws_def sdrop_numeral)
next
  case False
  then show ?thesis using assms uniform_inverse [OF growth_bounds_lt [of ig], of g]
    by (simp add: gdp_year_row_draw year_draws_def year_growth_ok_def gdp_growth_draw_bounds_eq uniform_eq)
qed

lemma gdp_year_row_decode:
  "valid_rng s \<Longrightarrow> \<exists>g s1. year_growth_ok ig y g \<and> gdp_year_row code ig b y s = Inr ([gdp_row_spec code b y g], s1) \<and>
     valid_rng s1"
  using year_growth_ok_draw [of s ig y] valid_rng_sdrop [of s] by (auto simp: gdp_year_row_draw)

section \<open>Refinement\<close>

text \<open>C12: \<open>gdp_country\<close> refines the specification exactly: the row lists it produces
  under valid random states are precisely the specified series, so neither a value the
  spec forbids nor a gap in what the spec allows.\<close>

theorem gdp_country_refines_spec:
  "(\<exists>s s'. valid_rng s \<and> gdp_country c s = Inr (rs, s')) \<longleftrightarrow>
   (\<exists>b gs. gdp_series_ok c b gs \<and> rs = map2 (gdp_row_spec (country_code c) b) (py_range 2015 2024) gs)"
proof
  assume "\<exists>s s'. valid_rng s \<and> gdp_country c s = Inr (rs, s')"
  then obtain s s' where v: "valid_rng s" and r: "gdp_country c s = Inr (rs, s')" by blast
  obtain lo hi where rg: "map_of gdp_ranges (income_group c) = Some (lo, hi)"
    using r by (cases "map_of gdp_ranges (income_group c)") (auto simp: gdp_country_unknown)
  define b where "b = lo + (hi - lo) * shd s"
  have "lo \<le> b \<and> b < hi"
    using uniform_bounds [OF v, of lo hi] gdp_ranges_bounds [OF rg] by (simp add: b_def uniform_fst)
  moreover have "loop_rows (gdp_year_row (country_code c) (income_group c) b) (py_range 2015 2024) (stl s) =
      Inr (rs, s')"
    using r by (simp add: gdp_country_known [OF rg] b_def)
  then obtain gs where "list_all2 (year_growth_ok (income_group c)) (py_range 2015 2024) gs"
      "rs = map2 (gdp_row_spec (country_code c) b) (py_range 2015 2024) gs"
    using loop_rows_sound [OF valid_rng_stl [OF v], where ok = "year_growth_ok (income_group c)"]
      gdp_year_row_decode by blast
  ultimately show "\<exists>b gs. gdp_series_ok c b gs \<and> rs = map2 (gdp_row_spec (country_code c) b) (py_range 2015 2024) gs"
    using rg by (auto simp: gdp_series_ok_def)
next
  assume "\<exists>b gs. gdp_series_ok c b gs \<and> rs = map2 (gdp_row_spec (country_code c) b) (py_range 2015 2024) gs"
  then obtain b gs where ok: "gdp_series_ok c b gs"
    and rs: "rs = map2 (gdp_row_spec (country_code c) b) (py_range 2015 2024) gs" by blast
  obtain lo hi where rg: "map_of gdp_ranges (income_group c) = Some (lo, hi)" and b: "lo \<le> b" "b < hi"
    and la: "list_all2 (year_growth_ok (income_group c)) (py_range 2015 2024) gs"
    using ok by (auto simp: gdp_series_ok_def split: option.splits)
  define u where "u = (b - lo) / (hi - lo)"
  have u: "0 \<le> u" "u < 1" "lo + (hi - lo) * u = b"
    using uniform_inverse [of lo hi b] b unfolding u_def by linarith+
  let ?s = "u ## (concat (map2 (year_draws (income_group c)) (py_range 2015 2024) gs) @- sconst 0)"
  have "valid_rng ?s"
    using u loop_rows_complete_valid [OF la year_draws_valid]
    by (simp add: valid_rng_SCons valid_rng_shift valid_rng_sconst)
  moreover have "gdp_country c ?s = Inr (rs, sconst 0)"
    using u loop_rows_complete [OF la gdp_year_row_year_draws]
    by (simp add: gdp_country_known [OF rg] rs)
  ultimately show "\<exists>s s'. valid_rng s \<and> gdp_country c s = Inr (rs, s')" by blast
qed

end
