(* ===== verification/Inequality.thy ===== *)
theory Inequality
  imports Prelude Catalog
begin

text \<open>
  The inequality generator, the row-building part of \<open>load_inequality_data\<close>
  (\<open>src/load_data.py\<close>, lines 139--182). Per country: a base Gini coefficient drawn from
  the region's range (a dictionary lookup that raises \<open>KeyError\<close> on an unknown region);
  for each of the five survey years a perturbation in \<open>[-3, 3)\<close> clamped to \<open>[20, 70]\<close>,
  two independent income shares, and the ratio \<open>highest_20 / (lowest_20 * 2)\<close>, a float
  division that raises \<open>ZeroDivisionError\<close> on a zero divisor.
\<close>

record ineq_row =
  ineq_country_code :: string
  ineq_year :: int
  gini_coefficient :: real
  income_share_lowest_20pct :: real
  income_share_highest_20pct :: real
  palma_ratio :: real

definition gini_ranges :: "(string \<times> real \<times> real) list" where
  "gini_ranges =
     [(''Latin America & Caribbean'', 45, 55),
      (''Sub-Saharan Africa'', 40, 65),
      (''Middle East & North Africa'', 35, 42),
      (''South Asia'', 32, 38),
      (''East Asia & Pacific'', 30, 45),
      (''Europe & Central Asia'', 25, 38),
      (''North America'', 38, 42)]"

definition survey_years :: "int list" where
  "survey_years = [2015, 2017, 2019, 2021, 2023]"

definition ineq_year_row :: "string \<Rightarrow> real \<Rightarrow> int \<Rightarrow> rng \<Rightarrow> (ineq_row list \<times> rng) result" where
  "ineq_year_row code base_gini year s =
     (let (noise, s1) = uniform (-3) 3 s;
          gini = base_gini + noise;
          gini = max 20 (min 70 gini);
          (lowest_20, s2) = uniform 4 9 s1;
          (highest_20, s3) = uniform 40 55 s2
      in case py_div highest_20 (lowest_20 * 2) of
           Inl e \<Rightarrow> Inl e
         | Inr q \<Rightarrow>
             Inr ([\<lparr>ineq_country_code = code, ineq_year = year,
                    gini_coefficient = round2 gini,
                    income_share_lowest_20pct = round2 lowest_20,
                    income_share_highest_20pct = round2 highest_20,
                    palma_ratio = round2 q\<rparr>], s3))"

definition ineq_country :: "country \<Rightarrow> rng \<Rightarrow> (ineq_row list \<times> rng) result" where
  "ineq_country c s =
     (case dict_get gini_ranges (region c) of
        Inl e \<Rightarrow> Inl e
      | Inr (min_gini, max_gini) \<Rightarrow>
          (let (base_gini, s1) = uniform min_gini max_gini s
           in loop_rows (ineq_year_row (country_code c) base_gini) survey_years s1))"

definition ineq_data :: "country list \<Rightarrow> rng \<Rightarrow> (ineq_row list \<times> rng) result" where
  "ineq_data countries s = loop_rows ineq_country countries s"

section \<open>Lemmas: one survey year\<close>

lemma ineq_year_row_eq:
  "ineq_year_row code b y s =
     (let gini = max 20 (min 70 (b + (-3 + 6 * shd s)));
          lowest_20 = 4 + 5 * shd (stl s);
          highest_20 = 40 + 15 * shd (stl (stl s))
      in if lowest_20 * 2 = 0 then Inl ZeroDivisionError
         else Inr ([\<lparr>ineq_country_code = code, ineq_year = y,
                    gini_coefficient = round2 gini,
                    income_share_lowest_20pct = round2 lowest_20,
                    income_share_highest_20pct = round2 highest_20,
                    palma_ratio = round2 (highest_20 / (lowest_20 * 2))\<rparr>], sdrop 3 s))"
  by (simp add: ineq_year_row_def uniform_eq py_div_def Let_def sdrop_numeral)

lemma ineq_year_row_ok:
  "valid_rng s \<Longrightarrow> \<exists>rs. ineq_year_row code b y s = Inr (rs, sdrop 3 s)"
  using valid_rng_shd [OF valid_rng_stl, of s] by (simp add: ineq_year_row_eq Let_def)

lemma ineq_year_row_keys:
  "ineq_year_row code b y s = Inr (rs, s') \<Longrightarrow>
   map (\<lambda>r. (ineq_country_code r, ineq_year r)) rs = [(code, y)]"
  by (auto simp: ineq_year_row_eq Let_def split: if_splits)

lemma ineq_year_row_spec:
  assumes "valid_rng s" and "ineq_year_row code b y s = Inr (rs, s')"
  shows "valid_rng s' \<and> (\<forall>r \<in> set rs. ineq_country_code r = code \<and> ineq_year r = y \<and>
           (\<exists>n. -3 \<le> n \<and> n < 3 \<and> gini_coefficient r = round2 (max 20 (min 70 (b + n)))) \<and>
           (\<exists>l h. 4 \<le> l \<and> l < 9 \<and> 40 \<le> h \<and> h < 55 \<and>
              income_share_lowest_20pct r = round2 l \<and> income_share_highest_20pct r = round2 h \<and>
              palma_ratio r = round2 (h / (l * 2))))"
proof -
  have v1: "valid_rng (stl s)" and v2: "valid_rng (stl (stl s))"
    using assms(1) by (simp_all add: valid_rng_stl)
  define n where "n = -3 + 6 * shd s"
  define l where "l = 4 + 5 * shd (stl s)"
  define h where "h = 40 + 15 * shd (stl (stl s))"
  have n: "-3 \<le> n \<and> n < 3" using valid_rng_shd [OF assms(1)] by (simp add: n_def)
  have l: "4 \<le> l \<and> l < 9" using valid_rng_shd [OF v1] by (simp add: l_def)
  have h: "40 \<le> h \<and> h < 55" using valid_rng_shd [OF v2] by (simp add: h_def)
  have v': "valid_rng s'" and rs:
    "rs = [\<lparr>ineq_country_code = code, ineq_year = y,
            gini_coefficient = round2 (max 20 (min 70 (b + n))),
            income_share_lowest_20pct = round2 l, income_share_highest_20pct = round2 h,
            palma_ratio = round2 (h / (l * 2))\<rparr>]"
    using assms l valid_rng_sdrop [OF assms(1), of 3]
    by (simp_all add: ineq_year_row_eq Let_def n_def l_def h_def split: if_splits)
  show ?thesis using v' n l h unfolding rs by auto
qed

section \<open>Lemmas: one country\<close>

lemma ineq_country_unknown:
  "map_of gini_ranges (region c) = None \<Longrightarrow> ineq_country c s = Inl (KeyError (region c))"
  by (simp add: ineq_country_def dict_get_def)

lemma ineq_country_known:
  "map_of gini_ranges (region c) = Some (lo, hi) \<Longrightarrow>
   ineq_country c s = loop_rows (ineq_year_row (country_code c) (lo + (hi - lo) * shd s)) survey_years (stl s)"
  by (simp add: ineq_country_def dict_get_def uniform_eq)

lemma gini_ranges_bounds:
  "map_of gini_ranges rg = Some (lo, hi) \<Longrightarrow> 25 \<le> lo \<and> lo < hi \<and> hi \<le> 65"
  by (auto simp: gini_ranges_def split: if_splits)

lemma ineq_country_ok:
  assumes "valid_rng s" and "map_of gini_ranges (region c) \<noteq> None"
  shows "\<exists>rs. ineq_country c s = Inr (rs, sdrop 16 s)"
proof -
  obtain lo hi where r: "map_of gini_ranges (region c) = Some (lo, hi)"
    using assms(2) by auto
  have "\<exists>rs. loop_rows (ineq_year_row (country_code c) (lo + (hi - lo) * shd s)) survey_years (stl s) =
            Inr (rs, sdrop (sum_list (map (\<lambda>_. 3) survey_years)) (stl s))"
    by (rule loop_rows_ok) (use assms(1) valid_rng_stl ineq_year_row_ok in auto)
  then show ?thesis by (simp add: ineq_country_known [OF r] survey_years_def sdrop_stl)
qed

lemma ineq_country_keys:
  assumes "ineq_country c s = Inr (rs, s')"
  shows "map (\<lambda>r. (ineq_country_code r, ineq_year r)) rs = map (Pair (country_code c)) survey_years"
proof -
  obtain lo hi where r: "map_of gini_ranges (region c) = Some (lo, hi)"
    using assms by (cases "map_of gini_ranges (region c)") (auto simp: ineq_country_unknown)
  have "map (\<lambda>r. (ineq_country_code r, ineq_year r)) rs =
        concat (map (\<lambda>y. [(country_code c, y)]) survey_years)"
    using assms unfolding ineq_country_known [OF r]
    by (rule loop_rows_map) (rule ineq_year_row_keys)
  then show ?thesis by simp
qed

lemma ineq_country_Inl:
  assumes "valid_rng s" and "ineq_country c s = Inl e"
  shows "map_of gini_ranges (region c) = None \<and> e = KeyError (region c)"
proof (cases "map_of gini_ranges (region c)")
  case None
  with assms(2) show ?thesis by (simp add: ineq_country_unknown)
next
  case (Some lohi)
  then have "map_of gini_ranges (region c) \<noteq> None" by simp
  then obtain rs where "ineq_country c s = Inr (rs, sdrop 16 s)"
    using ineq_country_ok [OF assms(1)] by blast
  with assms(2) show ?thesis by simp
qed

lemma ineq_country_spec:
  assumes "valid_rng s" and "ineq_country c s = Inr (rs, s')"
  shows "valid_rng s' \<and> (\<exists>lo hi b. map_of gini_ranges (region c) = Some (lo, hi) \<and> lo \<le> b \<and> b < hi \<and>
     (\<forall>r \<in> set rs. ineq_country_code r = country_code c \<and>
        (\<exists>n. -3 \<le> n \<and> n < 3 \<and> gini_coefficient r = round2 (max 20 (min 70 (b + n)))) \<and>
        (\<exists>l h. 4 \<le> l \<and> l < 9 \<and> 40 \<le> h \<and> h < 55 \<and>
           income_share_lowest_20pct r = round2 l \<and> income_share_highest_20pct r = round2 h \<and>
           palma_ratio r = round2 (h / (l * 2)))))"
proof -
  obtain lo hi where r: "map_of gini_ranges (region c) = Some (lo, hi)"
    using assms(2) by (cases "map_of gini_ranges (region c)") (auto simp: ineq_country_unknown)
  define b where "b = lo + (hi - lo) * shd s"
  have "lo < hi" using gini_ranges_bounds [OF r] by simp
  then have bb: "lo \<le> b \<and> b < hi"
    using uniform_bounds [OF assms(1), of lo hi] by (simp add: uniform_fst b_def)
  have l: "loop_rows (ineq_year_row (country_code c) b) survey_years (stl s) = Inr (rs, s')"
    using assms(2) by (simp add: ineq_country_known [OF r] b_def)
  have "valid_rng s' \<and> (\<forall>r \<in> set rs. \<exists>y \<in> set survey_years.
          ineq_country_code r = country_code c \<and> ineq_year r = y \<and>
          (\<exists>n. -3 \<le> n \<and> n < 3 \<and> gini_coefficient r = round2 (max 20 (min 70 (b + n)))) \<and>
          (\<exists>l h. 4 \<le> l \<and> l < 9 \<and> 40 \<le> h \<and> h < 55 \<and>
             income_share_lowest_20pct r = round2 l \<and> income_share_highest_20pct r = round2 h \<and>
             palma_ratio r = round2 (h / (l * 2))))"
    by (rule loop_rows_all [OF l valid_rng_stl [OF assms(1)]]) (rule ineq_year_row_spec)
  then show ?thesis using r bb by fastforce
qed

section \<open>Properties of the generator\<close>

lemma ineq_data_ok:
  assumes "valid_rng s" and "\<forall>c \<in> set cs. map_of gini_ranges (region c) \<noteq> None"
  shows "\<exists>rs. ineq_data cs s = Inr (rs, sdrop (16 * length cs) s)"
proof -
  have "\<exists>rs. loop_rows ineq_country cs s = Inr (rs, sdrop (sum_list (map (\<lambda>_. 16) cs)) s)"
    by (rule loop_rows_ok) (use assms ineq_country_ok in auto)
  then show ?thesis by (simp add: ineq_data_def sum_list_triv mult.commute)
qed

lemma ineq_data_keys:
  "ineq_data cs s = Inr (rs, s') \<Longrightarrow>
   map (\<lambda>r. (ineq_country_code r, ineq_year r)) rs = concat (map (\<lambda>c. map (Pair (country_code c)) survey_years) cs)"
  unfolding ineq_data_def by (erule loop_rows_map) (rule ineq_country_keys)

lemma ineq_data_all:
  assumes "valid_rng s" and "ineq_data cs s = Inr (rs, s')"
    and "\<And>lo hi b n l h code y. 25 \<le> lo \<Longrightarrow> lo \<le> b \<Longrightarrow> b < hi \<Longrightarrow> hi \<le> 65 \<Longrightarrow> -3 \<le> n \<Longrightarrow> n < 3 \<Longrightarrow>
           4 \<le> l \<Longrightarrow> l < 9 \<Longrightarrow> 40 \<le> h \<Longrightarrow> h < 55 \<Longrightarrow>
           P \<lparr>ineq_country_code = code, ineq_year = y,
              gini_coefficient = round2 (max 20 (min 70 (b + n))),
              income_share_lowest_20pct = round2 l, income_share_highest_20pct = round2 h,
              palma_ratio = round2 (h / (l * 2))\<rparr>"
  shows "\<forall>r \<in> set rs. P r"
proof -
  have "valid_rng s' \<and> (\<forall>r \<in> set rs. \<exists>c \<in> set cs. P r)"
    using assms(2,1) unfolding ineq_data_def
  proof (rule loop_rows_all)
    fix c s rs s'
    assume "valid_rng s" "ineq_country c s = Inr (rs, s')"
    from ineq_country_spec [OF this] obtain lo hi b where
      v: "valid_rng s'" and r: "map_of gini_ranges (region c) = Some (lo, hi)" and b: "lo \<le> b" "b < hi"
      and rows: "\<forall>r \<in> set rs. ineq_country_code r = country_code c \<and>
        (\<exists>n. -3 \<le> n \<and> n < 3 \<and> gini_coefficient r = round2 (max 20 (min 70 (b + n)))) \<and>
        (\<exists>l h. 4 \<le> l \<and> l < 9 \<and> 40 \<le> h \<and> h < 55 \<and>
           income_share_lowest_20pct r = round2 l \<and> income_share_highest_20pct r = round2 h \<and>
           palma_ratio r = round2 (h / (l * 2)))"
      by blast
    have lohi: "25 \<le> lo" "hi \<le> 65" using gini_ranges_bounds [OF r] by simp_all
    have "\<forall>r \<in> set rs. P r"
    proof
      fix r assume "r \<in> set rs"
      with rows obtain n l h where nlh: "-3 \<le> n" "n < 3" "4 \<le> l" "l < 9" "40 \<le> h" "h < 55"
        and eqs: "gini_coefficient r = round2 (max 20 (min 70 (b + n)))"
          "income_share_lowest_20pct r = round2 l" "income_share_highest_20pct r = round2 h"
          "palma_ratio r = round2 (h / (l * 2))"
        by blast
      have "r = \<lparr>ineq_country_code = ineq_country_code r, ineq_year = ineq_year r,
              gini_coefficient = round2 (max 20 (min 70 (b + n))),
              income_share_lowest_20pct = round2 l, income_share_highest_20pct = round2 h,
              palma_ratio = round2 (h / (l * 2))\<rparr>"
        using eqs by simp
      then show "P r"
        using assms(3) [OF lohi(1) b lohi(2) nlh, where code = "ineq_country_code r" and y = "ineq_year r"]
        by simp
    qed
    with v show "valid_rng s' \<and> (\<forall>r \<in> set rs. P r)" by simp
  qed
  then show ?thesis by blast
qed

text \<open>C21: every inequality row records a Gini coefficient within \<open>[20, 70]\<close>.\<close>

theorem ineq_gini_bounds:
  assumes "valid_rng s" and "ineq_data cs s = Inr (rs, s')"
  shows "\<forall>r \<in> set rs. 20 \<le> gini_coefficient r \<and> gini_coefficient r \<le> 70"
  by (rule ineq_data_all [OF assms]) (simp add: round2_ge_numeral round2_le_numeral)

text \<open>C22: every inequality row stores the two income shares rounded and the Palma ratio
  \<open>round(highest_20 / (2 * lowest_20), 2)\<close> of the unrounded shares, with
  \<open>lowest_20 \<in> [4, 9)\<close> and \<open>highest_20 \<in> [40, 55)\<close>.\<close>

theorem ineq_palma:
  assumes "valid_rng s" and "ineq_data cs s = Inr (rs, s')"
  shows "\<forall>r \<in> set rs. \<exists>l h. 4 \<le> l \<and> l < 9 \<and> 40 \<le> h \<and> h < 55 \<and>
           income_share_lowest_20pct r = round2 l \<and> income_share_highest_20pct r = round2 h \<and>
           palma_ratio r = round2 (h / (l * 2))"
  by (rule ineq_data_all [OF assms]) auto

text \<open>C23: the clamp \<open>max(20, min(70, gini))\<close> never changes a value: every recorded
  Gini coefficient is the rounded sum of a base in \<open>[25, 65)\<close> and a perturbation in
  \<open>[-3, 3)\<close>, which lies in \<open>[22, 68)\<close>.\<close>

theorem ineq_clamp_inactive:
  assumes "valid_rng s" and "ineq_data cs s = Inr (rs, s')"
  shows "\<forall>r \<in> set rs. \<exists>b n. 25 \<le> b \<and> b < 65 \<and> -3 \<le> n \<and> n < 3 \<and> gini_coefficient r = round2 (b + n)"
proof (rule ineq_data_all [OF assms])
  fix lo hi b n l h :: real and code y
  assume "25 \<le> lo" "lo \<le> b" "b < hi" "hi \<le> 65" "-3 \<le> n" "n < 3"
  moreover then have "max 20 (min 70 (b + n)) = b + n" by simp
  ultimately show "\<exists>b' n'. 25 \<le> b' \<and> b' < 65 \<and> -3 \<le> n' \<and> n' < 3 \<and>
      gini_coefficient \<lparr>ineq_country_code = code, ineq_year = y,
        gini_coefficient = round2 (max 20 (min 70 (b + n))),
        income_share_lowest_20pct = round2 l, income_share_highest_20pct = round2 h,
        palma_ratio = round2 (h / (l * 2))\<rparr> = round2 (b' + n')"
    by (intro exI [of _ b] exI [of _ n]) simp
qed

text \<open>C25: under a valid random state the only exception the generator raises is
  \<open>KeyError\<close> for a country whose region is not a key of \<open>gini_ranges\<close>: the Palma
  division never raises \<open>ZeroDivisionError\<close>.\<close>

theorem ineq_data_error:
  assumes "valid_rng s" and "ineq_data cs s = Inl e"
  shows "\<exists>c \<in> set cs. map_of gini_ranges (region c) = None \<and> e = KeyError (region c)"
proof -
  show ?thesis
    using assms unfolding ineq_data_def
  proof (induction cs arbitrary: s)
    case Nil
    then show ?case by simp
  next
    case (Cons c cs)
    show ?case
    proof (cases "ineq_country c s")
      case (Inl e')
      with Cons.prems show ?thesis by (auto dest: ineq_country_Inl)
    next
      case (Inr p)
      then obtain rs1 s1 where p: "ineq_country c s = Inr (rs1, s1)" by (cases p) auto
      with Cons.prems have "loop_rows ineq_country cs s1 = Inl e"
        by (auto split: sum.splits prod.splits)
      moreover have "valid_rng s1" using ineq_country_spec [OF Cons.prems(1) p] by blast
      ultimately show ?thesis using Cons.IH by auto
    qed
  qed
qed

text \<open>A concrete survey year: a draw of \<open>lowest_20 = 4.004\<close> and \<open>highest_20 = 48.048\<close>
  stores the shares \<open>4.0\<close> and \<open>48.05\<close> and the Palma ratio \<open>6.0\<close>.\<close>

lemma palma_gap_row:
  "ineq_year_row code b y ((1/2) ## (1/1250) ## (1006/1875) ## t) =
     Inr ([\<lparr>ineq_country_code = code, ineq_year = y, gini_coefficient = round2 (max 20 (min 70 b)),
            income_share_lowest_20pct = 4, income_share_highest_20pct = 961 / 20, palma_ratio = 6\<rparr>], t)"
proof -
  have l: "round2 (4 + 5 * (1/1250)) = 4"
    using round2_grid [of 400 "4 + 5 * (1/1250)"] by simp
  have h: "round2 (40 + 15 * (1006/1875)) = 961 / 20"
    using round2_grid [of 4805 "40 + 15 * (1006/1875)"] by simp
  have p: "round2 ((40 + 15 * (1006/1875)) / ((4 + 5 * (1/1250)) * 2)) = 6"
    by (simp add: round_simps)
  show ?thesis using l h p by (simp add: ineq_year_row_eq Let_def sdrop_numeral)
qed

text \<open>C24: the stored Palma ratio is not always the ratio of the stored shares: the code
  divides the unrounded shares, so a reader who recomputes
  \<open>round(high20 / (2 * low20), 2)\<close> from the table's own columns, as the spec's
  invariant reads, can get a different value (here \<open>6.01\<close> against the stored \<open>6.0\<close>), for
  every country whose region has a Gini range.\<close>

theorem ineq_palma_stored_gap:
  assumes "map_of gini_ranges (region c) \<noteq> None"
  shows "\<exists>s rs s' r. valid_rng s \<and> ineq_country c s = Inr (rs, s') \<and> r \<in> set rs \<and>
           palma_ratio r \<noteq> round2 (income_share_highest_20pct r / (2 * income_share_lowest_20pct r))"
proof -
  obtain lo hi where rg: "map_of gini_ranges (region c) = Some (lo, hi)"
    using assms by auto
  define b where "b = lo + (hi - lo) * (1/2)"
  define r where "r = \<lparr>ineq_country_code = country_code c, ineq_year = 2015,
    gini_coefficient = round2 (max 20 (min 70 b)), income_share_lowest_20pct = 4,
    income_share_highest_20pct = 961 / 20, palma_ratio = 6\<rparr>"
  let ?s = "(1/2) ## (1/2) ## (1/1250) ## (1006/1875) ## sconst (1/2 :: real)"
  have v: "valid_rng ?s" by (simp add: valid_rng_SCons valid_rng_sconst)
  have "\<exists>rs. loop_rows (ineq_year_row (country_code c) b) [2017, 2019, 2021, 2023] (sconst (1/2)) =
            Inr (rs, sdrop (sum_list (map (\<lambda>_. 3) [2017, 2019, 2021, 2023 :: int])) (sconst (1/2)))"
    by (rule loop_rows_ok) (use valid_rng_sconst ineq_year_row_ok in auto)
  then obtain rs2 s2 where rest:
      "loop_rows (ineq_year_row (country_code c) b) [2017, 2019, 2021, 2023] (sconst (1/2)) = Inr (rs2, s2)"
    by blast
  have run: "ineq_country c ?s = Inr (r # rs2, s2)"
    using rest by (simp add: ineq_country_known [OF rg] survey_years_def b_def palma_gap_row r_def)
  have "round2 ((961 / 20) / (2 * 4)) = 601 / 100"
    using round2_grid [of 601 "(961 / 20) / (2 * 4)"] by simp
  then have "palma_ratio r \<noteq> round2 (income_share_highest_20pct r / (2 * income_share_lowest_20pct r))"
    by (simp add: r_def)
  then show ?thesis using v run by (intro exI [of _ ?s]) auto
qed

section \<open>Witnesses\<close>

lemma catalog_gini_regions: "\<forall>c \<in> set catalog. map_of gini_ranges (region c) \<noteq> None"
proof -
  have "\<forall>rg \<in> set (map region catalog). map_of gini_ranges rg \<noteq> None"
    unfolding catalog_regions by (simp add: gini_ranges_def)
  then show ?thesis by simp
qed

lemma ineq_catalog_run:
  "valid_rng (sconst (1/2)) \<and> (\<exists>rs s'. ineq_data catalog (sconst (1/2)) = Inr (rs, s'))"
proof -
  have v: "valid_rng (sconst (1/2))" by (simp add: valid_rng_sconst)
  then show ?thesis using ineq_data_ok [OF v catalog_gini_regions] by blast
qed

theorem ineq_gini_bounds_witness:
  "\<exists>rs s'. valid_rng (sconst (1/2)) \<and> ineq_data catalog (sconst (1/2)) = Inr (rs, s') \<and>
     (\<forall>r \<in> set rs. 20 \<le> gini_coefficient r \<and> gini_coefficient r \<le> 70)"
  using ineq_catalog_run ineq_gini_bounds by blast

theorem ineq_palma_witness:
  "\<exists>rs s'. valid_rng (sconst (1/2)) \<and> ineq_data catalog (sconst (1/2)) = Inr (rs, s') \<and>
     (\<forall>r \<in> set rs. \<exists>l h. 4 \<le> l \<and> l < 9 \<and> 40 \<le> h \<and> h < 55 \<and>
           income_share_lowest_20pct r = round2 l \<and> income_share_highest_20pct r = round2 h \<and>
           palma_ratio r = round2 (h / (l * 2)))"
  using ineq_catalog_run ineq_palma by blast

theorem ineq_clamp_inactive_witness:
  "\<exists>rs s'. valid_rng (sconst (1/2)) \<and> ineq_data catalog (sconst (1/2)) = Inr (rs, s') \<and>
     (\<forall>r \<in> set rs. \<exists>b n. 25 \<le> b \<and> b < 65 \<and> -3 \<le> n \<and> n < 3 \<and> gini_coefficient r = round2 (b + n))"
  using ineq_catalog_run ineq_clamp_inactive by blast

theorem ineq_data_error_witness:
  "valid_rng (sconst (1/2)) \<and>
   ineq_data [\<lparr>country_code = ''ATA'', country_name = ''Antarctica'', region = ''Antarctica'',
                income_group = ''High income'', population_2023 = None\<rparr>] (sconst (1/2)) =
     Inl (KeyError ''Antarctica'') \<and>
   (\<exists>c \<in> set [\<lparr>country_code = ''ATA'', country_name = ''Antarctica'', region = ''Antarctica'',
                income_group = ''High income'', population_2023 = None\<rparr>].
      map_of gini_ranges (region c) = None \<and> KeyError ''Antarctica'' = KeyError (region c))"
proof -
  have v: "valid_rng (sconst (1/2))" by (simp add: valid_rng_sconst)
  have e: "ineq_data [\<lparr>country_code = ''ATA'', country_name = ''Antarctica'', region = ''Antarctica'',
                income_group = ''High income'', population_2023 = None\<rparr>] (sconst (1/2)) =
           Inl (KeyError ''Antarctica'')"
    by (simp add: ineq_data_def ineq_country_unknown gini_ranges_def)
  show ?thesis using v e ineq_data_error [OF v e] by blast
qed

theorem ineq_palma_stored_gap_witness:
  "map_of gini_ranges (region (hd catalog)) \<noteq> None \<and>
   (\<exists>s rs s' r. valid_rng s \<and> ineq_country (hd catalog) s = Inr (rs, s') \<and> r \<in> set rs \<and>
      palma_ratio r \<noteq> round2 (income_share_highest_20pct r / (2 * income_share_lowest_20pct r)))"
proof -
  have "catalog \<noteq> []" using length_catalog by auto
  then have h: "map_of gini_ranges (region (hd catalog)) \<noteq> None"
    using catalog_gini_regions by simp
  show ?thesis using ineq_palma_stored_gap [OF h] h by blast
qed

end
