(* ===== verification/IneqSpec.thy ===== *)
theory IneqSpec
  imports Inequality
begin

text \<open>
  An abstract specification of the inequality series of one country, after spec section
  4.3: a base Gini coefficient in the region's range and, for each survey year, a
  perturbation in \<open>[-3, 3)\<close> and income shares \<open>lowest_20\<close> in \<open>[4, 9)\<close> and
  \<open>highest_20\<close> in \<open>[40, 55)\<close>; the row stores the perturbed Gini clamped to \<open>[20, 70]\<close>,
  the two shares and the Palma ratio \<open>high20 / (2 * low20)\<close>, each rounded to two
  decimals. The refinement theorem shows that the rows \<open>ineq_country\<close> produces over all
  valid random states are exactly these; in particular its \<open>ZeroDivisionError\<close> branch
  is never taken.
\<close>

definition ineq_year_ranges :: ranges3 where
  "ineq_year_ranges = ((-3, 3), (4, 9), (40, 55))"

definition ineq_draws_ok :: "int \<Rightarrow> real \<times> real \<times> real \<Rightarrow> bool" where
  "ineq_draws_ok y v = in_ranges ineq_year_ranges v"

definition ineq_row_spec :: "string \<Rightarrow> real \<Rightarrow> int \<Rightarrow> real \<times> real \<times> real \<Rightarrow> ineq_row" where
  "ineq_row_spec code b y v = (case v of (n, l, h) \<Rightarrow>
     \<lparr>ineq_country_code = code, ineq_year = y,
      gini_coefficient = round2 (max 20 (min 70 (b + n))),
      income_share_lowest_20pct = round2 l, income_share_highest_20pct = round2 h,
      palma_ratio = round2 (h / (2 * l))\<rparr>)"

definition ineq_series_ok :: "country \<Rightarrow> real \<Rightarrow> (real \<times> real \<times> real) list \<Rightarrow> bool" where
  "ineq_series_ok c b ps =
     (case map_of gini_ranges (region c) of
        None \<Rightarrow> False
      | Some (lo, hi) \<Rightarrow> lo \<le> b \<and> b < hi \<and> list_all2 ineq_draws_ok survey_years ps)"

section \<open>Lemmas\<close>

lemma ineq_year_ranges_ok: "ranges_ok ineq_year_ranges"
  by (simp add: ineq_year_ranges_def ranges_ok_def)

lemma ineq_year_row_draws3:
  assumes "ineq_draws_ok y (fst (draws3 ineq_year_ranges s))"
  shows "ineq_year_row code b y s =
     Inr ([ineq_row_spec code b y (fst (draws3 ineq_year_ranges s))], snd (draws3 ineq_year_ranges s))"
  using assms
  by (simp add: ineq_year_row_eq ineq_row_spec_def ineq_draws_ok_def in_ranges_def draws3_def
      ineq_year_ranges_def Let_def mult.commute)

lemma ineq_year_row_decode:
  assumes "valid_rng s"
  shows "\<exists>v s1. ineq_draws_ok y v \<and> ineq_year_row code b y s = Inr ([ineq_row_spec code b y v], s1) \<and>
     valid_rng s1"
proof -
  have ok: "ineq_draws_ok y (fst (draws3 ineq_year_ranges s))"
    unfolding ineq_draws_ok_def by (rule draws3_in_ranges [OF assms ineq_year_ranges_ok])
  show ?thesis
    by (intro exI [of _ "fst (draws3 ineq_year_ranges s)"] exI [of _ "snd (draws3 ineq_year_ranges s)"])
       (simp add: ok ineq_year_row_draws3 [OF ok] draws3_snd valid_rng_sdrop [OF assms])
qed

lemma ineq_year_row_encode:
  "ineq_draws_ok y v \<Longrightarrow>
   ineq_year_row code b y (inv_draws3 ineq_year_ranges v @- t) = Inr ([ineq_row_spec code b y v], t)"
  using ineq_year_row_draws3 [of y "inv_draws3 ineq_year_ranges v @- t" code b]
  by (simp add: draws3_inv [OF ineq_year_ranges_ok] ineq_draws_ok_def)

section \<open>Refinement\<close>

text \<open>C13: \<open>ineq_country\<close> refines the specification exactly: every series it returns
  under a valid random state is a specified series (a base in the region's range, per
  survey year a perturbation and two shares in their ranges, the Palma ratio of the
  unrounded shares), and every specified series is returned under some valid random
  state.\<close>

theorem ineq_country_refines_spec:
  "(\<exists>s s'. valid_rng s \<and> ineq_country c s = Inr (rs, s')) \<longleftrightarrow>
   (\<exists>b ps. ineq_series_ok c b ps \<and> rs = map2 (ineq_row_spec (country_code c) b) survey_years ps)"
proof
  assume "\<exists>s s'. valid_rng s \<and> ineq_country c s = Inr (rs, s')"
  then obtain s s' where v: "valid_rng s" and r: "ineq_country c s = Inr (rs, s')" by blast
  obtain lo hi where rg: "map_of gini_ranges (region c) = Some (lo, hi)"
    using r by (cases "map_of gini_ranges (region c)") (auto simp: ineq_country_unknown)
  define b where "b = lo + (hi - lo) * shd s"
  have bb: "lo \<le> b \<and> b < hi"
    using uniform_bounds [OF v, of lo hi] gini_ranges_bounds [OF rg] by (simp add: b_def uniform_fst)
  have "loop_rows (ineq_year_row (country_code c) b) survey_years (stl s) = Inr (rs, s')"
    using r by (simp add: ineq_country_known [OF rg] b_def)
  then obtain ps where "list_all2 ineq_draws_ok survey_years ps"
      "rs = map2 (ineq_row_spec (country_code c) b) survey_years ps"
    using loop_rows_sound [OF valid_rng_stl [OF v], where ok = ineq_draws_ok] ineq_year_row_decode by blast
  then show "\<exists>b ps. ineq_series_ok c b ps \<and> rs = map2 (ineq_row_spec (country_code c) b) survey_years ps"
    using bb rg by (intro exI [of _ b] exI [of _ ps]) (simp add: ineq_series_ok_def)
next
  assume "\<exists>b ps. ineq_series_ok c b ps \<and> rs = map2 (ineq_row_spec (country_code c) b) survey_years ps"
  then obtain b ps where ok: "ineq_series_ok c b ps"
    and rs: "rs = map2 (ineq_row_spec (country_code c) b) survey_years ps" by blast
  obtain lo hi where rg: "map_of gini_ranges (region c) = Some (lo, hi)" and b: "lo \<le> b" "b < hi"
    and la: "list_all2 ineq_draws_ok survey_years ps"
    using ok by (auto simp: ineq_series_ok_def split: option.splits)
  define u where "u = (b - lo) / (hi - lo)"
  have u: "0 \<le> u" "u < 1" "lo + (hi - lo) * u = b"
    using uniform_inverse [of lo hi b] b unfolding u_def by linarith+
  let ?s = "u ## (concat (map2 (\<lambda>y. inv_draws3 ineq_year_ranges) survey_years ps) @- sconst 0)"
  have "valid_rng ?s"
    using u loop_rows_complete_valid [OF la, of "\<lambda>y. inv_draws3 ineq_year_ranges"]
      inv_draws3_valid [OF ineq_year_ranges_ok]
    by (simp add: valid_rng_SCons valid_rng_shift valid_rng_sconst ineq_draws_ok_def)
  moreover have "ineq_country c ?s = Inr (rs, sconst 0)"
    using u loop_rows_complete [OF la, of "ineq_year_row (country_code c) b"] ineq_year_row_encode
    by (simp add: ineq_country_known [OF rg] rs)
  ultimately show "\<exists>s s'. valid_rng s \<and> ineq_country c s = Inr (rs, s')" by blast
qed

end
