(* ===== verification/Poverty.thy ===== *)
theory Poverty
  imports Prelude Catalog
begin

text \<open>
  The poverty generator, the row-building part of \<open>load_poverty_data\<close>
  (\<open>src/load_data.py\<close>, lines 191--232). Only countries whose income group is one of the
  three low and middle groups get rows; for them three base headcount rates are drawn from
  the group's ranges and, for each survey year, scaled by the linear reduction factor
  \<open>1 - 0.15 * (year - 2015) / 8\<close>. No dictionary lookup: an unlisted group gets no rows.
\<close>

record pov_row =
  pov_country_code :: string
  pov_year :: int
  poverty_headcount_215_pct :: real
  poverty_headcount_365_pct :: real
  poverty_headcount_685_pct :: real
  poverty_gap :: "real option"

definition poverty_years :: "int list" where
  "poverty_years = [2015, 2017, 2019, 2021, 2023]"

definition poverty_groups :: "string list" where
  "poverty_groups = [''Low income'', ''Lower middle income'', ''Upper middle income'']"

definition poverty_bases :: "string \<Rightarrow> rng \<Rightarrow> (real \<times> real \<times> real) \<times> rng" where
  "poverty_bases ig s =
     (if ig = ''Low income'' then
        (let (base_215, s1) = uniform 40 70 s; (base_365, s2) = uniform 60 85 s1;
             (base_685, s3) = uniform 75 95 s2 in ((base_215, base_365, base_685), s3))
      else if ig = ''Lower middle income'' then
        (let (base_215, s1) = uniform 10 40 s; (base_365, s2) = uniform 25 60 s1;
             (base_685, s3) = uniform 50 80 s2 in ((base_215, base_365, base_685), s3))
      else
        (let (base_215, s1) = uniform 1 15 s; (base_365, s2) = uniform 5 30 s1;
             (base_685, s3) = uniform 15 50 s2 in ((base_215, base_365, base_685), s3)))"

definition reduction_factor :: "int \<Rightarrow> real" where
  "reduction_factor year = (let years_since_2015 = real_of_int (year - 2015) / 8 in 1 - years_since_2015 * 0.15)"

definition pov_year_row :: "string \<Rightarrow> real \<times> real \<times> real \<Rightarrow> int \<Rightarrow> rng \<Rightarrow> (pov_row list \<times> rng) result" where
  "pov_year_row code bases year s =
     (case bases of (base_215, base_365, base_685) \<Rightarrow>
        Inr ([\<lparr>pov_country_code = code, pov_year = year,
               poverty_headcount_215_pct = round2 (base_215 * reduction_factor year),
               poverty_headcount_365_pct = round2 (base_365 * reduction_factor year),
               poverty_headcount_685_pct = round2 (base_685 * reduction_factor year),
               poverty_gap = None\<rparr>], s))"

definition pov_country :: "country \<Rightarrow> rng \<Rightarrow> (pov_row list \<times> rng) result" where
  "pov_country c s =
     (if income_group c \<in> set poverty_groups then
        (let (bases, s1) = poverty_bases (income_group c) s
         in loop_rows (pov_year_row (country_code c) bases) poverty_years s1)
      else Inr ([], s))"

definition pov_data :: "country list \<Rightarrow> rng \<Rightarrow> (pov_row list \<times> rng) result" where
  "pov_data countries s = loop_rows pov_country countries s"

section \<open>Lemmas\<close>

lemma poverty_bases_snd [rng_simps]: "snd (poverty_bases ig s) = sdrop 3 s"
  by (simp add: poverty_bases_def uniform_eq Let_def sdrop_numeral)

lemma poverty_bases_bounds:
  assumes "valid_rng s" and "poverty_bases ig s = ((b215, b365, b685), s')"
  shows "1 \<le> b215 \<and> b215 < 70 \<and> 5 \<le> b365 \<and> b365 < 85 \<and> 15 \<le> b685 \<and> b685 < 95"
proof -
  have u: "0 \<le> shd s" "shd s < 1" "0 \<le> shd (stl s)" "shd (stl s) < 1"
    "0 \<le> shd (stl (stl s))" "shd (stl (stl s)) < 1"
    using valid_rng_shd [OF assms(1)] valid_rng_shd [OF valid_rng_stl [OF assms(1)]]
      valid_rng_shd [OF valid_rng_stl [OF valid_rng_stl [OF assms(1)]]] by simp_all
  show ?thesis using assms(2) u by (simp add: poverty_bases_def uniform_eq Let_def split: if_splits)
qed

lemma reduction_factor_step:
  "y1 < y2 \<Longrightarrow> reduction_factor y2 + 15/800 \<le> reduction_factor y1"
  by (simp add: reduction_factor_def field_simps)

lemma pov_country_poor:
  assumes "income_group c \<in> set poverty_groups"
  shows "pov_country c s =
     Inr (map (\<lambda>y. \<lparr>pov_country_code = country_code c, pov_year = y,
               poverty_headcount_215_pct = round2 (fst (fst (poverty_bases (income_group c) s)) * reduction_factor y),
               poverty_headcount_365_pct = round2 (fst (snd (fst (poverty_bases (income_group c) s))) * reduction_factor y),
               poverty_headcount_685_pct = round2 (snd (snd (fst (poverty_bases (income_group c) s))) * reduction_factor y),
               poverty_gap = None\<rparr>) poverty_years, sdrop 3 s)"
proof -
  define b where "b = fst (poverty_bases (income_group c) s)"
  have pb: "poverty_bases (income_group c) s = (b, sdrop 3 s)"
    by (simp add: b_def prod_eq_iff poverty_bases_snd)
  have "pov_country c s = loop_rows (pov_year_row (country_code c) b) poverty_years (sdrop 3 s)"
    using assms by (simp add: pov_country_def pb)
  also have "\<dots> = Inr (map (\<lambda>y. \<lparr>pov_country_code = country_code c, pov_year = y,
               poverty_headcount_215_pct = round2 (fst b * reduction_factor y),
               poverty_headcount_365_pct = round2 (fst (snd b) * reduction_factor y),
               poverty_headcount_685_pct = round2 (snd (snd b) * reduction_factor y),
               poverty_gap = None\<rparr>) poverty_years, sdrop 3 s)"
    by (rule loop_rows_pure) (simp add: pov_year_row_def case_prod_beta)
  finally show ?thesis by (simp add: b_def)
qed

lemma pov_country_other:
  "income_group c \<notin> set poverty_groups \<Longrightarrow> pov_country c s = Inr ([], s)"
  by (simp add: pov_country_def)

lemma pov_country_keys:
  "pov_country c s = Inr (rs, s') \<Longrightarrow>
   map (\<lambda>r. (pov_country_code r, pov_year r)) rs =
   (if income_group c \<in> set poverty_groups then map (Pair (country_code c)) poverty_years else [])"
  by (cases "income_group c \<in> set poverty_groups") (auto simp: pov_country_poor pov_country_other)

lemma pov_rate_strict:
  "1 \<le> b \<Longrightarrow> y1 < y2 \<Longrightarrow> round2 (b * reduction_factor y2) < round2 (b * reduction_factor y1)"
proof (rule round2_strict)
  assume b: "1 \<le> b" and y: "y1 < y2"
  have "b * (15/800) \<le> b * (reduction_factor y1 - reduction_factor y2)"
    using reduction_factor_step [OF y] b by (intro mult_left_mono) simp_all
  moreover have "15/800 \<le> b * (15/800)" using b by simp
  ultimately show "b * reduction_factor y2 + 1/100 < b * reduction_factor y1"
    by (simp add: right_diff_distrib)
qed

section \<open>Properties of the generator\<close>

text \<open>C26: the poverty generator never raises, and it draws exactly three values for each
  country of a listed income group and none for the others.\<close>

theorem pov_data_ok:
  "\<exists>rs. pov_data cs s = Inr (rs, sdrop (3 * length (filter (\<lambda>c. income_group c \<in> set poverty_groups) cs)) s)"
proof (induction cs arbitrary: s)
  case Nil
  then show ?case by (simp add: pov_data_def)
next
  case (Cons c cs)
  show ?case
  proof (cases "income_group c \<in> set poverty_groups")
    case True
    from Cons.IH [of "sdrop 3 s"] obtain rs where
      "loop_rows pov_country cs (sdrop 3 s) =
       Inr (rs, sdrop (3 * length (filter (\<lambda>c. income_group c \<in> set poverty_groups) cs)) (sdrop 3 s))"
      by (auto simp: pov_data_def)
    with True show ?thesis by (simp add: pov_data_def pov_country_poor)
  next
    case False
    with Cons.IH [of s] show ?thesis by (auto simp: pov_data_def pov_country_other)
  qed
qed

lemma pov_data_keys:
  "pov_data cs s = Inr (rs, s') \<Longrightarrow>
   map (\<lambda>r. (pov_country_code r, pov_year r)) rs =
   concat (map (\<lambda>c. if income_group c \<in> set poverty_groups then map (Pair (country_code c)) poverty_years else []) cs)"
  unfolding pov_data_def by (erule loop_rows_map) (rule pov_country_keys)

text \<open>C6: no poverty row carries the code of a country outside the three low and middle
  income groups (in particular of a high-income country), when country codes are unique.\<close>

theorem pov_no_row_outside_groups:
  assumes "distinct (map country_code cs)" and "pov_data cs s = Inr (rs, s')"
    and "c \<in> set cs" and "income_group c \<notin> {''Low income'', ''Lower middle income'', ''Upper middle income''}"
  shows "\<forall>r \<in> set rs. pov_country_code r \<noteq> country_code c"
proof
  have g: "income_group c \<notin> set poverty_groups" using assms(4) by (simp add: poverty_groups_def)
  fix r assume r: "r \<in> set rs"
  have "(pov_country_code r, pov_year r) \<in> set (map (\<lambda>r. (pov_country_code r, pov_year r)) rs)"
    using r by simp
  then obtain c' where c': "c' \<in> set cs" "income_group c' \<in> set poverty_groups"
    and code: "pov_country_code r = country_code c'"
    unfolding pov_data_keys [OF assms(2)] by (auto split: if_splits)
  have "c' \<noteq> c" using c'(2) g by auto
  then have "country_code c' \<noteq> country_code c"
    using assms(1) c'(1) assms(3) by (auto simp: distinct_map inj_on_def)
  with code show "pov_country_code r \<noteq> country_code c" by simp
qed

text \<open>C27: for each country the three headcount rates strictly decrease from one survey
  year to a later one, even after rounding to two decimals.\<close>

theorem pov_decreasing:
  assumes "valid_rng s" and "pov_country c s = Inr (rs, s')"
    and "r1 \<in> set rs" and "r2 \<in> set rs" and "pov_year r1 < pov_year r2"
  shows "poverty_headcount_215_pct r2 < poverty_headcount_215_pct r1 \<and>
         poverty_headcount_365_pct r2 < poverty_headcount_365_pct r1 \<and>
         poverty_headcount_685_pct r2 < poverty_headcount_685_pct r1"
proof (cases "income_group c \<in> set poverty_groups")
  case False
  with assms(2,3) show ?thesis by (simp add: pov_country_other)
next
  case True
  obtain b215 b365 b685 s3 where pb: "poverty_bases (income_group c) s = ((b215, b365, b685), s3)"
    by (cases "poverty_bases (income_group c) s") auto
  have b: "1 \<le> b215" "1 \<le> b365" "1 \<le> b685"
    using poverty_bases_bounds [OF assms(1) pb] by simp_all
  from assms(2,3,4) True pb obtain y1 y2 where
    r1: "r1 = \<lparr>pov_country_code = country_code c, pov_year = y1,
               poverty_headcount_215_pct = round2 (b215 * reduction_factor y1),
               poverty_headcount_365_pct = round2 (b365 * reduction_factor y1),
               poverty_headcount_685_pct = round2 (b685 * reduction_factor y1), poverty_gap = None\<rparr>"
    and r2: "r2 = \<lparr>pov_country_code = country_code c, pov_year = y2,
               poverty_headcount_215_pct = round2 (b215 * reduction_factor y2),
               poverty_headcount_365_pct = round2 (b365 * reduction_factor y2),
               poverty_headcount_685_pct = round2 (b685 * reduction_factor y2), poverty_gap = None\<rparr>"
    by (auto simp: pov_country_poor)
  have y: "y1 < y2" using assms(5) by (simp add: r1 r2)
  show ?thesis using pov_rate_strict [OF b(1) y] pov_rate_strict [OF b(2) y] pov_rate_strict [OF b(3) y]
    by (simp add: r1 r2)
qed

text \<open>C28: the headcount at the \$2.15 line can exceed the headcount at the \$3.65 line:
  for every country of a listed income group there is a valid random state under which a
  generated row has \<open>poverty_headcount_365_pct < poverty_headcount_215_pct\<close>. The ranges
  of the three base rates overlap in every group, so the rates are not non-decreasing
  across lines by construction.\<close>

theorem pov_lines_not_monotone:
  assumes "income_group c \<in> set poverty_groups"
  shows "\<exists>rs s'. valid_rng ((9/10) ## sconst 0) \<and> pov_country c ((9/10) ## sconst 0) = Inr (rs, s') \<and>
           (\<exists>r \<in> set rs. poverty_headcount_365_pct r < poverty_headcount_215_pct r)"
proof -
  define s :: rng where "s = (9/10) ## sconst 0"
  have v: "valid_rng s" by (simp add: s_def valid_rng_def)
  obtain b215 b365 b685 s3 where pb: "poverty_bases (income_group c) s = ((b215, b365, b685), s3)"
    by (cases "poverty_bases (income_group c) s") auto
  have gap: "b365 + 1/100 < b215"
    using pb assms by (auto simp: s_def poverty_bases_def poverty_groups_def uniform_eq Let_def)
  have rf: "reduction_factor 2015 = 1" by (simp add: reduction_factor_def)
  let ?r = "\<lparr>pov_country_code = country_code c, pov_year = 2015,
               poverty_headcount_215_pct = round2 (b215 * reduction_factor 2015),
               poverty_headcount_365_pct = round2 (b365 * reduction_factor 2015),
               poverty_headcount_685_pct = round2 (b685 * reduction_factor 2015), poverty_gap = None\<rparr>"
  have d: "pov_country c s = Inr (map (\<lambda>y. ?r\<lparr>pov_year := y,
               poverty_headcount_215_pct := round2 (b215 * reduction_factor y),
               poverty_headcount_365_pct := round2 (b365 * reduction_factor y),
               poverty_headcount_685_pct := round2 (b685 * reduction_factor y)\<rparr>) poverty_years, sdrop 3 s)"
    using pov_country_poor [OF assms, of s] pb by simp
  have "?r \<in> set (map (\<lambda>y. ?r\<lparr>pov_year := y,
               poverty_headcount_215_pct := round2 (b215 * reduction_factor y),
               poverty_headcount_365_pct := round2 (b365 * reduction_factor y),
               poverty_headcount_685_pct := round2 (b685 * reduction_factor y)\<rparr>) poverty_years)"
    by (simp add: poverty_years_def)
  moreover have "poverty_headcount_365_pct ?r < poverty_headcount_215_pct ?r"
    using round2_strict [OF gap] by (simp add: rf)
  ultimately show ?thesis using v d unfolding s_def by blast
qed

section \<open>Witnesses\<close>

lemma hd_catalog_high: "hd catalog \<in> set catalog \<and> income_group (hd catalog) = ''High income''"
  by (simp add: catalog_def country_code_col_def country_name_col_def region_col_def
      income_group_col_def)

theorem pov_no_row_outside_groups_witness:
  "\<exists>rs s'. distinct (map country_code catalog) \<and> pov_data catalog (sconst (1/2)) = Inr (rs, s') \<and>
     hd catalog \<in> set catalog \<and>
     income_group (hd catalog) \<notin> {''Low income'', ''Lower middle income'', ''Upper middle income''} \<and>
     (\<forall>r \<in> set rs. pov_country_code r \<noteq> country_code (hd catalog))"
proof -
  obtain rs s' where d: "pov_data catalog (sconst (1/2)) = Inr (rs, s')"
    using pov_data_ok by blast
  have h: "hd catalog \<in> set catalog"
    "income_group (hd catalog) \<notin> {''Low income'', ''Lower middle income'', ''Upper middle income''}"
    using hd_catalog_high by simp_all
  show ?thesis
    using catalog_codes_distinct d h pov_no_row_outside_groups [OF catalog_codes_distinct d h] by blast
qed

theorem pov_decreasing_witness:
  "\<exists>rs s' r1 r2. valid_rng (sconst (1/2)) \<and>
     pov_country \<lparr>country_code = ''CHN'', country_name = ''China'', region = ''East Asia & Pacific'',
                  income_group = ''Upper middle income'', population_2023 = None\<rparr> (sconst (1/2)) = Inr (rs, s') \<and>
     r1 \<in> set rs \<and> r2 \<in> set rs \<and> pov_year r1 < pov_year r2 \<and>
     poverty_headcount_215_pct r2 < poverty_headcount_215_pct r1 \<and>
     poverty_headcount_365_pct r2 < poverty_headcount_365_pct r1 \<and>
     poverty_headcount_685_pct r2 < poverty_headcount_685_pct r1"
proof -
  let ?c = "\<lparr>country_code = ''CHN'', country_name = ''China'', region = ''East Asia & Pacific'',
             income_group = ''Upper middle income'', population_2023 = None\<rparr>"
  have v: "valid_rng (sconst (1/2))" by (simp add: valid_rng_sconst)
  obtain rs s' where d: "pov_country ?c (sconst (1/2)) = Inr (rs, s')"
    using pov_data_ok [of "[?c]" "sconst (1/2)"] by (auto simp: pov_data_def split: sum.splits prod.splits)
  have keys: "(''CHN'', 2015) \<in> set (map (\<lambda>r. (pov_country_code r, pov_year r)) rs)"
             "(''CHN'', 2017) \<in> set (map (\<lambda>r. (pov_country_code r, pov_year r)) rs)"
    unfolding pov_country_keys [OF d] by (simp_all add: poverty_groups_def poverty_years_def)
  obtain r1 r2 where r: "r1 \<in> set rs" "r2 \<in> set rs" "pov_year r1 < pov_year r2"
    using keys by fastforce
  show ?thesis using v d r pov_decreasing [OF v d r] by blast
qed

theorem pov_lines_not_monotone_witness:
  "income_group \<lparr>country_code = ''CHN'', country_name = ''China'', region = ''East Asia & Pacific'',
                  income_group = ''Upper middle income'', population_2023 = None\<rparr> \<in> set poverty_groups \<and>
   (\<exists>rs s'. valid_rng ((9/10) ## sconst 0) \<and>
      pov_country \<lparr>country_code = ''CHN'', country_name = ''China'', region = ''East Asia & Pacific'',
                  income_group = ''Upper middle income'', population_2023 = None\<rparr> ((9/10) ## sconst 0) = Inr (rs, s') \<and>
      (\<exists>r \<in> set rs. poverty_headcount_365_pct r < poverty_headcount_215_pct r))"
proof -
  have g: "income_group \<lparr>country_code = ''CHN'', country_name = ''China'', region = ''East Asia & Pacific'',
                  income_group = ''Upper middle income'', population_2023 = None\<rparr> \<in> set poverty_groups"
    by (simp add: poverty_groups_def)
  show ?thesis using g pov_lines_not_monotone [OF g] by blast
qed

end
