(* ===== verification/PovertySpec.thy ===== *)
theory PovertySpec
  imports Poverty
begin

text \<open>
  An abstract specification of the poverty series of one country, after spec section
  4.4: countries of the Low, Lower middle and Upper middle income groups get three base
  headcount rates in the group's ranges and, for each survey year, the three rates
  multiplied by the decay factor \<open>1 - 0.15 * (year - 2015) / 8\<close> and rounded to two
  decimals; countries of any other group get no rows. The refinement theorem shows that
  the rows \<open>pov_country\<close> produces over all valid random states are exactly these.
\<close>

definition poverty_ranges :: "string \<Rightarrow> ranges3" where
  "poverty_ranges ig =
     (if ig = ''Low income'' then ((40, 70), (60, 85), (75, 95))
      else if ig = ''Lower middle income'' then ((10, 40), (25, 60), (50, 80))
      else ((1, 15), (5, 30), (15, 50)))"

definition decay :: "int \<Rightarrow> real" where
  "decay y = 1 - 0.15 * real_of_int (y - 2015) / 8"

definition pov_row_spec :: "string \<Rightarrow> real \<times> real \<times> real \<Rightarrow> int \<Rightarrow> pov_row" where
  "pov_row_spec code bases y = (case bases of (b215, b365, b685) \<Rightarrow>
     \<lparr>pov_country_code = code, pov_year = y,
      poverty_headcount_215_pct = round2 (b215 * decay y),
      poverty_headcount_365_pct = round2 (b365 * decay y),
      poverty_headcount_685_pct = round2 (b685 * decay y),
      poverty_gap = None\<rparr>)"

section \<open>Lemmas\<close>

lemma poverty_ranges_ok: "ranges_ok (poverty_ranges ig)"
  by (simp add: poverty_ranges_def ranges_ok_def)

lemma poverty_bases_draws3: "poverty_bases ig s = draws3 (poverty_ranges ig) s"
  by (simp add: poverty_bases_def poverty_ranges_def draws3_def uniform_eq Let_def sdrop_numeral)

lemma reduction_factor_decay: "reduction_factor y = decay y"
  by (simp add: reduction_factor_def decay_def)

lemma pov_country_listed:
  assumes "income_group c \<in> set poverty_groups"
  shows "pov_country c s =
    Inr (map (pov_row_spec (country_code c) (fst (draws3 (poverty_ranges (income_group c)) s))) poverty_years,
         snd (draws3 (poverty_ranges (income_group c)) s))"
  using assms by (simp add: pov_country_poor poverty_bases_draws3 pov_row_spec_def reduction_factor_decay
      case_prod_beta draws3_def split: prod.split)

section \<open>Refinement\<close>

text \<open>C14: \<open>pov_country\<close> refines the specification exactly: under valid random states a
  country of the three listed groups gets precisely the decayed rounded series of some
  bases in its group's ranges, and any other country gets no row.\<close>

theorem pov_country_refines_spec:
  "(\<exists>s s'. valid_rng s \<and> pov_country c s = Inr (rs, s')) \<longleftrightarrow>
   (if income_group c \<in> {''Low income'', ''Lower middle income'', ''Upper middle income''}
    then \<exists>bases. in_ranges (poverty_ranges (income_group c)) bases \<and>
           rs = map (pov_row_spec (country_code c) bases) [2015, 2017, 2019, 2021, 2023]
    else rs = [])"
proof (cases "income_group c \<in> set poverty_groups")
  case True
  then have g: "income_group c \<in> {''Low income'', ''Lower middle income'', ''Upper middle income''}"
    by (simp add: poverty_groups_def)
  show ?thesis
  proof
    assume "\<exists>s s'. valid_rng s \<and> pov_country c s = Inr (rs, s')"
    then obtain s s' where v: "valid_rng s" and r: "pov_country c s = Inr (rs, s')" by blast
    let ?b = "fst (draws3 (poverty_ranges (income_group c)) s)"
    have b: "in_ranges (poverty_ranges (income_group c)) ?b"
      by (rule draws3_in_ranges [OF v poverty_ranges_ok])
    have "rs = map (pov_row_spec (country_code c) ?b) poverty_years"
      using r by (simp add: pov_country_listed [OF True])
    then have "\<exists>bases. in_ranges (poverty_ranges (income_group c)) bases \<and>
        rs = map (pov_row_spec (country_code c) bases) [2015, 2017, 2019, 2021, 2023]"
      using b by (intro exI [of _ ?b]) (simp add: poverty_years_def)
    then show "if income_group c \<in> {''Low income'', ''Lower middle income'', ''Upper middle income''}
      then \<exists>bases. in_ranges (poverty_ranges (income_group c)) bases \<and>
             rs = map (pov_row_spec (country_code c) bases) [2015, 2017, 2019, 2021, 2023]
      else rs = []"
      using g by simp
  next
    assume "if income_group c \<in> {''Low income'', ''Lower middle income'', ''Upper middle income''}
      then \<exists>bases. in_ranges (poverty_ranges (income_group c)) bases \<and>
             rs = map (pov_row_spec (country_code c) bases) [2015, 2017, 2019, 2021, 2023]
      else rs = []"
    then obtain bases where b: "in_ranges (poverty_ranges (income_group c)) bases"
      and rs: "rs = map (pov_row_spec (country_code c) bases) poverty_years"
      using g by (auto simp: poverty_years_def)
    let ?s = "inv_draws3 (poverty_ranges (income_group c)) bases @- sconst 0"
    have "valid_rng ?s"
      using inv_draws3_valid [OF poverty_ranges_ok b] by (simp add: valid_rng_shift valid_rng_sconst)
    moreover have "pov_country c ?s = Inr (rs, sconst 0)"
      by (simp add: pov_country_listed [OF True] draws3_inv [OF poverty_ranges_ok b] rs)
    ultimately show "\<exists>s s'. valid_rng s \<and> pov_country c s = Inr (rs, s')" by blast
  qed
next
  case False
  then have g: "income_group c \<notin> {''Low income'', ''Lower middle income'', ''Upper middle income''}"
    by (simp add: poverty_groups_def)
  have "valid_rng (sconst (1/2))" by (simp add: valid_rng_sconst)
  then show ?thesis using g by (auto simp: pov_country_other [OF False])
qed

end
