(* ===== verification/TradeEducation.thy ===== *)
theory TradeEducation
  imports Prelude Catalog
begin

text \<open>
  The trade and education generator, the row-building part of \<open>load_trade_education\<close>
  (\<open>src/load_data.py\<close>, lines 241--285). Per country: a base trade openness in
  \<open>[40, 150)\<close> and three education bases by income group (the \<open>else\<close> branch takes any
  group other than the three named ones); for each year of \<open>range(2015, 2024)\<close> a linear
  improvement of the enrollment rates, secondary enrollment capped at 105, and two noise
  draws, for trade first and for expenditure second, in the order the row's dictionary
  literal evaluates them.
\<close>

record te_row =
  te_country_code :: string
  te_year :: int
  trade_pct_gdp :: real
  secondary_enrollment_rate :: real
  tertiary_enrollment_rate :: real
  government_expenditure_education_pct :: real

definition education_bases :: "string \<Rightarrow> rng \<Rightarrow> (real \<times> real \<times> real) \<times> rng" where
  "education_bases ig s =
     (if ig = ''High income'' then
        (let (sec_enrollment, s1) = uniform 95 105 s; (ter_enrollment, s2) = uniform 60 90 s1;
             (gov_edu_exp, s3) = uniform 4 6 s2 in ((sec_enrollment, ter_enrollment, gov_edu_exp), s3))
      else if ig = ''Upper middle income'' then
        (let (sec_enrollment, s1) = uniform 75 95 s; (ter_enrollment, s2) = uniform 30 60 s1;
             (gov_edu_exp, s3) = uniform 3.5 5.5 s2 in ((sec_enrollment, ter_enrollment, gov_edu_exp), s3))
      else if ig = ''Lower middle income'' then
        (let (sec_enrollment, s1) = uniform 50 80 s; (ter_enrollment, s2) = uniform 15 40 s1;
             (gov_edu_exp, s3) = uniform 3 5 s2 in ((sec_enrollment, ter_enrollment, gov_edu_exp), s3))
      else
        (let (sec_enrollment, s1) = uniform 30 60 s; (ter_enrollment, s2) = uniform 5 20 s1;
             (gov_edu_exp, s3) = uniform 2 4 s2 in ((sec_enrollment, ter_enrollment, gov_edu_exp), s3)))"

definition te_year_row :: "string \<Rightarrow> real \<Rightarrow> real \<times> real \<times> real \<Rightarrow> int \<Rightarrow> rng \<Rightarrow> (te_row list \<times> rng) result" where
  "te_year_row code base_trade bases year s =
     (case bases of (sec_enrollment, ter_enrollment, gov_edu_exp) \<Rightarrow>
        (let years_since_2015 = year - 2015;
             sec_improvement = sec_enrollment + real_of_int years_since_2015 * 0.5;
             ter_improvement = ter_enrollment + real_of_int years_since_2015 * 0.3;
             (trade_noise, s1) = uniform (-10) 10 s;
             (exp_noise, s2) = uniform (-0.5) 0.5 s1
         in Inr ([\<lparr>te_country_code = code, te_year = year,
                   trade_pct_gdp = round2 (base_trade + trade_noise),
                   secondary_enrollment_rate = round2 (min 105 sec_improvement),
                   tertiary_enrollment_rate = round2 ter_improvement,
                   government_expenditure_education_pct = round2 (gov_edu_exp + exp_noise)\<rparr>], s2)))"

definition te_country :: "country \<Rightarrow> rng \<Rightarrow> (te_row list \<times> rng) result" where
  "te_country c s =
     (let (base_trade, s1) = uniform 40 150 s;
          (bases, s2) = education_bases (income_group c) s1
      in loop_rows (te_year_row (country_code c) base_trade bases) (py_range 2015 2024) s2)"

definition te_data :: "country list \<Rightarrow> rng \<Rightarrow> (te_row list \<times> rng) result" where
  "te_data countries s = loop_rows te_country countries s"

section \<open>Lemmas\<close>

lemma education_bases_snd [rng_simps]: "snd (education_bases ig s) = sdrop 3 s"
  by (simp add: education_bases_def uniform_eq Let_def sdrop_numeral)

lemma education_bases_bounds:
  assumes "valid_rng s" and "education_bases ig s = ((sec, ter, gov), s')"
  shows "30 \<le> sec \<and> sec < 105 \<and> 5 \<le> ter \<and> ter < 90 \<and> 2 \<le> gov \<and> gov < 6"
proof -
  have u: "0 \<le> shd s" "shd s < 1" "0 \<le> shd (stl s)" "shd (stl s) < 1"
    "0 \<le> shd (stl (stl s))" "shd (stl (stl s)) < 1"
    using valid_rng_shd [OF assms(1)] valid_rng_shd [OF valid_rng_stl [OF assms(1)]]
      valid_rng_shd [OF valid_rng_stl [OF valid_rng_stl [OF assms(1)]]] by simp_all
  show ?thesis using assms(2) u by (simp add: education_bases_def uniform_eq Let_def split: if_splits)
qed

lemma te_year_row_eq:
  "te_year_row code bt (sec, ter, gov) y s =
     Inr ([\<lparr>te_country_code = code, te_year = y,
            trade_pct_gdp = round2 (bt + (-10 + 20 * shd s)),
            secondary_enrollment_rate = round2 (min 105 (sec + real_of_int (y - 2015) * 0.5)),
            tertiary_enrollment_rate = round2 (ter + real_of_int (y - 2015) * 0.3),
            government_expenditure_education_pct = round2 (gov + (-0.5 + 1 * shd (stl s)))\<rparr>], sdrop 2 s)"
  by (simp add: te_year_row_def uniform_eq Let_def sdrop_numeral)

lemma te_country_eq:
  "te_country c s =
     loop_rows (te_year_row (country_code c) (40 + 110 * shd s) (fst (education_bases (income_group c) (stl s))))
       (py_range 2015 2024) (sdrop 4 s)"
  by (simp add: te_country_def uniform_eq Let_def case_prod_beta education_bases_snd sdrop_numeral)

lemma te_year_row_ok: "\<exists>rs. te_year_row code bt bases y s = Inr (rs, sdrop 2 s)"
  by (cases bases) (auto simp: te_year_row_eq)

lemma te_year_row_keys:
  "te_year_row code bt bases y s = Inr (rs, s') \<Longrightarrow> map (\<lambda>r. (te_country_code r, te_year r)) rs = [(code, y)]"
  by (cases bases) (auto simp: te_year_row_eq)

lemma te_country_ok: "\<exists>rs. te_country c s = Inr (rs, sdrop 22 s)"
proof -
  have "\<exists>rs. loop_rows (te_year_row (country_code c) (40 + 110 * shd s) (fst (education_bases (income_group c) (stl s))))
              (py_range 2015 2024) (sdrop 4 s) =
            Inr (rs, sdrop (sum_list (map (\<lambda>_. 2) (py_range 2015 2024))) (sdrop 4 s))"
    by (rule loop_rows_total) (rule te_year_row_ok)
  then show ?thesis by (simp add: te_country_eq py_range_def)
qed

lemma te_country_keys:
  "te_country c s = Inr (rs, s') \<Longrightarrow>
   map (\<lambda>r. (te_country_code r, te_year r)) rs = map (Pair (country_code c)) (py_range 2015 2024)"
proof -
  assume "te_country c s = Inr (rs, s')"
  then have "map (\<lambda>r. (te_country_code r, te_year r)) rs = concat (map (\<lambda>y. [(country_code c, y)]) (py_range 2015 2024))"
    unfolding te_country_eq by (rule loop_rows_map) (rule te_year_row_keys)
  then show ?thesis by simp
qed

lemma te_year_row_enrollment:
  "te_year_row code bt (sec, ter, gov) y s = Inr (rs, s') \<Longrightarrow>
   \<forall>r \<in> set rs. te_country_code r = code \<and> te_year r = y \<and>
     secondary_enrollment_rate r = round2 (min 105 (sec + real_of_int (y - 2015) * 0.5)) \<and>
     tertiary_enrollment_rate r = round2 (ter + real_of_int (y - 2015) * 0.3)"
  by (auto simp: te_year_row_eq)

lemma te_year_row_noise:
  assumes "valid_rng s" and "te_year_row code bt (sec, ter, gov) y s = Inr (rs, s')"
  shows "valid_rng s' \<and> (\<forall>r \<in> set rs. \<exists>n m. -10 \<le> n \<and> n < 10 \<and> -0.5 \<le> m \<and> m < 0.5 \<and>
           trade_pct_gdp r = round2 (bt + n) \<and> government_expenditure_education_pct r = round2 (gov + m))"
proof -
  have u: "0 \<le> shd s" "shd s < 1" "0 \<le> shd (stl s)" "shd (stl s) < 1"
    using valid_rng_shd [OF assms(1)] valid_rng_shd [OF valid_rng_stl [OF assms(1)]] by simp_all
  have v: "valid_rng (sdrop 2 s)" using assms(1) by (rule valid_rng_sdrop)
  have rs: "rs = [\<lparr>te_country_code = code, te_year = y,
            trade_pct_gdp = round2 (bt + (-10 + 20 * shd s)),
            secondary_enrollment_rate = round2 (min 105 (sec + real_of_int (y - 2015) * 0.5)),
            tertiary_enrollment_rate = round2 (ter + real_of_int (y - 2015) * 0.3),
            government_expenditure_education_pct = round2 (gov + (-0.5 + 1 * shd (stl s)))\<rparr>]"
    and s': "s' = sdrop 2 s"
    using assms(2) by (simp_all add: te_year_row_eq)
  have "\<exists>n m. -10 \<le> n \<and> n < 10 \<and> -0.5 \<le> m \<and> m < 0.5 \<and>
          round2 (bt + (-10 + 20 * shd s)) = round2 (bt + n) \<and>
          round2 (gov + (-0.5 + 1 * shd (stl s))) = round2 (gov + m)"
    by (rule exI [of _ "-10 + 20 * shd s"], rule exI [of _ "-0.5 + 1 * shd (stl s)"]) (use u in simp)
  then show ?thesis using v unfolding rs s' by simp
qed

lemma te_country_enrollment:
  assumes "te_country c s = Inr (rs, s')"
  shows "\<exists>sec ter gov. fst (education_bases (income_group c) (stl s)) = (sec, ter, gov) \<and>
     (\<forall>r \<in> set rs. te_country_code r = country_code c \<and>
        secondary_enrollment_rate r = round2 (min 105 (sec + real_of_int (te_year r - 2015) * 0.5)) \<and>
        tertiary_enrollment_rate r = round2 (ter + real_of_int (te_year r - 2015) * 0.3))"
proof -
  obtain sec ter gov where b: "fst (education_bases (income_group c) (stl s)) = (sec, ter, gov)"
    by (cases "fst (education_bases (income_group c) (stl s))") auto
  have "\<forall>r \<in> set rs. \<exists>y \<in> set (py_range 2015 2024). te_country_code r = country_code c \<and> te_year r = y \<and>
     secondary_enrollment_rate r = round2 (min 105 (sec + real_of_int (y - 2015) * 0.5)) \<and>
     tertiary_enrollment_rate r = round2 (ter + real_of_int (y - 2015) * 0.3)"
    using assms unfolding te_country_eq b
    by (rule loop_rows_all_any) (rule te_year_row_enrollment)
  then show ?thesis using b by fastforce
qed

lemma te_country_spec:
  assumes "valid_rng s" and "te_country c s = Inr (rs, s')"
  shows "valid_rng s' \<and> (\<exists>bt sec ter gov. 40 \<le> bt \<and> bt < 150 \<and> 30 \<le> sec \<and> sec < 105 \<and> 5 \<le> ter \<and> ter < 90 \<and>
     2 \<le> gov \<and> gov < 6 \<and>
     (\<forall>r \<in> set rs. secondary_enrollment_rate r = round2 (min 105 (sec + real_of_int (te_year r - 2015) * 0.5)) \<and>
        tertiary_enrollment_rate r = round2 (ter + real_of_int (te_year r - 2015) * 0.3) \<and>
        te_year r \<in> set (py_range 2015 2024) \<and>
        (\<exists>n m. -10 \<le> n \<and> n < 10 \<and> -0.5 \<le> m \<and> m < 0.5 \<and>
           trade_pct_gdp r = round2 (bt + n) \<and> government_expenditure_education_pct r = round2 (gov + m))))"
proof -
  define bt where "bt = 40 + 110 * shd s"
  obtain sec ter gov where b: "fst (education_bases (income_group c) (stl s)) = (sec, ter, gov)"
    by (cases "fst (education_bases (income_group c) (stl s))") auto
  have eb: "education_bases (income_group c) (stl s) = ((sec, ter, gov), sdrop 3 (stl s))"
    using b by (simp add: prod_eq_iff education_bases_snd)
  have bounds: "30 \<le> sec \<and> sec < 105 \<and> 5 \<le> ter \<and> ter < 90 \<and> 2 \<le> gov \<and> gov < 6"
    by (rule education_bases_bounds [OF valid_rng_stl [OF assms(1)] eb])
  have bt: "40 \<le> bt \<and> bt < 150" using valid_rng_shd [OF assms(1)] by (simp add: bt_def)
  have l: "loop_rows (te_year_row (country_code c) bt (sec, ter, gov)) (py_range 2015 2024) (sdrop 4 s) = Inr (rs, s')"
    using assms(2) unfolding te_country_eq b bt_def .
  have "valid_rng s' \<and> (\<forall>r \<in> set rs. \<exists>y \<in> set (py_range 2015 2024).
          (te_country_code r = country_code c \<and> te_year r = y \<and>
           secondary_enrollment_rate r = round2 (min 105 (sec + real_of_int (y - 2015) * 0.5)) \<and>
           tertiary_enrollment_rate r = round2 (ter + real_of_int (y - 2015) * 0.3)) \<and>
          (\<exists>n m. -10 \<le> n \<and> n < 10 \<and> -0.5 \<le> m \<and> m < 0.5 \<and>
             trade_pct_gdp r = round2 (bt + n) \<and> government_expenditure_education_pct r = round2 (gov + m)))"
  proof (rule loop_rows_all [OF l valid_rng_sdrop [OF assms(1)]])
    fix y s1 rs1 s2
    assume a: "y \<in> set (py_range 2015 2024)" "valid_rng s1"
      "te_year_row (country_code c) bt (sec, ter, gov) y s1 = Inr (rs1, s2)"
    from te_year_row_enrollment [OF a(3)] te_year_row_noise [OF a(2,3)]
    show "valid_rng s2 \<and> (\<forall>r \<in> set rs1.
          (te_country_code r = country_code c \<and> te_year r = y \<and>
           secondary_enrollment_rate r = round2 (min 105 (sec + real_of_int (y - 2015) * 0.5)) \<and>
           tertiary_enrollment_rate r = round2 (ter + real_of_int (y - 2015) * 0.3)) \<and>
          (\<exists>n m. -10 \<le> n \<and> n < 10 \<and> -0.5 \<le> m \<and> m < 0.5 \<and>
             trade_pct_gdp r = round2 (bt + n) \<and> government_expenditure_education_pct r = round2 (gov + m)))"
      by blast
  qed
  then show ?thesis using bounds bt by fastforce
qed

section \<open>Properties of the generator\<close>

text \<open>C29: the trade and education generator never raises; it draws exactly 22 values per
  country: four bases and two noise values for each of the nine years.\<close>

theorem te_data_ok: "\<exists>rs. te_data cs s = Inr (rs, sdrop (22 * length cs) s)"
proof -
  have "\<exists>rs. loop_rows te_country cs s = Inr (rs, sdrop (sum_list (map (\<lambda>_. 22) cs)) s)"
    by (rule loop_rows_total) (rule te_country_ok)
  then show ?thesis by (simp add: te_data_def sum_list_triv mult.commute)
qed

lemma te_data_keys:
  "te_data cs s = Inr (rs, s') \<Longrightarrow>
   map (\<lambda>r. (te_country_code r, te_year r)) rs = concat (map (\<lambda>c. map (Pair (country_code c)) (py_range 2015 2024)) cs)"
  unfolding te_data_def by (erule loop_rows_map) (rule te_country_keys)

text \<open>C5: every trade and education row records a secondary enrollment rate of at most
  105, whatever the random state.\<close>

theorem te_secondary_cap:
  assumes "te_data cs s = Inr (rs, s')"
  shows "\<forall>r \<in> set rs. secondary_enrollment_rate r \<le> 105"
proof -
  have "\<forall>r \<in> set rs. \<exists>c \<in> set cs. secondary_enrollment_rate r \<le> 105"
    using assms unfolding te_data_def
  proof (rule loop_rows_all_any)
    fix c s rs s'
    assume "te_country c s = Inr (rs, s')"
    from te_country_enrollment [OF this] show "\<forall>r \<in> set rs. secondary_enrollment_rate r \<le> 105"
      by auto
  qed
  then show ?thesis by blast
qed

text \<open>C30: within a country, secondary enrollment never decreases from one year to a later
  one and tertiary enrollment strictly increases, after rounding.\<close>

theorem te_enrollment_trend:
  assumes "te_country c s = Inr (rs, s')" and "r1 \<in> set rs" and "r2 \<in> set rs"
    and "te_year r1 < te_year r2"
  shows "secondary_enrollment_rate r1 \<le> secondary_enrollment_rate r2 \<and>
         tertiary_enrollment_rate r1 < tertiary_enrollment_rate r2"
proof -
  obtain sec ter where rows: "\<forall>r \<in> set rs.
        secondary_enrollment_rate r = round2 (min 105 (sec + real_of_int (te_year r - 2015) * 0.5)) \<and>
        tertiary_enrollment_rate r = round2 (ter + real_of_int (te_year r - 2015) * 0.3)"
    using te_country_enrollment [OF assms(1)] by blast
  define a where "a = real_of_int (te_year r1 - 2015)"
  define b where "b = real_of_int (te_year r2 - 2015)"
  have ab: "a + 1 \<le> b" using assms(4) by (simp add: a_def b_def)
  have "min 105 (sec + a * 0.5) \<le> min 105 (sec + b * 0.5)"
    by (rule min.mono [OF order_refl]) (use ab in linarith)
  then have "secondary_enrollment_rate r1 \<le> secondary_enrollment_rate r2"
    using rows assms(2,3) unfolding a_def b_def by (simp add: round2_mono)
  moreover have "ter + a * 0.3 + 1/100 < ter + b * 0.3"
    using ab by linarith
  then have "tertiary_enrollment_rate r1 < tertiary_enrollment_rate r2"
    using rows assms(2,3) unfolding a_def b_def by (simp add: round2_strict)
  ultimately show ?thesis by simp
qed

text \<open>C31: under a valid random state every row stays within fixed bounds: secondary
  enrollment in \<open>[30, 105]\<close>, tertiary enrollment in \<open>[5, 93]\<close> (never above the 105
  cap although it is not capped), trade openness in \<open>[30, 160]\<close> and education
  expenditure in \<open>[1, 7]\<close>.\<close>

theorem te_bounds:
  assumes "valid_rng s" and "te_data cs s = Inr (rs, s')"
  shows "\<forall>r \<in> set rs. 30 \<le> secondary_enrollment_rate r \<and> secondary_enrollment_rate r \<le> 105 \<and>
           5 \<le> tertiary_enrollment_rate r \<and> tertiary_enrollment_rate r \<le> 93 \<and>
           30 \<le> trade_pct_gdp r \<and> trade_pct_gdp r \<le> 160 \<and>
           1 \<le> government_expenditure_education_pct r \<and> government_expenditure_education_pct r \<le> 7"
proof -
  let ?P = "\<lambda>r. 30 \<le> secondary_enrollment_rate r \<and> secondary_enrollment_rate r \<le> 105 \<and>
           5 \<le> tertiary_enrollment_rate r \<and> tertiary_enrollment_rate r \<le> 93 \<and>
           30 \<le> trade_pct_gdp r \<and> trade_pct_gdp r \<le> 160 \<and>
           1 \<le> government_expenditure_education_pct r \<and> government_expenditure_education_pct r \<le> 7"
  have "valid_rng s' \<and> (\<forall>r \<in> set rs. \<exists>c \<in> set cs. ?P r)"
    using assms(2,1) unfolding te_data_def
  proof (rule loop_rows_all)
    fix c s rs s'
    assume "valid_rng s" "te_country c s = Inr (rs, s')"
    from te_country_spec [OF this] obtain bt sec ter gov where v: "valid_rng s'"
      and b: "40 \<le> bt" "bt < 150" "30 \<le> sec" "sec < 105" "5 \<le> ter" "ter < 90" "2 \<le> gov" "gov < 6"
      and rows: "\<forall>r \<in> set rs. secondary_enrollment_rate r = round2 (min 105 (sec + real_of_int (te_year r - 2015) * 0.5)) \<and>
        tertiary_enrollment_rate r = round2 (ter + real_of_int (te_year r - 2015) * 0.3) \<and>
        te_year r \<in> set (py_range 2015 2024) \<and>
        (\<exists>n m. -10 \<le> n \<and> n < 10 \<and> -0.5 \<le> m \<and> m < 0.5 \<and>
           trade_pct_gdp r = round2 (bt + n) \<and> government_expenditure_education_pct r = round2 (gov + m))"
      by blast
    have "\<forall>r \<in> set rs. ?P r"
    proof
      fix r assume r: "r \<in> set rs"
      with rows obtain n m where nm: "-10 \<le> n" "n < 10" "-0.5 \<le> m" "m < 0.5"
        and eqs: "secondary_enrollment_rate r = round2 (min 105 (sec + real_of_int (te_year r - 2015) * 0.5))"
          "tertiary_enrollment_rate r = round2 (ter + real_of_int (te_year r - 2015) * 0.3)"
          "trade_pct_gdp r = round2 (bt + n)" "government_expenditure_education_pct r = round2 (gov + m)"
        and y: "te_year r \<in> set (py_range 2015 2024)"
        by blast
      define x where "x = real_of_int (te_year r - 2015)"
      have x: "0 \<le> x" "x \<le> 8" using y by (simp_all add: x_def)
      have "30 \<le> min 105 (sec + x * 0.5)" using b x by (simp add: min_def)
      moreover have "5 \<le> ter + x * 0.3" "ter + x * 0.3 \<le> 93"
        using b x by linarith+
      moreover have "30 \<le> bt + n" "bt + n \<le> 160" "1 \<le> gov + m" "gov + m \<le> 7" using b nm by simp_all
      ultimately show "?P r" unfolding eqs x_def [symmetric] by (simp add: round2_bounds round2_le_numeral)
    qed
    with v show "valid_rng s' \<and> (\<forall>r \<in> set rs. ?P r)" by simp
  qed
  then show ?thesis by blast
qed

section \<open>Witnesses\<close>

theorem te_secondary_cap_witness:
  "\<exists>rs s'. te_data catalog (sconst (1/2)) = Inr (rs, s') \<and> (\<forall>r \<in> set rs. secondary_enrollment_rate r \<le> 105)"
proof -
  obtain rs s' where d: "te_data catalog (sconst (1/2)) = Inr (rs, s')" using te_data_ok by blast
  show ?thesis using d te_secondary_cap [OF d] by blast
qed

theorem te_enrollment_trend_witness:
  "\<exists>rs s' r1 r2. te_country (hd catalog) (sconst (1/2)) = Inr (rs, s') \<and> r1 \<in> set rs \<and> r2 \<in> set rs \<and>
     te_year r1 < te_year r2 \<and>
     secondary_enrollment_rate r1 \<le> secondary_enrollment_rate r2 \<and>
     tertiary_enrollment_rate r1 < tertiary_enrollment_rate r2"
proof -
  obtain rs s' where d: "te_country (hd catalog) (sconst (1/2)) = Inr (rs, s')" using te_country_ok by blast
  have keys: "(country_code (hd catalog), 2015) \<in> set (map (\<lambda>r. (te_country_code r, te_year r)) rs)"
             "(country_code (hd catalog), 2016) \<in> set (map (\<lambda>r. (te_country_code r, te_year r)) rs)"
    unfolding te_country_keys [OF d] by (simp_all add: py_range_def)
  obtain r1 r2 where r: "r1 \<in> set rs" "r2 \<in> set rs" "te_year r1 < te_year r2"
    using keys by fastforce
  show ?thesis using d r te_enrollment_trend [OF d r] by blast
qed

theorem te_bounds_witness:
  "\<exists>rs s'. valid_rng (sconst (1/2)) \<and> te_data catalog (sconst (1/2)) = Inr (rs, s') \<and>
     (\<forall>r \<in> set rs. 30 \<le> secondary_enrollment_rate r \<and> secondary_enrollment_rate r \<le> 105 \<and>
           5 \<le> tertiary_enrollment_rate r \<and> tertiary_enrollment_rate r \<le> 93 \<and>
           30 \<le> trade_pct_gdp r \<and> trade_pct_gdp r \<le> 160 \<and>
           1 \<le> government_expenditure_education_pct r \<and> government_expenditure_education_pct r \<le> 7)"
proof -
  have v: "valid_rng (sconst (1/2))" by (simp add: valid_rng_sconst)
  obtain rs s' where d: "te_data catalog (sconst (1/2)) = Inr (rs, s')" using te_data_ok by blast
  show ?thesis using v d te_bounds [OF v d] by blast
qed

end
