(* ===== verification/TradeSpec.thy ===== *)
theory TradeSpec
  imports TradeEducation
begin

text \<open>
  An abstract specification of the trade and education series of one country, after spec
  section 4.5: a base trade openness in \<open>[40, 150)\<close>, three education bases in the income
  group's ranges, and for each year of 2015--2023 a noise pair (trade in \<open>[-10, 10)\<close>,
  expenditure in \<open>[-0.5, 0.5)\<close>); enrollment improves linearly (secondary \<open>+0.5\<close> a year,
  capped at 105, tertiary \<open>+0.3\<close> a year), and every value is stored rounded to two
  decimals. The refinement theorem shows that the rows \<open>te_country\<close> produces over all
  valid random states are exactly the series of this specification.
\<close>

definition education_ranges :: "string \<Rightarrow> ranges3" where
  "education_ranges ig =
     (if ig = ''High income'' then ((95, 105), (60, 90), (4, 6))
      else if ig = ''Upper middle income'' then ((75, 95), (30, 60), (3.5, 5.5))
      else if ig = ''Lower middle income'' then ((50, 80), (15, 40), (3, 5))
      else ((30, 60), (5, 20), (2, 4)))"

definition te_noise_ok :: "int \<Rightarrow> real \<times> real \<Rightarrow> bool" where
  "te_noise_ok y p = (case p of (n, m) \<Rightarrow> -10 \<le> n \<and> n < 10 \<and> -0.5 \<le> m \<and> m < 0.5)"

definition te_row_spec :: "string \<Rightarrow> real \<Rightarrow> real \<times> real \<times> real \<Rightarrow> int \<Rightarrow> real \<times> real \<Rightarrow> te_row" where
  "te_row_spec code bt bases y p = (case (bases, p) of ((sec, ter, gov), (n, m)) \<Rightarrow>
     \<lparr>te_country_code = code, te_year = y,
      trade_pct_gdp = round2 (bt + n),
      secondary_enrollment_rate = round2 (min 105 (sec + 0.5 * real_of_int (y - 2015))),
      tertiary_enrollment_rate = round2 (ter + 0.3 * real_of_int (y - 2015)),
      government_expenditure_education_pct = round2 (gov + m)\<rparr>)"

definition te_series_ok :: "country \<Rightarrow> real \<Rightarrow> real \<times> real \<times> real \<Rightarrow> (real \<times> real) list \<Rightarrow> bool" where
  "te_series_ok c bt bases ns =
     (40 \<le> bt \<and> bt < 150 \<and> in_ranges (education_ranges (income_group c)) bases \<and>
      list_all2 te_noise_ok (py_range 2015 2024) ns)"

text \<open>The two \<open>random()\<close> outputs that make a year draw the noise pair \<open>(n, m)\<close>.\<close>

definition noise_draws :: "int \<Rightarrow> real \<times> real \<Rightarrow> real list" where
  "noise_draws y p = (case p of (n, m) \<Rightarrow> [(n + 10) / 20, m + 0.5])"

section \<open>Lemmas\<close>

lemma education_ranges_ok: "ranges_ok (education_ranges ig)"
  by (simp add: education_ranges_def ranges_ok_def)

lemma education_bases_draws3: "education_bases ig s = draws3 (education_ranges ig) s"
  by (simp add: education_bases_def education_ranges_def draws3_def uniform_eq Let_def sdrop_numeral)

lemma te_year_row_decode:
  assumes "valid_rng s"
  shows "\<exists>p s1. te_noise_ok y p \<and> te_year_row code bt bases y s = Inr ([te_row_spec code bt bases y p], s1) \<and>
     valid_rng s1"
proof -
  obtain sec ter gov where b: "bases = (sec, ter, gov)" by (cases bases) auto
  have u: "0 \<le> shd s" "shd s < 1" "0 \<le> shd (stl s)" "shd (stl s) < 1"
    using valid_rng_shd [OF assms] valid_rng_shd [OF valid_rng_stl [OF assms]] by simp_all
  show ?thesis
    using u valid_rng_sdrop [OF assms, of 2]
    by (intro exI [of _ "(-10 + 20 * shd s, -0.5 + 1 * shd (stl s))"] exI [of _ "sdrop 2 s"])
       (simp add: b te_year_row_eq te_row_spec_def te_noise_ok_def mult.commute)
qed

lemma te_year_row_encode:
  "te_year_row code bt bases y (noise_draws y p @- t) = Inr ([te_row_spec code bt bases y p], t)"
proof (cases bases, cases p)
  fix sec ter gov n m assume b: "bases = (sec, ter, gov)" and p: "p = (n, m)"
  have "(20 * n + 200) / 20 - 10 = n" by (simp add: field_simps)
  then show ?thesis
    by (simp only: b p te_year_row_eq noise_draws_def te_row_spec_def) (simp add: sdrop_numeral mult.commute)
qed

lemma noise_draws_valid: "te_noise_ok y p \<Longrightarrow> set (noise_draws y p) \<subseteq> {0..<1}"
  by (cases p) (simp add: te_noise_ok_def noise_draws_def)

section \<open>Refinement\<close>

text \<open>C15: \<open>te_country\<close> refines the specification exactly: under valid random states it
  produces precisely the specified series, with the secondary rate capped at 105 and
  the noise added to trade and expenditure only.\<close>

theorem te_country_refines_spec:
  "(\<exists>s s'. valid_rng s \<and> te_country c s = Inr (rs, s')) \<longleftrightarrow>
   (\<exists>bt bases ns. te_series_ok c bt bases ns \<and> rs = map2 (te_row_spec (country_code c) bt bases) (py_range 2015 2024) ns)"
proof
  assume "\<exists>s s'. valid_rng s \<and> te_country c s = Inr (rs, s')"
  then obtain s s' where v: "valid_rng s" and r: "te_country c s = Inr (rs, s')" by blast
  define bt where "bt = 40 + 110 * shd s"
  define bases where "bases = fst (education_bases (income_group c) (stl s))"
  have bt: "40 \<le> bt \<and> bt < 150" using valid_rng_shd [OF v] by (simp add: bt_def)
  have bs: "in_ranges (education_ranges (income_group c)) bases"
    unfolding bases_def education_bases_draws3
    by (rule draws3_in_ranges [OF valid_rng_stl [OF v] education_ranges_ok])
  have "loop_rows (te_year_row (country_code c) bt bases) (py_range 2015 2024) (sdrop 4 s) = Inr (rs, s')"
    using r by (simp add: te_country_eq bt_def bases_def)
  then obtain ns where "list_all2 te_noise_ok (py_range 2015 2024) ns"
      "rs = map2 (te_row_spec (country_code c) bt bases) (py_range 2015 2024) ns"
    using loop_rows_sound [OF valid_rng_sdrop [OF v], where ok = te_noise_ok] te_year_row_decode by blast
  then show "\<exists>bt bases ns. te_series_ok c bt bases ns \<and>
      rs = map2 (te_row_spec (country_code c) bt bases) (py_range 2015 2024) ns"
    using bt bs by (intro exI [of _ bt] exI [of _ bases] exI [of _ ns]) (simp add: te_series_ok_def)
next
  assume "\<exists>bt bases ns. te_series_ok c bt bases ns \<and>
      rs = map2 (te_row_spec (country_code c) bt bases) (py_range 2015 2024) ns"
  then obtain bt bases ns where ok: "te_series_ok c bt bases ns"
    and rs: "rs = map2 (te_row_spec (country_code c) bt bases) (py_range 2015 2024) ns" by blast
  have bt: "40 \<le> bt" "bt < 150" and bs: "in_ranges (education_ranges (income_group c)) bases"
    and la: "list_all2 te_noise_ok (py_range 2015 2024) ns"
    using ok by (simp_all add: te_series_ok_def)
  define u where "u = (bt - 40) / 110"
  have u: "0 \<le> u" "u < 1" "40 + 110 * u = bt" using bt by (simp_all add: u_def field_simps)
  let ?r = "concat (map2 noise_draws (py_range 2015 2024) ns) @- sconst 0"
  let ?s = "u ## (inv_draws3 (education_ranges (income_group c)) bases @- ?r)"
  have "valid_rng ?s"
    using u inv_draws3_valid [OF education_ranges_ok bs] loop_rows_complete_valid [OF la noise_draws_valid]
    by (simp add: valid_rng_SCons valid_rng_shift valid_rng_sconst)
  moreover have "te_country c ?s = Inr (rs, sconst 0)"
    using u draws3_inv [OF education_ranges_ok bs, of ?r] loop_rows_complete [OF la te_year_row_encode]
    by (simp add: te_country_def uniform_eq Let_def education_bases_draws3 rs)
  ultimately show "\<exists>s s'. valid_rng s \<and> te_country c s = Inr (rs, s')" by blast
qed

end
