(* ===== verification/Loader.thy ===== *)
theory Loader
  imports Database Catalog Gdp Inequality Poverty TradeEducation
begin

text \<open>
  The driver of \<open>src/load_data.py\<close>: the five \<open>load_*\<close> functions, each generating its
  rows and writing them with \<open>to_sql(..., if_exists='replace')\<close>, and \<open>main\<close>, which runs
  the schema script, the five loaders in order and the row-count summary inside
  \<open>try\<close>, catches every exception, and closes the connection in \<open>finally\<close>.
  One random state is threaded through all generators in the order \<open>main\<close> calls them.
  The schema script \<open>schema.sql\<close> is not part of the sources: it is a parameter
  \<open>schema\<close> of \<open>main\<close>, any function from the database to a possibly raised exception
  and the database it leaves.
\<close>

datatype table =
    CountryTable "country list"
  | GdpTable "gdp_row list"
  | IneqTable "ineq_row list"
  | PovTable "pov_row list"
  | TradeTable "te_row list"
  | SchemaTable nat

type_synonym sqldb = "table db"

fun table_rows :: "table \<Rightarrow> nat" where
  "table_rows (CountryTable rs) = length rs"
| "table_rows (GdpTable rs) = length rs"
| "table_rows (IneqTable rs) = length rs"
| "table_rows (PovTable rs) = length rs"
| "table_rows (TradeTable rs) = length rs"
| "table_rows (SchemaTable n) = n"

definition load_country_metadata :: "sqldb \<Rightarrow> (country list \<times> sqldb) result" where
  "load_country_metadata conn =
     (case countries_frame of
        Inl e \<Rightarrow> Inl e
      | Inr df \<Rightarrow>
          (case to_sql_replace ''country_metadata'' (CountryTable df) conn of
             Inl e \<Rightarrow> Inl e
           | Inr conn' \<Rightarrow> Inr (df, conn')))"

definition load_gdp_data :: "sqldb \<Rightarrow> country list \<Rightarrow> rng \<Rightarrow> (sqldb \<times> rng) result" where
  "load_gdp_data conn countries s =
     (case gdp_data countries s of
        Inl e \<Rightarrow> Inl e
      | Inr (data, s') \<Rightarrow>
          (case to_sql_replace ''gdp_data'' (GdpTable data) conn of
             Inl e \<Rightarrow> Inl e
           | Inr conn' \<Rightarrow> Inr (conn', s')))"

definition load_inequality_data :: "sqldb \<Rightarrow> country list \<Rightarrow> rng \<Rightarrow> (sqldb \<times> rng) result" where
  "load_inequality_data conn countries s =
     (case ineq_data countries s of
        Inl e \<Rightarrow> Inl e
      | Inr (data, s') \<Rightarrow>
          (case to_sql_replace ''inequality_metrics'' (IneqTable data) conn of
             Inl e \<Rightarrow> Inl e
           | Inr conn' \<Rightarrow> Inr (conn', s')))"

definition load_poverty_data :: "sqldb \<Rightarrow> country list \<Rightarrow> rng \<Rightarrow> (sqldb \<times> rng) result" where
  "load_poverty_data conn countries s =
     (case pov_data countries s of
        Inl e \<Rightarrow> Inl e
      | Inr (data, s') \<Rightarrow>
          (case to_sql_replace ''poverty_indicators'' (PovTable data) conn of
             Inl e \<Rightarrow> Inl e
           | Inr conn' \<Rightarrow> Inr (conn', s')))"

definition load_trade_education :: "sqldb \<Rightarrow> country list \<Rightarrow> rng \<Rightarrow> (sqldb \<times> rng) result" where
  "load_trade_education conn countries s =
     (case te_data countries s of
        Inl e \<Rightarrow> Inl e
      | Inr (data, s') \<Rightarrow>
          (case to_sql_replace ''trade_education'' (TradeTable data) conn of
             Inl e \<Rightarrow> Inl e
           | Inr conn' \<Rightarrow> Inr (conn', s')))"

definition summary_tables :: "string list" where
  "summary_tables = [''country_metadata'', ''gdp_data'', ''inequality_metrics'',
                     ''poverty_indicators'', ''trade_education'']"

fun count_summary :: "sqldb \<Rightarrow> string list \<Rightarrow> (string \<times> nat) list result" where
  "count_summary conn [] = Inr []"
| "count_summary conn (t # ts) =
     (case select_count table_rows conn t of
        Inl e \<Rightarrow> Inl e
      | Inr n \<Rightarrow> (case count_summary conn ts of Inl e \<Rightarrow> Inl e | Inr cs \<Rightarrow> Inr ((t, n) # cs)))"

text \<open>The body of the \<open>try\<close> block: the outcome (the exception raised, or the summary
  counts) and the database as the block leaves it, with the random state.\<close>

definition try_block :: "(sqldb \<Rightarrow> error option \<times> sqldb) \<Rightarrow> sqldb \<Rightarrow> rng \<Rightarrow>
    (string \<times> nat) list result \<times> sqldb \<times> rng" where
  "try_block schema conn0 s0 =
     (case schema conn0 of
        (Some e, conn1) \<Rightarrow> (Inl e, conn1, s0)
      | (None, conn1) \<Rightarrow>
     (case load_country_metadata conn1 of
        Inl e \<Rightarrow> (Inl e, conn1, s0)
      | Inr (countries, conn2) \<Rightarrow>
     (case load_gdp_data conn2 countries s0 of
        Inl e \<Rightarrow> (Inl e, conn2, s0)
      | Inr (conn3, s1) \<Rightarrow>
     (case load_inequality_data conn3 countries s1 of
        Inl e \<Rightarrow> (Inl e, conn3, s1)
      | Inr (conn4, s2) \<Rightarrow>
     (case load_poverty_data conn4 countries s2 of
        Inl e \<Rightarrow> (Inl e, conn4, s2)
      | Inr (conn5, s3) \<Rightarrow>
     (case load_trade_education conn5 countries s3 of
        Inl e \<Rightarrow> (Inl e, conn5, s3)
      | Inr (conn6, s4) \<Rightarrow> (count_summary conn6 summary_tables, conn6, s4)))))))"

text \<open>The row counts \<open>main\<close> reports for the catalog of the source (not code: the
  expected summary).\<close>

definition catalog_counts :: "(string \<times> nat) list" where
  "catalog_counts = [(''country_metadata'', 48), (''gdp_data'', 432), (''inequality_metrics'', 240),
                     (''poverty_indicators'', 110), (''trade_education'', 432)]"

record run_result =
  final_db :: sqldb
  conn_closed :: bool
  caught :: "error option"
  summary :: "(string \<times> nat) list"
  exit_status :: int

text \<open>\<open>main\<close>: \<open>except Exception\<close> catches whatever the block raised and prints it,
  \<open>finally\<close> closes the connection, and the function returns normally, so the process
  exits with status 0 in every case.\<close>

definition main :: "(sqldb \<Rightarrow> error option \<times> sqldb) \<Rightarrow> sqldb \<Rightarrow> rng \<Rightarrow> run_result" where
  "main schema conn s =
     (case try_block schema conn s of
        (Inl e, conn', _) \<Rightarrow>
          \<lparr>final_db = conn', conn_closed = True, caught = Some e, summary = [], exit_status = 0\<rparr>
      | (Inr counts, conn', _) \<Rightarrow>
          \<lparr>final_db = conn', conn_closed = True, caught = None, summary = counts, exit_status = 0\<rparr>)"

text \<open>The typing discipline of the database: a frame of generated rows only ever sits in
  the table of its own loader; tables created by the schema script may have any name.\<close>

fun table_in_place :: "string \<Rightarrow> table \<Rightarrow> bool" where
  "table_in_place n (CountryTable _) = (n = ''country_metadata'')"
| "table_in_place n (GdpTable _) = (n = ''gdp_data'')"
| "table_in_place n (IneqTable _) = (n = ''inequality_metrics'')"
| "table_in_place n (PovTable _) = (n = ''poverty_indicators'')"
| "table_in_place n (TradeTable _) = (n = ''trade_education'')"
| "table_in_place n (SchemaTable _) = True"

definition db_well_typed :: "sqldb \<Rightarrow> bool" where
  "db_well_typed d = (\<forall>n tb. tables d n = Some tb \<longrightarrow> table_in_place n tb)"

text \<open>The database after the five writes of a successful run.\<close>

abbreviation written_db :: "sqldb \<Rightarrow> gdp_row list \<Rightarrow> ineq_row list \<Rightarrow> pov_row list \<Rightarrow> te_row list \<Rightarrow> sqldb" where
  "written_db d g i p t \<equiv> d\<lparr>tables := (tables d)(''country_metadata'' \<mapsto> CountryTable catalog,
      ''gdp_data'' \<mapsto> GdpTable g, ''inequality_metrics'' \<mapsto> IneqTable i,
      ''poverty_indicators'' \<mapsto> PovTable p, ''trade_education'' \<mapsto> TradeTable t)\<rparr>"

section \<open>Lemmas: the loaders\<close>

lemma load_country_metadata_eq:
  "load_country_metadata d =
     (case to_sql_replace ''country_metadata'' (CountryTable catalog) d of
        Inl e \<Rightarrow> Inl e | Inr d' \<Rightarrow> Inr (catalog, d'))"
  by (simp add: load_country_metadata_def catalog_frame_ok)

lemma load_gdp_data_gen:
  "gdp_data cs s = Inr (rs, s') \<Longrightarrow>
   load_gdp_data d cs s = (case to_sql_replace ''gdp_data'' (GdpTable rs) d of Inl e \<Rightarrow> Inl e | Inr d' \<Rightarrow> Inr (d', s'))"
  by (simp add: load_gdp_data_def)

lemma load_inequality_data_gen:
  "ineq_data cs s = Inr (rs, s') \<Longrightarrow>
   load_inequality_data d cs s =
     (case to_sql_replace ''inequality_metrics'' (IneqTable rs) d of Inl e \<Rightarrow> Inl e | Inr d' \<Rightarrow> Inr (d', s'))"
  by (simp add: load_inequality_data_def)

lemma load_poverty_data_gen:
  "pov_data cs s = Inr (rs, s') \<Longrightarrow>
   load_poverty_data d cs s =
     (case to_sql_replace ''poverty_indicators'' (PovTable rs) d of Inl e \<Rightarrow> Inl e | Inr d' \<Rightarrow> Inr (d', s'))"
  by (simp add: load_poverty_data_def)

lemma load_trade_education_gen:
  "te_data cs s = Inr (rs, s') \<Longrightarrow>
   load_trade_education d cs s =
     (case to_sql_replace ''trade_education'' (TradeTable rs) d of Inl e \<Rightarrow> Inl e | Inr d' \<Rightarrow> Inr (d', s'))"
  by (simp add: load_trade_education_def)

section \<open>Lemmas: the catalog run\<close>

lemma catalog_poor_count: "length (filter (\<lambda>c. income_group c \<in> set poverty_groups) catalog) = 22"
proof -
  have "length (filter (\<lambda>c. income_group c \<in> set poverty_groups) catalog) =
        length (filter (\<lambda>g. g \<in> set poverty_groups) (map income_group catalog))"
    by (simp add: filter_map comp_def)
  also have "\<dots> = 22" by (simp add: map_group_catalog income_group_col_def poverty_groups_def)
  finally show ?thesis .
qed

lemma catalog_generation:
  assumes "valid_rng s"
  shows "\<exists>g i p t. gdp_data catalog s = Inr (g, sdrop 528 s) \<and>
           ineq_data catalog (sdrop 528 s) = Inr (i, sdrop 1296 s) \<and>
           pov_data catalog (sdrop 1296 s) = Inr (p, sdrop 1362 s) \<and>
           te_data catalog (sdrop 1362 s) = Inr (t, sdrop 2418 s) \<and>
           length g = 432 \<and> length i = 240 \<and> length p = 110 \<and> length t = 432"
proof -
  obtain g where g: "gdp_data catalog s = Inr (g, sdrop 528 s)"
    using gdp_data_ok [OF assms catalog_gdp_groups] by (auto simp: length_catalog)
  have v1: "valid_rng (sdrop 528 s)" using assms by (rule valid_rng_sdrop)
  obtain i where i: "ineq_data catalog (sdrop 528 s) = Inr (i, sdrop 1296 s)"
    using ineq_data_ok [OF v1 catalog_gini_regions] by (auto simp: length_catalog)
  obtain p where p: "pov_data catalog (sdrop 1296 s) = Inr (p, sdrop 1362 s)"
    using pov_data_ok [of catalog "sdrop 1296 s"] by (auto simp: catalog_poor_count)
  obtain t where t: "te_data catalog (sdrop 1362 s) = Inr (t, sdrop 2418 s)"
    using te_data_ok [of catalog "sdrop 1362 s"] by (auto simp: length_catalog)
  have "length g = 432"
    using arg_cong [OF gdp_data_keys [OF g], of length]
    by (simp add: length_concat comp_def sum_list_triv length_catalog)
  moreover have "length i = 240"
    using arg_cong [OF ineq_data_keys [OF i], of length]
    by (simp add: length_concat comp_def sum_list_triv length_catalog survey_years_def)
  moreover have "length p = 110"
    using arg_cong [OF pov_data_keys [OF p], of length] unfolding concat_if_filter
    by (simp add: length_concat comp_def sum_list_triv catalog_poor_count poverty_years_def)
  moreover have "length t = 432"
    using arg_cong [OF te_data_keys [OF t], of length]
    by (simp add: length_concat comp_def sum_list_triv length_catalog)
  ultimately show ?thesis using g i p t by blast
qed

lemma summary_tables_faults:
  "set summary_tables \<inter> F = {} \<Longrightarrow>
   ''country_metadata'' \<notin> F \<and> ''gdp_data'' \<notin> F \<and> ''inequality_metrics'' \<notin> F \<and>
   ''poverty_indicators'' \<notin> F \<and> ''trade_education'' \<notin> F"
  by (auto simp: summary_tables_def)

lemma try_block_catalog:
  assumes "valid_rng s" and "schema din = (None, dsch)" and "set summary_tables \<inter> write_faults dsch = {}"
  shows "\<exists>g i p t. gdp_data catalog s = Inr (g, sdrop 528 s) \<and>
     ineq_data catalog (sdrop 528 s) = Inr (i, sdrop 1296 s) \<and>
     pov_data catalog (sdrop 1296 s) = Inr (p, sdrop 1362 s) \<and>
     te_data catalog (sdrop 1362 s) = Inr (t, sdrop 2418 s) \<and>
     length g = 432 \<and> length i = 240 \<and> length p = 110 \<and> length t = 432 \<and>
     try_block schema din s =
       (count_summary (dsch\<lparr>tables := (tables dsch)(''country_metadata'' \<mapsto> CountryTable catalog,
            ''gdp_data'' \<mapsto> GdpTable g, ''inequality_metrics'' \<mapsto> IneqTable i,
            ''poverty_indicators'' \<mapsto> PovTable p, ''trade_education'' \<mapsto> TradeTable t)\<rparr>) summary_tables,
        dsch\<lparr>tables := (tables dsch)(''country_metadata'' \<mapsto> CountryTable catalog,
            ''gdp_data'' \<mapsto> GdpTable g, ''inequality_metrics'' \<mapsto> IneqTable i,
            ''poverty_indicators'' \<mapsto> PovTable p, ''trade_education'' \<mapsto> TradeTable t)\<rparr>,
        sdrop 2418 s)"
proof -
  obtain g i p t where gen: "gdp_data catalog s = Inr (g, sdrop 528 s)"
    "ineq_data catalog (sdrop 528 s) = Inr (i, sdrop 1296 s)"
    "pov_data catalog (sdrop 1296 s) = Inr (p, sdrop 1362 s)"
    "te_data catalog (sdrop 1362 s) = Inr (t, sdrop 2418 s)"
    and len: "length g = 432" "length i = 240" "length p = 110" "length t = 432"
    using catalog_generation [OF assms(1)] by blast
  have nf: "''country_metadata'' \<notin> write_faults dsch" "''gdp_data'' \<notin> write_faults dsch"
    "''inequality_metrics'' \<notin> write_faults dsch" "''poverty_indicators'' \<notin> write_faults dsch"
    "''trade_education'' \<notin> write_faults dsch"
    using summary_tables_faults [OF assms(3)] by simp_all
  show ?thesis using len gen
    by (intro exI [of _ g] exI [of _ i] exI [of _ p] exI [of _ t])
       (simp add: try_block_def assms(2) load_country_metadata_eq load_gdp_data_gen [OF gen(1)]
         load_inequality_data_gen [OF gen(2)] load_poverty_data_gen [OF gen(3)]
         load_trade_education_gen [OF gen(4)] to_sql_replace_ok nf)
qed

lemma count_summary_catalog:
  "length g = 432 \<Longrightarrow> length i = 240 \<Longrightarrow> length p = 110 \<Longrightarrow> length t = 432 \<Longrightarrow>
   count_summary (d\<lparr>tables := (tables d)(''country_metadata'' \<mapsto> CountryTable catalog,
            ''gdp_data'' \<mapsto> GdpTable g, ''inequality_metrics'' \<mapsto> IneqTable i,
            ''poverty_indicators'' \<mapsto> PovTable p, ''trade_education'' \<mapsto> TradeTable t)\<rparr>) summary_tables =
   Inr catalog_counts"
  by (simp add: summary_tables_def select_count_def length_catalog catalog_counts_def)

section \<open>A successful run on the catalog\<close>

lemma main_catalog_run:
  assumes "valid_rng s" and "schema din = (None, dsch)" and "set summary_tables \<inter> write_faults dsch = {}"
  shows "\<exists>g i p t. gdp_data catalog s = Inr (g, sdrop 528 s) \<and>
     ineq_data catalog (sdrop 528 s) = Inr (i, sdrop 1296 s) \<and>
     pov_data catalog (sdrop 1296 s) = Inr (p, sdrop 1362 s) \<and>
     te_data catalog (sdrop 1362 s) = Inr (t, sdrop 2418 s) \<and>
     main schema din s = \<lparr>final_db = written_db dsch g i p t, conn_closed = True, caught = None,
                         summary = catalog_counts, exit_status = 0\<rparr>"
proof -
  from try_block_catalog [where schema = schema and din = din, OF assms] obtain g i p t where
    gen: "gdp_data catalog s = Inr (g, sdrop 528 s)"
      "ineq_data catalog (sdrop 528 s) = Inr (i, sdrop 1296 s)"
      "pov_data catalog (sdrop 1296 s) = Inr (p, sdrop 1362 s)"
      "te_data catalog (sdrop 1362 s) = Inr (t, sdrop 2418 s)"
    and len: "length g = 432" "length i = 240" "length p = 110" "length t = 432"
    and tb: "try_block schema din s =
       (count_summary (written_db dsch g i p t) summary_tables, written_db dsch g i p t, sdrop 2418 s)"
    by blast
  show ?thesis using gen by (simp add: main_def tb count_summary_catalog [OF len])
qed

section \<open>Typing: every write puts a frame in its own table\<close>

lemma to_sql_replace_typed:
  "to_sql_replace n tb d = Inr d' \<Longrightarrow> table_in_place n tb \<Longrightarrow> db_well_typed d \<Longrightarrow> db_well_typed d'"
  by (auto simp: to_sql_replace_def db_well_typed_def split: if_splits)

lemma loaders_typed:
  "load_country_metadata d = Inr (cs, d') \<Longrightarrow> db_well_typed d \<Longrightarrow> db_well_typed d'"
  "load_gdp_data d cs s = Inr (d', s') \<Longrightarrow> db_well_typed d \<Longrightarrow> db_well_typed d'"
  "load_inequality_data d cs s = Inr (d', s') \<Longrightarrow> db_well_typed d \<Longrightarrow> db_well_typed d'"
  "load_poverty_data d cs s = Inr (d', s') \<Longrightarrow> db_well_typed d \<Longrightarrow> db_well_typed d'"
  "load_trade_education d cs s = Inr (d', s') \<Longrightarrow> db_well_typed d \<Longrightarrow> db_well_typed d'"
  by (auto simp: load_country_metadata_def load_gdp_data_def load_inequality_data_def
      load_poverty_data_def load_trade_education_def
      split: sum.splits prod.splits intro: to_sql_replace_typed)

lemma try_block_typed:
  assumes "db_well_typed (snd (schema din))"
  shows "db_well_typed (fst (snd (try_block schema din s)))"
proof (cases "schema din")
  case (Pair e d1)
  have d1: "db_well_typed d1" using assms Pair by simp
  show ?thesis
  proof (cases e)
    case (Some x)
    then show ?thesis using Pair d1 by (simp add: try_block_def)
  next
    case None
    show ?thesis using d1 unfolding try_block_def Pair None
      by (auto split: sum.split prod.split) (meson loaders_typed)+
  qed
qed

lemma final_db_main: "final_db (main schema d s) = fst (snd (try_block schema d s))"
  by (simp add: main_def split: prod.split sum.split)

section \<open>The summary refines its specification over the row counts\<close>

text \<open>C16: the summary loop of \<open>main\<close> implements the specification \<open>summary_spec\<close> on
  the abstract row-count view of the database: it reports every table with its number of
  rows, or fails with the first table that does not exist.\<close>

theorem count_summary_refines:
  "count_summary d ts = summary_spec (row_counts table_rows d) ts"
  by (induction ts) (simp_all add: summary_spec_Nil summary_spec_Cons select_count_counts
      split: option.split sum.split)

end
