(* ===== verification/MainSteps.thy ===== *)
theory MainSteps
  imports Loader
begin

text \<open>
  A small-step model of \<open>main\<close> in \<open>src/load_data.py\<close>: the statements of the \<open>try\<close>
  block that change the database or may raise (the schema script, the five loaders, one
  iteration per table of the summary loop), then \<open>except\<close> and \<open>finally\<close>, executed one
  at a time. \<open>stage\<close> is the program counter: which statement runs next, with the
  countries returned by \<open>load_country_metadata\<close> and, in the summary loop, the tables
  left and the counts read so far. \<open>mstate\<close> is the state of \<open>main\<close>: the connection's
  database, the random state, whether the connection is open, the exception caught and
  the counts reported. \<open>main_step\<close> executes one statement (\<open>None\<close> once the function
  has returned), \<open>main_run\<close> runs it with fuel, and \<open>reachable\<close> is the set of states
  a run from \<open>init_mstate\<close> (just after \<open>sqlite3.connect\<close>) goes through.
  \<open>stage_measure\<close> bounds the statements left (13 from the start: six statements,
  five summary iterations, the end of the loop and \<open>finally\<close>), so enough fuel ends
  every run (\<open>main_run_terminates\<close>). The theorems: from every reachable state the
  run reaches the end of \<open>finally\<close>, where \<open>conn.close()\<close> has run; and every
  reachable state satisfies the invariant \<open>main_inv\<close> of the summary loop.
\<close>

datatype stage =
    Schema
  | LoadCountries
  | LoadGdp "country list"
  | LoadIneq "country list"
  | LoadPov "country list"
  | LoadTrade "country list"
  | Summary "string list" "(string \<times> nat) list"
  | Except error
  | Finally
  | Done

record mstate =
  ms_pc :: stage
  ms_conn :: sqldb
  ms_rng :: rng
  ms_open :: bool
  ms_exc :: "error option"
  ms_counts :: "(string \<times> nat) list"

definition init_mstate :: "sqldb \<Rightarrow> rng \<Rightarrow> mstate" where
  "init_mstate d s = \<lparr>ms_pc = Schema, ms_conn = d, ms_rng = s, ms_open = True, ms_exc = None, ms_counts = []\<rparr>"

definition raise_to :: "mstate \<Rightarrow> error \<Rightarrow> mstate" where
  "raise_to m e = m\<lparr>ms_pc := Except e\<rparr>"

fun main_step :: "(sqldb \<Rightarrow> error option \<times> sqldb) \<Rightarrow> mstate \<Rightarrow> mstate option" where
  "main_step schema m =
     (case ms_pc m of
        Schema \<Rightarrow>
          (case schema (ms_conn m) of
             (Some e, d') \<Rightarrow> Some (raise_to (m\<lparr>ms_conn := d'\<rparr>) e)
           | (None, d') \<Rightarrow> Some (m\<lparr>ms_pc := LoadCountries, ms_conn := d'\<rparr>))
      | LoadCountries \<Rightarrow>
          (case load_country_metadata (ms_conn m) of
             Inl e \<Rightarrow> Some (raise_to m e)
           | Inr (cs, d') \<Rightarrow> Some (m\<lparr>ms_pc := LoadGdp cs, ms_conn := d'\<rparr>))
      | LoadGdp cs \<Rightarrow>
          (case load_gdp_data (ms_conn m) cs (ms_rng m) of
             Inl e \<Rightarrow> Some (raise_to m e)
           | Inr (d', s') \<Rightarrow> Some (m\<lparr>ms_pc := LoadIneq cs, ms_conn := d', ms_rng := s'\<rparr>))
      | LoadIneq cs \<Rightarrow>
          (case load_inequality_data (ms_conn m) cs (ms_rng m) of
             Inl e \<Rightarrow> Some (raise_to m e)
           | Inr (d', s') \<Rightarrow> Some (m\<lparr>ms_pc := LoadPov cs, ms_conn := d', ms_rng := s'\<rparr>))
      | LoadPov cs \<Rightarrow>
          (case load_poverty_data (ms_conn m) cs (ms_rng m) of
             Inl e \<Rightarrow> Some (raise_to m e)
           | Inr (d', s') \<Rightarrow> Some (m\<lparr>ms_pc := LoadTrade cs, ms_conn := d', ms_rng := s'\<rparr>))
      | LoadTrade cs \<Rightarrow>
          (case load_trade_education (ms_conn m) cs (ms_rng m) of
             Inl e \<Rightarrow> Some (raise_to m e)
           | Inr (d', s') \<Rightarrow> Some (m\<lparr>ms_pc := Summary summary_tables [], ms_conn := d', ms_rng := s'\<rparr>))
      | Summary [] acc \<Rightarrow> Some (m\<lparr>ms_pc := Finally, ms_counts := acc\<rparr>)
      | Summary (t # ts) acc \<Rightarrow>
          (case select_count table_rows (ms_conn m) t of
             Inl e \<Rightarrow> Some (raise_to m e)
           | Inr n \<Rightarrow> Some (m\<lparr>ms_pc := Summary ts (acc @ [(t, n)])\<rparr>))
      | Except e \<Rightarrow> Some (m\<lparr>ms_pc := Finally, ms_exc := Some e\<rparr>)
      | Finally \<Rightarrow> Some (m\<lparr>ms_pc := Done, ms_open := False\<rparr>)
      | Done \<Rightarrow> None)"

declare main_step.simps [simp del]

fun main_run :: "(sqldb \<Rightarrow> error option \<times> sqldb) \<Rightarrow> nat \<Rightarrow> mstate \<Rightarrow> mstate" where
  "main_run schema 0 m = m"
| "main_run schema (Suc n) m = (case main_step schema m of None \<Rightarrow> m | Some m' \<Rightarrow> main_run schema n m')"

inductive reachable :: "(sqldb \<Rightarrow> error option \<times> sqldb) \<Rightarrow> sqldb \<Rightarrow> rng \<Rightarrow> mstate \<Rightarrow> bool"
  for schema d s where
  start: "reachable schema d s (init_mstate d s)"
| step: "reachable schema d s m \<Longrightarrow> main_step schema m = Some m' \<Longrightarrow> reachable schema d s m'"

fun stage_measure :: "stage \<Rightarrow> nat" where
  "stage_measure Schema = 13"
| "stage_measure LoadCountries = 12"
| "stage_measure (LoadGdp _) = 11"
| "stage_measure (LoadIneq _) = 10"
| "stage_measure (LoadPov _) = 9"
| "stage_measure (LoadTrade _) = 8"
| "stage_measure (Summary ts _) = length ts + 2"
| "stage_measure (Except _) = 2"
| "stage_measure Finally = 1"
| "stage_measure Done = 0"

text \<open>The invariant of the summary loop and of the result: the counts gathered so far
  are those of a prefix of \<open>tables\<close>, each the row count of its table in the database,
  and a run that caught an exception reports none.\<close>

definition counts_ok :: "sqldb \<Rightarrow> (string \<times> nat) list \<Rightarrow> bool" where
  "counts_ok d cs = list_all (\<lambda>(t, n). select_count table_rows d t = Inr n) cs"

definition result_ok :: "mstate \<Rightarrow> bool" where
  "result_ok m =
     (case ms_exc m of
        None \<Rightarrow> map fst (ms_counts m) = summary_tables \<and> counts_ok (ms_conn m) (ms_counts m)
      | Some _ \<Rightarrow> ms_counts m = [])"

definition main_inv :: "mstate \<Rightarrow> bool" where
  "main_inv m =
     (case ms_pc m of
        Summary ts acc \<Rightarrow>
          map fst acc @ ts = summary_tables \<and> counts_ok (ms_conn m) acc \<and>
          ms_exc m = None \<and> ms_counts m = []
      | Finally \<Rightarrow> result_ok m
      | Done \<Rightarrow> result_ok m
      | _ \<Rightarrow> ms_exc m = None \<and> ms_counts m = [])"

text \<open>A database with no tables and no failing write, for the witnesses.\<close>

definition empty_db :: sqldb where
  "empty_db = \<lparr>tables = Map.empty, write_faults = {}\<rparr>"

section \<open>Lemmas\<close>

lemma main_step_None: "main_step schema m = None \<longleftrightarrow> ms_pc m = Done"
  by (simp add: main_step.simps raise_to_def split: stage.split prod.split option.split sum.split list.split)

lemma main_step_measure:
  "main_step schema m = Some m' \<Longrightarrow> stage_measure (ms_pc m') < stage_measure (ms_pc m)"
  by (auto simp: main_step.simps raise_to_def summary_tables_def
      split: stage.splits prod.splits option.splits sum.splits list.splits)

lemma main_run_terminates: "stage_measure (ms_pc m) \<le> n \<Longrightarrow> ms_pc (main_run schema n m) = Done"
proof (induction n arbitrary: m)
  case 0
  then show ?case by (cases "ms_pc m") simp_all
next
  case (Suc n)
  show ?case
  proof (cases "main_step schema m")
    case None
    then show ?thesis using main_step_None [of schema m] by simp
  next
    case (Some m')
    then show ?thesis using Suc.IH [of m'] Suc.prems main_step_measure [OF Some] by simp
  qed
qed

section \<open>Runs and reachable states\<close>

lemma reachable_main_run: "reachable schema d s m \<Longrightarrow> reachable schema d s (main_run schema n m)"
proof (induction n arbitrary: m)
  case 0
  then show ?case by simp
next
  case (Suc n)
  then show ?case by (cases "main_step schema m") (auto intro: reachable.step)
qed

lemma reachable_open: "reachable schema d s m \<Longrightarrow> ms_open m \<longleftrightarrow> ms_pc m \<noteq> Done"
  by (induction rule: reachable.induct)
     (auto simp: init_mstate_def main_step.simps raise_to_def
      split: stage.splits prod.splits option.splits sum.splits list.splits)

lemma counts_ok_snoc:
  "counts_ok d (acc @ [(t, n)]) \<longleftrightarrow> counts_ok d acc \<and> select_count table_rows d t = Inr n"
  "counts_ok d []"
  by (simp_all add: counts_ok_def)

lemma main_inv_step: "main_step schema m = Some m' \<Longrightarrow> main_inv m \<Longrightarrow> main_inv m'"
  by (auto simp: main_inv_def result_ok_def main_step.simps raise_to_def counts_ok_snoc
      split: stage.splits prod.splits option.splits sum.splits list.splits)

section \<open>Liveness and the invariant of main\<close>

text \<open>C32: whatever the schema script, the database and the random state, from every
  state the run reaches, the statement \<open>finally: conn.close()\<close> is eventually executed:
  the run goes on to its end, where the connection is closed.\<close>

theorem main_closes_connection:
  "reachable schema d s m \<Longrightarrow>
   \<exists>n. reachable schema d s (main_run schema n m) \<and> ms_pc (main_run schema n m) = Done \<and>
       \<not> ms_open (main_run schema n m)"
proof -
  assume r: "reachable schema d s m"
  let ?m = "main_run schema (stage_measure (ms_pc m)) m"
  have "reachable schema d s ?m" using r by (rule reachable_main_run)
  moreover have "ms_pc ?m = Done" by (rule main_run_terminates) simp
  ultimately show ?thesis using reachable_open by blast
qed

text \<open>C33: in every state of the run, the summary lines printed so far are those of a
  prefix of \<open>tables\<close> in order, each with the row count of its table; a run that ends
  without an exception reports every table, and one that caught an exception reports
  no counts.\<close>

theorem reachable_main_inv: "reachable schema d s m \<Longrightarrow> main_inv m"
proof (induction rule: reachable.induct)
  case start
  show ?case by (simp add: main_inv_def init_mstate_def)
next
  case (step m m')
  show ?case by (rule main_inv_step [OF step.hyps(2) step.IH])
qed

section \<open>Witnesses\<close>

theorem main_closes_connection_witness:
  "\<exists>n. reachable (\<lambda>d. (None, d)) empty_db (sconst 0) (main_run (\<lambda>d. (None, d)) n (init_mstate empty_db (sconst 0))) \<and>
       ms_pc (main_run (\<lambda>d. (None, d)) n (init_mstate empty_db (sconst 0))) = Done \<and>
       \<not> ms_open (main_run (\<lambda>d. (None, d)) n (init_mstate empty_db (sconst 0)))"
  using main_closes_connection [OF reachable.start [of "\<lambda>d. (None, d)" empty_db "sconst 0"]] by simp

theorem reachable_main_inv_witness:
  "reachable (\<lambda>d. (None, d)) empty_db (sconst 0) (init_mstate empty_db (sconst 0)) \<and>
   main_inv (init_mstate empty_db (sconst 0))"
  using reachable_main_inv [OF reachable.start [of "\<lambda>d. (None, d)" empty_db "sconst 0"]]
  by (simp add: reachable.start)

end
