(* ===== verification/Format.thy ===== *)
theory Format
  imports Main
begin

text \<open>
  Python's string formatting of the values the script prints (\<open>src/load_data.py\<close>):
  \<open>str(n)\<close> and \<open>f"{n}"\<close> of a non-negative int (\<open>string_of_nat\<close>), the thousands
  separator of \<open>f"{n:,}"\<close> (\<open>fmt_thousands\<close>: the decimal digits with a comma before every
  group of three counted from the right), and the minimum-width format \<open>f"{s:25s}"\<close> of a
  string (\<open>pad_right\<close>: left-aligned, padded with spaces, never truncated).
  \<open>read_nat\<close> is the reading of a decimal string, used to state that a printed count can
  be read back.
\<close>

fun string_of_nat :: "nat \<Rightarrow> string" where
  "string_of_nat n =
     (if n < 10 then [''0123456789'' ! n]
      else string_of_nat (n div 10) @ [''0123456789'' ! (n mod 10)])"

declare string_of_nat.simps [simp del]

fun commas_rev :: "string \<Rightarrow> string" where
  "commas_rev (a # b # c # d # ds) = a # b # c # CHR '','' # commas_rev (d # ds)"
| "commas_rev ds = ds"

definition fmt_thousands :: "nat \<Rightarrow> string" where
  "fmt_thousands n = rev (commas_rev (rev (string_of_nat n)))"

definition pad_right :: "nat \<Rightarrow> string \<Rightarrow> string" where
  "pad_right w s = s @ replicate (w - length s) (CHR '' '')"

definition read_nat :: "string \<Rightarrow> nat" where
  "read_nat ds = foldl (\<lambda>acc c. 10 * acc + (of_char c - 48)) 0 ds"

section \<open>Lemmas\<close>

lemma digit_of_char: "d < 10 \<Longrightarrow> of_char (''0123456789'' ! d) = (48 + d :: nat)"
  by (auto simp: less_Suc_eq numeral_eq_Suc)

lemma digit_not_comma: "d < 10 \<Longrightarrow> ''0123456789'' ! d \<noteq> CHR '',''"
  by (auto simp: less_Suc_eq numeral_eq_Suc)

lemma digit_not_space: "d < 10 \<Longrightarrow> ''0123456789'' ! d \<noteq> CHR '' ''"
  by (auto simp: less_Suc_eq numeral_eq_Suc)

lemma read_nat_snoc: "read_nat (xs @ [c]) = 10 * read_nat xs + (of_char c - 48)"
  by (simp add: read_nat_def)

lemma read_string_of_nat: "read_nat (string_of_nat n) = n"
proof (induction n rule: string_of_nat.induct)
  case (1 n)
  show ?case
  proof (cases "n < 10")
    case True
    then show ?thesis using read_nat_snoc [of "[]"] digit_of_char [OF True]
      by (simp add: string_of_nat.simps read_nat_def)
  next
    case False
    then show ?thesis using 1 digit_of_char [of "n mod 10"]
      by (simp add: string_of_nat.simps [of n] read_nat_snoc)
  qed
qed

text \<open>The characters of a decimal string: digits only, so neither a separator nor a
  space.\<close>

lemma string_of_nat_digits: "c \<in> set (string_of_nat n) \<Longrightarrow> c \<noteq> CHR '','' \<and> c \<noteq> CHR '' ''"
proof (induction n arbitrary: c rule: string_of_nat.induct)
  case (1 n)
  have "''0123456789'' ! (n mod 10) \<noteq> CHR '',''" "''0123456789'' ! (n mod 10) \<noteq> CHR '' ''"
    by (simp_all add: digit_not_comma digit_not_space)
  then show ?case using 1 digit_not_comma [of n] digit_not_space [of n]
    by (subst (asm) string_of_nat.simps) (auto split: if_splits)
qed

lemma set_commas_rev: "set (commas_rev xs) \<subseteq> insert (CHR '','') (set xs)"
  by (induction xs rule: commas_rev.induct) auto

lemma filter_commas_rev: "filter (\<lambda>c. c \<noteq> CHR '','') (commas_rev xs) = filter (\<lambda>c. c \<noteq> CHR '','') xs"
  by (induction xs rule: commas_rev.induct) simp_all

lemma filter_fmt_thousands: "filter (\<lambda>c. c \<noteq> CHR '','') (fmt_thousands n) = string_of_nat n"
  using string_of_nat_digits [of _ n]
  by (simp add: fmt_thousands_def rev_filter [symmetric] filter_commas_rev filter_id_conv)

lemma space_notin_fmt_thousands: "CHR '' '' \<notin> set (fmt_thousands n)"
  using set_commas_rev [of "rev (string_of_nat n)"] string_of_nat_digits [of _ n]
  by (auto simp: fmt_thousands_def)

lemma replicate_numeral: "replicate (numeral k) x = x # replicate (pred_numeral k) x"
  by (simp add: numeral_eq_Suc)

lemma length_pad_right: "length (pad_right w s) = max w (length s)"
  by (simp add: pad_right_def)

lemma take_pad_right: "take (length s) (pad_right w s) = s"
  by (simp add: pad_right_def)

end
