(* ===== verification/Console.thy ===== *)
theory Console
  imports Format Loader
begin

text \<open>
  The script as a process: what it prints and how it exits. \<open>main\<close> first prints a
  banner, then opens the connection with \<open>sqlite3.connect(DB_PATH)\<close> outside the \<open>try\<close>:
  the model takes the outcome of the connect as a parameter \<open>connect\<close>, a database or the
  error it raised, which then escapes \<open>main\<close> and ends the interpreter with exit status 1
  (\<open>if __name__ == "__main__": main()\<close>). Inside the \<open>try\<close>, every loader prints a line
  when it starts and a \<open>\<checkmark> Loaded\<close> line once its table is written; the summary prints
  one line per table after its \<open>SELECT COUNT(*)\<close>; \<open>except\<close> prints the error.

  Standard output is the list of the arguments of the \<open>print\<close> calls, in order (each
  \<open>print\<close> adds a newline after its argument). The check and cross marks are written as
  their UTF-8 bytes. \<open>traceback.print_exc()\<close> writes to standard error and is not modelled.
  The definitions \<open>load_country_metadata_io\<close>, \<open>load_table_io\<close>, \<open>try_block_io\<close> and
  \<open>main_io\<close> extend the ones of theory \<open>Loader\<close> with the printed lines; the lemmas of
  this theory show that their other results are exactly those of \<open>Loader\<close>.
\<close>

definition newline :: string where
  "newline = [CHR 0x0A]"

definition check_mark :: string where
  "check_mark = [CHR 0xE2, CHR 0x9C, CHR 0x93]"

definition cross_mark :: string where
  "cross_mark = [CHR 0xE2, CHR 0x9C, CHR 0x97]"

definition rule70 :: string where
  "rule70 = replicate 70 (CHR ''='')"

definition db_path :: string where
  "db_path = ''global_inequality.db''"

fun str_error :: "error \<Rightarrow> string" where
  "str_error (KeyError k) = CHR 0x27 # k @ [CHR 0x27]"
| "str_error ZeroDivisionError = ''float division by zero''"
| "str_error (ValueError m) = m"
| "str_error (IOError m) = m"
| "str_error (DatabaseError m) = m"

definition loaded_line :: "nat \<Rightarrow> string \<Rightarrow> string" where
  "loaded_line n what = check_mark @ '' Loaded '' @ string_of_nat n @ '' '' @ what"

definition load_country_metadata_io :: "sqldb \<Rightarrow> string list \<times> (country list \<times> sqldb) result" where
  "load_country_metadata_io conn =
     (case load_country_metadata conn of
        Inl e \<Rightarrow> ([''Loading country metadata...''], Inl e)
      | Inr (df, conn') \<Rightarrow>
          ([''Loading country metadata...'', loaded_line (length df) ''countries''], Inr (df, conn')))"

text \<open>The four random loaders share one shape: print the start message, generate, write,
  print the number of rows written.\<close>

definition load_table_io :: "string \<Rightarrow> string \<Rightarrow> string \<Rightarrow> ('r list \<Rightarrow> table) \<Rightarrow>
    (country list \<Rightarrow> rng \<Rightarrow> ('r list \<times> rng) result) \<Rightarrow>
    sqldb \<Rightarrow> country list \<Rightarrow> rng \<Rightarrow> string list \<times> (sqldb \<times> rng) result" where
  "load_table_io start name what mk gen conn countries s =
     (case gen countries s of
        Inl e \<Rightarrow> ([start], Inl e)
      | Inr (data, s') \<Rightarrow>
          (case to_sql_replace name (mk data) conn of
             Inl e \<Rightarrow> ([start], Inl e)
           | Inr conn' \<Rightarrow> ([start, loaded_line (length data) what], Inr (conn', s'))))"

definition load_gdp_data_io :: "sqldb \<Rightarrow> country list \<Rightarrow> rng \<Rightarrow> string list \<times> (sqldb \<times> rng) result" where
  "load_gdp_data_io = load_table_io ''Creating GDP data...'' ''gdp_data'' ''GDP records'' GdpTable gdp_data"

definition load_inequality_data_io :: "sqldb \<Rightarrow> country list \<Rightarrow> rng \<Rightarrow> string list \<times> (sqldb \<times> rng) result" where
  "load_inequality_data_io = load_table_io ''Creating inequality data...'' ''inequality_metrics''
     ''inequality records'' IneqTable ineq_data"

definition load_poverty_data_io :: "sqldb \<Rightarrow> country list \<Rightarrow> rng \<Rightarrow> string list \<times> (sqldb \<times> rng) result" where
  "load_poverty_data_io = load_table_io ''Creating poverty data...'' ''poverty_indicators''
     ''poverty records'' PovTable pov_data"

definition load_trade_education_io :: "sqldb \<Rightarrow> country list \<Rightarrow> rng \<Rightarrow> string list \<times> (sqldb \<times> rng) result" where
  "load_trade_education_io = load_table_io ''Creating trade and education data...'' ''trade_education''
     ''trade/education records'' TradeTable te_data"

definition summary_line :: "string \<Rightarrow> nat \<Rightarrow> string" where
  "summary_line table n = pad_right 25 table @ '': '' @ fmt_thousands n @ '' rows''"

fun count_summary_io :: "sqldb \<Rightarrow> string list \<Rightarrow> string list \<times> (string \<times> nat) list result" where
  "count_summary_io conn [] = ([], Inr [])"
| "count_summary_io conn (t # ts) =
     (case select_count table_rows conn t of
        Inl e \<Rightarrow> ([], Inl e)
      | Inr n \<Rightarrow>
          (case count_summary_io conn ts of
             (out, Inl e) \<Rightarrow> (summary_line t n # out, Inl e)
           | (out, Inr cs) \<Rightarrow> (summary_line t n # out, Inr ((t, n) # cs))))"

definition banner :: "string list" where
  "banner = [newline @ rule70, ''BASIC GLOBAL INEQUALITY DATABASE LOADER'',
             ''Sample data for SQL portfolio demonstration'', rule70 @ newline]"

definition summary_header :: "string list" where
  "summary_header = [newline @ rule70, ''DATA LOADING SUMMARY'', rule70]"

definition success_footer :: "string list" where
  "success_footer = [newline @ check_mark @ '' Database successfully created: '' @ db_path,
     newline @ rule70, ''NEXT STEPS'', rule70,
     ''1. Open DB Browser for SQLite'', ''2. Load global_inequality.db'',
     ''3. Run queries from queries.sql'', ''4. Export results and build visualizations'',
     newline @ ''Note: This is SAMPLE data for demonstration.'',
     ''For real data, see instructions in README.md'' @ newline]"

definition schema_lines :: "string list" where
  "schema_lines = [''Creating database schema...'', check_mark @ '' Schema created'' @ newline]"

definition try_block_io :: "(sqldb \<Rightarrow> error option \<times> sqldb) \<Rightarrow> sqldb \<Rightarrow> rng \<Rightarrow>
    string list \<times> (string \<times> nat) list result \<times> sqldb \<times> rng" where
  "try_block_io schema conn0 s0 =
     (case schema conn0 of
        (Some e, conn1) \<Rightarrow> ([''Creating database schema...''], Inl e, conn1, s0)
      | (None, conn1) \<Rightarrow>
     (case load_country_metadata_io conn1 of
        (o1, Inl e) \<Rightarrow> (schema_lines @ o1, Inl e, conn1, s0)
      | (o1, Inr (countries, conn2)) \<Rightarrow>
     (case load_gdp_data_io conn2 countries s0 of
        (o2, Inl e) \<Rightarrow> (schema_lines @ o1 @ o2, Inl e, conn2, s0)
      | (o2, Inr (conn3, s1)) \<Rightarrow>
     (case load_inequality_data_io conn3 countries s1 of
        (o3, Inl e) \<Rightarrow> (schema_lines @ o1 @ o2 @ o3, Inl e, conn3, s1)
      | (o3, Inr (conn4, s2)) \<Rightarrow>
     (case load_poverty_data_io conn4 countries s2 of
        (o4, Inl e) \<Rightarrow> (schema_lines @ o1 @ o2 @ o3 @ o4, Inl e, conn4, s2)
      | (o4, Inr (conn5, s3)) \<Rightarrow>
     (case load_trade_education_io conn5 countries s3 of
        (o5, Inl e) \<Rightarrow> (schema_lines @ o1 @ o2 @ o3 @ o4 @ o5, Inl e, conn5, s3)
      | (o5, Inr (conn6, s4)) \<Rightarrow>
     (case count_summary_io conn6 summary_tables of
        (o6, Inl e) \<Rightarrow> (schema_lines @ o1 @ o2 @ o3 @ o4 @ o5 @ summary_header @ o6, Inl e, conn6, s4)
      | (o6, Inr counts) \<Rightarrow>
          (schema_lines @ o1 @ o2 @ o3 @ o4 @ o5 @ summary_header @ o6 @ success_footer,
           Inr counts, conn6, s4))))))))"

text \<open>A run of the script: what it printed, and either the exception that escaped \<open>main\<close>
  or the result \<open>main\<close> returned.\<close>

record console_run =
  stdout :: "string list"
  outcome :: "error + run_result"

definition main_io :: "sqldb result \<Rightarrow> (sqldb \<Rightarrow> error option \<times> sqldb) \<Rightarrow> rng \<Rightarrow> console_run" where
  "main_io connect schema s =
     (case connect of
        Inl e \<Rightarrow> \<lparr>stdout = banner, outcome = Inl e\<rparr>
      | Inr conn \<Rightarrow>
          (case try_block_io schema conn s of
             (out, Inl e, conn', _) \<Rightarrow>
               \<lparr>stdout = banner @ out @ [newline @ cross_mark @ '' Error: '' @ str_error e],
                outcome = Inr \<lparr>final_db = conn', conn_closed = True, caught = Some e, summary = [],
                               exit_status = 0\<rparr>\<rparr>
           | (out, Inr counts, conn', _) \<Rightarrow>
               \<lparr>stdout = banner @ out,
                outcome = Inr \<lparr>final_db = conn', conn_closed = True, caught = None, summary = counts,
                               exit_status = 0\<rparr>\<rparr>))"

text \<open>\<open>if __name__ == "__main__": main()\<close>: an exception escaping \<open>main\<close> ends the
  interpreter with status 1; otherwise the process exits with the status \<open>main\<close> returns
  with, 0.\<close>

definition script_exit_code :: "console_run \<Rightarrow> int" where
  "script_exit_code r = (case outcome r of Inl _ \<Rightarrow> 1 | Inr rr \<Rightarrow> exit_status rr)"

section \<open>The printing model refines the model of theory Loader\<close>

lemma load_country_metadata_io_snd: "snd (load_country_metadata_io d) = load_country_metadata d"
  by (simp add: load_country_metadata_io_def split: sum.split prod.split)

lemma load_table_io_snd:
  "snd (load_table_io start name what mk gen d cs s) =
     (case gen cs s of Inl e \<Rightarrow> Inl e
      | Inr (data, s') \<Rightarrow> (case to_sql_replace name (mk data) d of Inl e \<Rightarrow> Inl e | Inr d' \<Rightarrow> Inr (d', s')))"
  by (simp add: load_table_io_def split: sum.split prod.split)

lemma loaders_io_snd:
  "snd (load_gdp_data_io d cs s) = load_gdp_data d cs s"
  "snd (load_inequality_data_io d cs s) = load_inequality_data d cs s"
  "snd (load_poverty_data_io d cs s) = load_poverty_data d cs s"
  "snd (load_trade_education_io d cs s) = load_trade_education d cs s"
  by (simp_all add: load_table_io_snd load_gdp_data_io_def load_gdp_data_def load_inequality_data_io_def
      load_inequality_data_def load_poverty_data_io_def load_poverty_data_def
      load_trade_education_io_def load_trade_education_def)

lemma count_summary_io_snd: "snd (count_summary_io d ts) = count_summary d ts"
  by (induction ts) (auto split: sum.split prod.split)

lemma try_block_io_snd: "snd (try_block_io schema d s) = try_block schema d s"
  by (simp add: try_block_io_def try_block_def case_prod_beta load_country_metadata_io_snd
      loaders_io_snd count_summary_io_snd split: sum.split option.split)

lemma try_block_io_eq: "\<exists>out. try_block_io schema d s = (out, try_block schema d s)"
  using try_block_io_snd [of schema d s] by (metis prod.collapse)

section \<open>Lines printed by a successful run\<close>

lemma load_table_io_ok:
  "gen cs s = Inr (data, s') \<Longrightarrow> name \<notin> write_faults d \<Longrightarrow>
   load_table_io start name what mk gen d cs s =
     ([start, loaded_line (length data) what], Inr (d\<lparr>tables := (tables d)(name \<mapsto> mk data)\<rparr>, s'))"
  by (simp add: load_table_io_def to_sql_replace_ok)

lemma count_summary_io_ok:
  "count_summary d ts = Inr cs \<Longrightarrow> count_summary_io d ts = (map (\<lambda>(t, n). summary_line t n) cs, Inr cs)"
  by (induction ts arbitrary: cs) (auto split: sum.splits)

lemma try_block_io_catalog:
  assumes "valid_rng s" and "schema din = (None, dsch)" and "set summary_tables \<inter> write_faults dsch = {}"
  shows "fst (try_block_io schema din s) =
    schema_lines @ [''Loading country metadata...'', loaded_line 48 ''countries'',
      ''Creating GDP data...'', loaded_line 432 ''GDP records'',
      ''Creating inequality data...'', loaded_line 240 ''inequality records'',
      ''Creating poverty data...'', loaded_line 110 ''poverty records'',
      ''Creating trade and education data...'', loaded_line 432 ''trade/education records''] @
    summary_header @ map (\<lambda>(t, n). summary_line t n) catalog_counts @ success_footer"
proof -
  from try_block_catalog [where schema = schema and din = din, OF assms] obtain g i p t where
    gen: "gdp_data catalog s = Inr (g, sdrop 528 s)"
      "ineq_data catalog (sdrop 528 s) = Inr (i, sdrop 1296 s)"
      "pov_data catalog (sdrop 1296 s) = Inr (p, sdrop 1362 s)"
      "te_data catalog (sdrop 1362 s) = Inr (t, sdrop 2418 s)"
    and len: "length g = 432" "length i = 240" "length p = 110" "length t = 432"
    by blast
  have nf: "''country_metadata'' \<notin> write_faults dsch" "''gdp_data'' \<notin> write_faults dsch"
    "''inequality_metrics'' \<notin> write_faults dsch" "''poverty_indicators'' \<notin> write_faults dsch"
    "''trade_education'' \<notin> write_faults dsch"
    using summary_tables_faults [OF assms(3)] by simp_all
  have cs: "count_summary (written_db dsch g i p t) summary_tables = Inr catalog_counts"
    by (rule count_summary_catalog [OF len])
  show ?thesis
    by (simp add: try_block_io_def assms(2) load_country_metadata_io_def load_country_metadata_eq
        to_sql_replace_ok nf length_catalog load_gdp_data_io_def load_inequality_data_io_def
        load_poverty_data_io_def load_trade_education_io_def load_table_io_ok [where gen = gdp_data, OF gen(1)]
        load_table_io_ok [where gen = ineq_data, OF gen(2)] load_table_io_ok [where gen = pov_data, OF gen(3)]
        load_table_io_ok [where gen = te_data, OF gen(4)] len
        count_summary_io_ok [OF cs])
qed

lemma catalog_summary_lines:
  "map (\<lambda>(t, n). summary_line t n) catalog_counts =
     [''country_metadata         : 48 rows'',
       ''gdp_data                 : 432 rows'',
       ''inequality_metrics       : 240 rows'',
       ''poverty_indicators       : 110 rows'',
       ''trade_education          : 432 rows'']"
  by (simp add: catalog_counts_def summary_line_def pad_right_def fmt_thousands_def string_of_nat.simps
      replicate_numeral)

lemma catalog_loaded_lines:
  "loaded_line 48 w = check_mark @ '' Loaded 48 '' @ w" "loaded_line 432 w = check_mark @ '' Loaded 432 '' @ w"
  "loaded_line 240 w = check_mark @ '' Loaded 240 '' @ w" "loaded_line 110 w = check_mark @ '' Loaded 110 '' @ w"
  by (simp_all add: loaded_line_def string_of_nat.simps)

lemma summary_line_drop:
  "length t \<le> 25 \<Longrightarrow> drop 27 (summary_line t n) = fmt_thousands n @ '' rows''"
  by (simp add: summary_line_def pad_right_def)

section \<open>Properties of the script as a process\<close>

text \<open>C7: the complete standard output of a successful run on the source's catalog: the
  banner, one start line and one \<open>Loaded\<close> line per loader with the number of rows written,
  the summary with one aligned line per table and the closing instructions.\<close>

theorem main_io_catalog_stdout:
  assumes "valid_rng s" and "schema d0 = (None, d1)" and "set summary_tables \<inter> write_faults d1 = {}"
  shows "stdout (main_io (Inr d0) schema s) =
    banner @ [''Creating database schema...'', check_mark @ '' Schema created'' @ newline,
      ''Loading country metadata...'', check_mark @ '' Loaded 48 countries'',
      ''Creating GDP data...'', check_mark @ '' Loaded 432 GDP records'',
      ''Creating inequality data...'', check_mark @ '' Loaded 240 inequality records'',
      ''Creating poverty data...'', check_mark @ '' Loaded 110 poverty records'',
      ''Creating trade and education data...'', check_mark @ '' Loaded 432 trade/education records''] @
    summary_header @
      [''country_metadata         : 48 rows'',
       ''gdp_data                 : 432 rows'',
       ''inequality_metrics       : 240 rows'',
       ''poverty_indicators       : 110 rows'',
       ''trade_education          : 432 rows''] @
    success_footer"
proof -
  obtain g i p t where r: "main schema d0 s = \<lparr>final_db = written_db d1 g i p t, conn_closed = True,
      caught = None, summary = catalog_counts, exit_status = 0\<rparr>"
    using main_catalog_run [where schema = schema and din = d0, OF assms] by blast
  obtain out where io: "try_block_io schema d0 s = (out, try_block schema d0 s)"
    using try_block_io_eq by blast
  obtain d' s' where tb: "try_block schema d0 s = (Inr catalog_counts, d', s')"
    using r by (cases "try_block schema d0 s") (auto simp: main_def split: sum.splits)
  have "stdout (main_io (Inr d0) schema s) = banner @ fst (try_block_io schema d0 s)"
    using io tb by (simp add: main_io_def)
  then show ?thesis
    by (simp add: try_block_io_catalog [where schema = schema and din = d0, OF assms] schema_lines_def
        catalog_summary_lines catalog_loaded_lines)
qed

text \<open>C8: each summary line reads back: for a table name of at most 25 characters the
  name fills the first 25 columns, the colon is in column 26, and the count, printed with
  thousands separators, reads back as the count.\<close>

theorem summary_line_roundtrip:
  assumes "length t \<le> 25"
  shows "take 25 (summary_line t n) = pad_right 25 t \<and> summary_line t n ! 25 = CHR '':'' \<and>
         read_nat (filter (\<lambda>c. c \<noteq> CHR '','') (takeWhile (\<lambda>c. c \<noteq> CHR '' '') (drop 27 (summary_line t n)))) = n"
proof -
  have "takeWhile (\<lambda>c. c \<noteq> CHR '' '') (fmt_thousands n @ '' rows'') = fmt_thousands n"
    using space_notin_fmt_thousands [of n] by (subst takeWhile_append2) auto
  then show ?thesis using assms
    by (simp add: summary_line_drop filter_fmt_thousands read_string_of_nat)
       (simp add: summary_line_def pad_right_def nth_append)
qed

section \<open>Witnesses\<close>

theorem main_io_catalog_stdout_witness:
  "valid_rng (sconst (1/2)) \<and>
   (\<lambda>d. (None, d)) \<lparr>tables = Map.empty, write_faults = {}\<rparr> = (None, \<lparr>tables = Map.empty, write_faults = {}\<rparr>) \<and>
   set summary_tables \<inter> write_faults \<lparr>tables = Map.empty, write_faults = {}\<rparr> = {} \<and>
   stdout (main_io (Inr \<lparr>tables = Map.empty, write_faults = {}\<rparr>) (\<lambda>d. (None, d)) (sconst (1/2))) =
    banner @ [''Creating database schema...'', check_mark @ '' Schema created'' @ newline,
      ''Loading country metadata...'', check_mark @ '' Loaded 48 countries'',
      ''Creating GDP data...'', check_mark @ '' Loaded 432 GDP records'',
      ''Creating inequality data...'', check_mark @ '' Loaded 240 inequality records'',
      ''Creating poverty data...'', check_mark @ '' Loaded 110 poverty records'',
      ''Creating trade and education data...'', check_mark @ '' Loaded 432 trade/education records''] @
    summary_header @
      [''country_metadata         : 48 rows'',
       ''gdp_data                 : 432 rows'',
       ''inequality_metrics       : 240 rows'',
       ''poverty_indicators       : 110 rows'',
       ''trade_education          : 432 rows''] @
    success_footer"
proof -
  have v: "valid_rng (sconst (1/2))" by (simp add: valid_rng_sconst)
  show ?thesis
    using main_io_catalog_stdout [of "sconst (1/2)" "\<lambda>d. (None, d)" "\<lparr>tables = Map.empty, write_faults = {}\<rparr>"
        "\<lparr>tables = Map.empty, write_faults = {}\<rparr>", OF v] v
    by simp
qed

theorem summary_line_roundtrip_witness:
  "length ''poverty_indicators'' \<le> 25 \<and>
   take 25 (summary_line ''poverty_indicators'' 1234567) = pad_right 25 ''poverty_indicators'' \<and>
   summary_line ''poverty_indicators'' 1234567 ! 25 = CHR '':'' \<and>
   read_nat (filter (\<lambda>c. c \<noteq> CHR '','')
     (takeWhile (\<lambda>c. c \<noteq> CHR '' '') (drop 27 (summary_line ''poverty_indicators'' 1234567)))) = 1234567"
  using summary_line_roundtrip [of "''poverty_indicators''" 1234567] by simp

end
