(* ===== verification/Spec2Isabelle.thy ===== *)
theory Spec2Isabelle
  imports Prelude Database Catalog Gdp GdpSpec Inequality IneqSpec Poverty PovertySpec TradeEducation TradeSpec
    Loader MainSteps Format Console
begin

text \<open>
  \<^bold>\<open>A verification development of \<open>src/load_data.py\<close>.\<close>

  \<^bold>\<open>The program.\<close> One Python script builds a demonstration SQLite database of
  synthetic statistics for 48 countries. \<open>main\<close> (lines 294--346) prints a banner, opens
  the connection outside the \<open>try\<close>, and inside one \<open>try\<close> block runs the external schema
  script, then the five loaders in this order, each generating a pandas frame, writing it
  with \<open>to_sql(name, conn, if_exists='replace')\<close> and printing its row count:
  \<open>load_country_metadata\<close> (a fixed catalog), \<open>load_gdp_data\<close>, \<open>load_inequality_data\<close>,
  \<open>load_poverty_data\<close>, \<open>load_trade_education\<close> (all drawing from the one module-level
  generator of \<open>random\<close>); finally it counts and prints the rows of the five tables.
  \<open>except Exception\<close> prints any error; \<open>finally\<close> closes the connection. The script
  calls \<open>main()\<close> under \<open>if __name__ == "__main__"\<close> (lines 348--349).

  \<^bold>\<open>Theories and correspondence.\<close>
  \<^item> \<open>Prelude\<close>: the error type (\<open>KeyError\<close>, \<open>ZeroDivisionError\<close>, \<open>ValueError\<close>,
    \<open>IOError\<close>, \<open>DatabaseError\<close>) and \<open>'a result = error + 'a\<close>; the generator state
    \<open>rng\<close>, a stream of the outputs of \<open>random.random()\<close>, with \<open>uniform a b\<close> as CPython
    defines it (\<open>a + (b - a) * random()\<close>); \<open>round2\<close> for \<open>round(x, 2)\<close> (ties to even);
    \<open>py_range\<close>, \<open>dict_get\<close>, \<open>py_div\<close>; and \<open>loop_rows\<close>, the per-country loop that
    threads the generator and stops at the first exception.
  \<^item> \<open>Format\<close>: Python's \<open>str\<close> of an int, the \<open>,\<close> thousands separator and the
    \<open>25s\<close> minimum-width format used by the print calls.
  \<^item> \<open>Database\<close>: the connection's database as a map from table names to contents, with
    \<open>to_sql_replace\<close> and \<open>select_count\<close> (\<open>SELECT COUNT(*)\<close>), and the abstract
    row-count view \<open>row_counts\<close> with the summary specification \<open>summary_spec\<close>.
  \<^item> \<open>Catalog\<close>: the four column literals of \<open>load_country_metadata\<close> and the frame pandas
    builds from them (\<open>countries_frame\<close>, \<open>catalog\<close>).
  \<^item> \<open>Gdp\<close>, \<open>Inequality\<close>, \<open>Poverty\<close>, \<open>TradeEducation\<close>: the row generation of the four
    random loaders, one definition per loop body (\<open>*_year_row\<close>, \<open>*_country\<close>) and one
    for the whole list (\<open>gdp_data\<close>, \<open>ineq_data\<close>, \<open>pov_data\<close>, \<open>te_data\<close>), each taking
    the generator state and returning the rows with the state after the last draw.
    Draws are taken in the order Python evaluates them.
  \<^item> \<open>GdpSpec\<close>, \<open>IneqSpec\<close>, \<open>PovertySpec\<close>, \<open>TradeSpec\<close>: abstract specifications of
    one country's series for each generator (spec sections 4.2--4.5), written as the
    admissible drawn values and the row they determine, and the theorems that each
    \<open>*_country\<close> produces, over all valid random states, exactly the specified series.
    They rest on two generic lemmas of \<open>Prelude\<close>, \<open>loop_rows_sound\<close> and
    \<open>loop_rows_complete\<close>, and on the decoding of three draws in given ranges (\<open>draws3\<close>).
  \<^item> \<open>Loader\<close>: the five \<open>load_*\<close> functions (generate, then write), the \<open>try\<close> block
    (\<open>try_block\<close>) and \<open>main\<close> once the connection is open, whose observable outcome is a
    \<open>run_result\<close>: the final database, whether the connection was closed, the exception
    caught, the reported counts and the exit status; and the typing discipline of the
    database (\<open>table_in_place\<close>, \<open>db_well_typed\<close>).
  \<^item> \<open>MainSteps\<close>: \<open>main\<close> executed statement by statement: \<open>stage\<close> is the program
    counter (the schema step, each loader, each iteration of the summary loop, \<open>except\<close>,
    \<open>finally\<close>), \<open>mstate\<close> the local state of \<open>main\<close> (database, random state, whether
    \<open>conn\<close> is open, the caught exception, the counts), \<open>main_step\<close> one statement,
    \<open>main_run\<close> a run with fuel and \<open>reachable\<close> the states of a call.
  \<^item> \<open>Console\<close>: the same functions with their print calls (\<open>*_io\<close>), \<open>main_io\<close> with
    the outcome of \<open>sqlite3.connect\<close> as a parameter, and the exit code of the script;
    its theorems are about what the script prints.
  \<^item> this theory: properties of whole runs.

  \<^bold>\<open>What is shown.\<close> For every generator: the exact number of draws it consumes (so
  the generators compose on one state), that it never raises under a valid generator
  state except \<open>KeyError\<close> on an unknown region, the value ranges of every column, the
  shape of the time series (the 2020 shock, decreasing poverty, rising enrollment), and
  that \<open>(country_code, year)\<close> is a key of every table; each generator produces
  exactly the series its specification allows; the poverty loop is equivalent to a loop
  over the filtered catalog. For \<open>main\<close>: the row counts of a successful run (48,
  432, 240, 110, 432) and its complete standard output; that tables are replaced rather
  than appended (so a rerun reports the same counts); what a failing write and a failing
  schema script leave behind; that the run refines an abstract specification over the
  row counts of the database, preserves its typing and leaves no dangling country code;
  that the connection is always closed; and that the exit status is 1 only when the
  connect fails. For the statement-by-statement model of \<open>main\<close>: from every state of a
  call the \<open>finally\<close> clause is reached and closes the connection, and every state
  satisfies the invariant of the summary loop (the counts so far are those of a prefix of
  the tables, each correct). Each printed summary line reads back to its table and count, and a printed count has
  \<open>d + (d - 1) div 3\<close> characters for its \<open>d\<close> digits. Findings
  proved as theorems: the stored 2020 growth does not describe the stored GDP series
  (\<open>Gdp.gdp_2020_drop\<close>), the Gini clamp never acts (\<open>Inequality.ineq_clamp_inactive\<close>),
  the stored Palma ratio is not the ratio of the stored shares
  (\<open>Inequality.ineq_palma_stored_gap\<close>), headcounts are not monotone across poverty lines
  (\<open>Poverty.pov_lines_not_monotone\<close>), and \<open>main\<close> returns normally, exit status 0, even
  when the load failed (\<open>main_schema_failure\<close>).

  \<^bold>\<open>Modelling choices.\<close> Floats are reals: the theorems hold of the exact arithmetic
  the code describes, not of its binary rounding. The generator is any stream; the
  theorems that need the values of \<open>random()\<close> assume \<open>valid_rng\<close> (all values in
  \<open>[0, 1)\<close>), which the Mersenne Twister satisfies; those about draw counts hold of any
  stream. The loops of the generators run over finite lists and are structural
  recursions; only the statement-by-statement run of \<open>main\<close> uses fuel, and 13 steps
  are enough from the start (six statements before the summary, five tables, the end of
  the loop, \<open>finally\<close>), as \<open>MainSteps.main_run_terminates\<close> shows for every state. The schema script \<open>schema.sql\<close> is not in the repository; \<open>main\<close> takes it
  as a parameter (any function from the database to an optional error and a database),
  and the outcome of \<open>sqlite3.connect\<close> is likewise a parameter of \<open>main_io\<close>. Database
  writes may fail for the tables in \<open>write_faults\<close>, the environment's fault model.
  Standard output is the list of the printed strings; the check and cross marks are their
  UTF-8 bytes, and \<open>print\<close> is taken never to fail (an encoding error on the marks or a
  closed standard output would raise, inside \<open>except\<close> even escape \<open>main\<close>).
  A failing \<open>to_sql\<close> is taken to leave the table as it was; pandas drops the old table
  before it creates and fills the new one, so a failure during the insert may also leave
  the table missing. The theorems about a failing write hold of this atomic model.

  \<^bold>\<open>Termination and liveness.\<close> Every loop of the script is a \<open>for\<close> over a finite
  list (the catalog, the years, the tables), and the only other recursion, the digits of
  \<open>str(n)\<close>, is on \<open>n div 10\<close>, so every function of the model is total and \<open>main\<close>
  terminates by construction; no theorem states it. The liveness property that matters,
  that every call reaches \<open>finally\<close> and closes the connection whatever raised, is
  stated of the statement-by-statement model (\<open>MainSteps.main_closes_connection\<close>).
  The script is sequential and has no waiting or retry, so there is no other liveness
  property.

  \<^bold>\<open>Not modelled.\<close> \<open>traceback.print_exc()\<close>, which writes the interpreter's stack
  trace to standard error; the text of the messages of sqlite3 and of the operating
  system inside \<open>DatabaseError\<close> and \<open>IOError\<close> (the error carries the table name or the
  message as given); column types and the SQL layer of pandas; opening the database file;
  the Mersenne Twister itself.
\<close>

section \<open>Properties of a whole run\<close>

text \<open>Test inputs for the witnesses: an empty database with no failing writes, a schema
  script that does nothing and one that fails to open its file.\<close>

abbreviation fresh_db :: sqldb where
  "fresh_db \<equiv> \<lparr>tables = Map.empty, write_faults = {}\<rparr>"

abbreviation no_schema :: "sqldb \<Rightarrow> error option \<times> sqldb" where
  "no_schema \<equiv> \<lambda>d. (None, d)"

abbreviation missing_schema :: "sqldb \<Rightarrow> error option \<times> sqldb" where
  "missing_schema \<equiv> \<lambda>d. (Some (IOError ''schema.sql''), d)"

text \<open>C1: with the source's catalog, a schema script that succeeds, no failing table
  write and a valid random state, \<open>main\<close> raises nothing and reports 48 countries, 432
  GDP rows (48 x 9 years), 240 inequality rows (48 x 5 survey years), 110 poverty rows
  (22 low and middle income countries x 5) and 432 trade and education rows.\<close>

theorem main_catalog_counts:
  assumes "valid_rng s" and "schema d0 = (None, d1)" and "set summary_tables \<inter> write_faults d1 = {}"
  shows "caught (main schema d0 s) = None \<and> conn_closed (main schema d0 s) \<and>
         summary (main schema d0 s) =
           [(''country_metadata'', 48), (''gdp_data'', 432), (''inequality_metrics'', 240),
            (''poverty_indicators'', 110), (''trade_education'', 432)]"
  using main_catalog_run [where schema = schema and din = d0, OF assms] by (auto simp: catalog_counts_def)

text \<open>C17: the five tables \<open>main\<close> writes replace whatever the database held before:
  their contents after a successful run depend only on the random state, not on the prior
  database nor on what the schema script left in them.\<close>

theorem main_replaces:
  assumes "valid_rng s"
    and "schema d0 = (None, d1)" and "set summary_tables \<inter> write_faults d1 = {}"
    and "schema' d0' = (None, d1')" and "set summary_tables \<inter> write_faults d1' = {}"
    and "u \<in> set summary_tables"
  shows "tables (final_db (main schema d0 s)) u = tables (final_db (main schema' d0' s)) u"
proof -
  obtain g i p t where gen: "gdp_data catalog s = Inr (g, sdrop 528 s)"
      "ineq_data catalog (sdrop 528 s) = Inr (i, sdrop 1296 s)"
      "pov_data catalog (sdrop 1296 s) = Inr (p, sdrop 1362 s)"
      "te_data catalog (sdrop 1362 s) = Inr (t, sdrop 2418 s)"
    and r: "final_db (main schema d0 s) = written_db d1 g i p t"
    using main_catalog_run [where schema = schema and din = d0, OF assms(1-3)] by force
  obtain g' i' p' t' where gen': "gdp_data catalog s = Inr (g', sdrop 528 s)"
      "ineq_data catalog (sdrop 528 s) = Inr (i', sdrop 1296 s)"
      "pov_data catalog (sdrop 1296 s) = Inr (p', sdrop 1362 s)"
      "te_data catalog (sdrop 1362 s) = Inr (t', sdrop 2418 s)"
    and r': "final_db (main schema' d0' s) = written_db d1' g' i' p' t'"
    using main_catalog_run [where schema = schema' and din = d0', OF assms(1,4,5)] by force
  have eq: "g' = g" "i' = i" "p' = p" "t' = t" using gen gen' by simp_all
  from assms(6) have "u = ''country_metadata'' \<or> u = ''gdp_data'' \<or> u = ''inequality_metrics'' \<or>
      u = ''poverty_indicators'' \<or> u = ''trade_education''"
    by (simp add: summary_tables_def)
  then show ?thesis unfolding r r' eq by (elim disjE) simp_all
qed

text \<open>C18: running the loader a second time on the database the first run left gives the
  same row counts: tables are replaced, not appended to. The schema script is assumed to
  succeed on every database without changing which writes fail.\<close>

theorem main_rerun_stable:
  assumes "valid_rng s1" and "valid_rng s2"
    and "\<forall>d. \<exists>d'. schema d = (None, d') \<and> write_faults d' = write_faults d"
    and "set summary_tables \<inter> write_faults d0 = {}"
  shows "summary (main schema (final_db (main schema d0 s1)) s2) = summary (main schema d0 s1)"
proof -
  obtain d1 where d1: "schema d0 = (None, d1)" "write_faults d1 = write_faults d0"
    using assms(3) by blast
  then have f1: "set summary_tables \<inter> write_faults d1 = {}" using assms(4) by simp
  obtain g i p t where r1: "main schema d0 s1 = \<lparr>final_db = written_db d1 g i p t, conn_closed = True,
      caught = None, summary = catalog_counts, exit_status = 0\<rparr>"
    using main_catalog_run [where schema = schema and din = d0, OF assms(1) d1(1) f1] by blast
  obtain d2 where d2: "schema (written_db d1 g i p t) = (None, d2)"
    "write_faults d2 = write_faults (written_db d1 g i p t)"
    using assms(3) by blast
  then have f2: "set summary_tables \<inter> write_faults d2 = {}" using f1 by simp
  obtain g' i' p' t' where r2: "main schema (written_db d1 g i p t) s2 = \<lparr>final_db = written_db d2 g' i' p' t',
      conn_closed = True, caught = None, summary = catalog_counts, exit_status = 0\<rparr>"
    using main_catalog_run [where schema = schema and din = "written_db d1 g i p t", OF assms(2) d2(1) f2] by blast
  show ?thesis by (simp add: r1 r2)
qed

text \<open>C2: a failing table write ends the run in the middle. If the k-th table of the
  summary order is the first whose write fails, \<open>main\<close> catches that database error,
  the tables written before it hold their new rows with the expected counts, that table
  and the later ones keep what the schema script left, and the connection is closed.\<close>

theorem main_write_fault:
  assumes "valid_rng s" and "schema d0 = (None, d1)" and "k < length summary_tables"
    and "summary_tables ! k \<in> write_faults d1" and "set (take k summary_tables) \<inter> write_faults d1 = {}"
  shows "caught (main schema d0 s) = Some (DatabaseError (summary_tables ! k)) \<and> conn_closed (main schema d0 s) \<and>
         (\<forall>u \<in> set (drop k summary_tables). tables (final_db (main schema d0 s)) u = tables d1 u) \<and>
         (\<forall>u \<in> set (take k summary_tables). \<exists>tb. tables (final_db (main schema d0 s)) u = Some tb \<and>
            map_of catalog_counts u = Some (table_rows tb))"
proof -
  obtain g i p t where gen: "gdp_data catalog s = Inr (g, sdrop 528 s)"
      "ineq_data catalog (sdrop 528 s) = Inr (i, sdrop 1296 s)"
      "pov_data catalog (sdrop 1296 s) = Inr (p, sdrop 1362 s)"
      "te_data catalog (sdrop 1362 s) = Inr (t, sdrop 2418 s)"
    and len: "length g = 432" "length i = 240" "length p = 110" "length t = 432"
    using catalog_generation [OF assms(1)] by blast
  have "k = 0 \<or> k = 1 \<or> k = 2 \<or> k = 3 \<or> k = 4" using assms(3) by (auto simp: summary_tables_def)
  then show ?thesis using assms(4,5) len
    by (elim disjE)
       (simp_all add: main_def try_block_def assms(2) summary_tables_def load_country_metadata_eq
         load_gdp_data_gen [OF gen(1)] load_inequality_data_gen [OF gen(2)]
         load_poverty_data_gen [OF gen(3)] load_trade_education_gen [OF gen(4)]
         to_sql_replace_def catalog_counts_def length_catalog)
qed

text \<open>C3: when the schema script raises (\<open>schema.sql\<close> missing, invalid SQL), \<open>main\<close>
  catches the exception, reports no counts, closes the connection and still returns
  normally, so the process exit status is 0.\<close>

theorem main_schema_failure:
  assumes "schema d0 = (Some e, d1)"
  shows "main schema d0 s = \<lparr>final_db = d1, conn_closed = True, caught = Some e, summary = [], exit_status = 0\<rparr>"
  using assms by (simp add: main_def try_block_def)

text \<open>C19: in each of the four generated tables the key \<open>(country_code, year)\<close> is unique:
  the catalog's country codes are distinct and every country gets each year once.\<close>

theorem catalog_keys_distinct:
  assumes "gdp_data catalog s1 = Inr (g, s1')" and "ineq_data catalog s2 = Inr (i, s2')"
    and "pov_data catalog s3 = Inr (p, s3')" and "te_data catalog s4 = Inr (t, s4')"
  shows "distinct (map (\<lambda>r. (gdp_country_code r, gdp_year r)) g) \<and>
         distinct (map (\<lambda>r. (ineq_country_code r, ineq_year r)) i) \<and>
         distinct (map (\<lambda>r. (pov_country_code r, pov_year r)) p) \<and>
         distinct (map (\<lambda>r. (te_country_code r, te_year r)) t)"
proof -
  have d: "distinct (map country_code catalog)" by (rule catalog_codes_distinct)
  have dp: "distinct (map country_code (filter (\<lambda>c. income_group c \<in> set poverty_groups) catalog))"
    using d by (simp add: distinct_map_filter)
  have "distinct (concat (map (\<lambda>c. map (Pair (country_code c)) (py_range 2015 2024)) catalog))"
    by (rule distinct_keys_concat [OF d]) simp
  moreover have "distinct (concat (map (\<lambda>c. map (Pair (country_code c)) survey_years) catalog))"
    by (rule distinct_keys_concat [OF d]) (simp add: survey_years_def)
  moreover have "distinct (concat (map (\<lambda>c. map (Pair (country_code c)) poverty_years)
                   (filter (\<lambda>c. income_group c \<in> set poverty_groups) catalog)))"
    by (rule distinct_keys_concat [OF dp]) (simp add: poverty_years_def)
  ultimately show ?thesis
    unfolding gdp_data_keys [OF assms(1)] ineq_data_keys [OF assms(2)] pov_data_keys [OF assms(3)]
      te_data_keys [OF assms(4)] concat_if_filter
    by simp
qed

text \<open>C10: \<open>main\<close> preserves the typing of the database: if the schema script leaves every
  generated frame in its own table, so does the run, whatever the random state and
  whichever write fails.\<close>

theorem main_well_typed:
  assumes "db_well_typed (snd (schema d0))"
  shows "db_well_typed (final_db (main schema d0 s))"
  using try_block_typed [where schema = schema and din = d0, OF assms] by (simp add: final_db_main)

text \<open>C9: \<open>main\<close> refines an abstract specification over the row-count view: after the
  schema script, the run sets the counts of the tables of the summary order up to the first
  one whose write fails (all five when none fails) to 48, 432, 240, 110 and 432, and leaves
  every other count as the schema script left it.\<close>

theorem main_refines_counts:
  assumes "valid_rng s" and "schema d0 = (None, d1)"
  shows "row_counts table_rows (final_db (main schema d0 s)) =
         row_counts table_rows d1 ++
           map_of (take (length (takeWhile (\<lambda>u. u \<notin> write_faults d1) summary_tables)) catalog_counts)"
proof -
  obtain g i p t where gen: "gdp_data catalog s = Inr (g, sdrop 528 s)"
      "ineq_data catalog (sdrop 528 s) = Inr (i, sdrop 1296 s)"
      "pov_data catalog (sdrop 1296 s) = Inr (p, sdrop 1362 s)"
      "te_data catalog (sdrop 1362 s) = Inr (t, sdrop 2418 s)"
    and len: "length g = 432" "length i = 240" "length p = 110" "length t = 432"
    using catalog_generation [OF assms(1)] by blast
  note run = final_db_main try_block_def assms(2) summary_tables_def catalog_counts_def
    load_country_metadata_eq load_gdp_data_gen [OF gen(1)] load_inequality_data_gen [OF gen(2)]
    load_poverty_data_gen [OF gen(3)] load_trade_education_gen [OF gen(4)] to_sql_replace_def
    row_counts_def length_catalog len map_add_def fun_eq_iff
  consider "''country_metadata'' \<in> write_faults d1"
    | "''country_metadata'' \<notin> write_faults d1" "''gdp_data'' \<in> write_faults d1"
    | "''country_metadata'' \<notin> write_faults d1" "''gdp_data'' \<notin> write_faults d1"
      "''inequality_metrics'' \<in> write_faults d1"
    | "''country_metadata'' \<notin> write_faults d1" "''gdp_data'' \<notin> write_faults d1"
      "''inequality_metrics'' \<notin> write_faults d1" "''poverty_indicators'' \<in> write_faults d1"
    | "''country_metadata'' \<notin> write_faults d1" "''gdp_data'' \<notin> write_faults d1"
      "''inequality_metrics'' \<notin> write_faults d1" "''poverty_indicators'' \<notin> write_faults d1"
      "''trade_education'' \<in> write_faults d1"
    | "''country_metadata'' \<notin> write_faults d1" "''gdp_data'' \<notin> write_faults d1"
      "''inequality_metrics'' \<notin> write_faults d1" "''poverty_indicators'' \<notin> write_faults d1"
      "''trade_education'' \<notin> write_faults d1"
    by blast
  then show ?thesis by cases (simp_all add: run split: sum.split option.split)
qed

text \<open>C11: referential integrity of a successful run: the four generated tables exist and
  every country code in them is the code of a row of \<open>country_metadata\<close>, so the joins the
  database is meant for lose no row.\<close>

theorem main_foreign_keys:
  assumes "valid_rng s" and "schema d0 = (None, d1)" and "set summary_tables \<inter> write_faults d1 = {}"
  shows "\<exists>cm g i p t.
    tables (final_db (main schema d0 s)) ''country_metadata'' = Some (CountryTable cm) \<and>
    tables (final_db (main schema d0 s)) ''gdp_data'' = Some (GdpTable g) \<and>
    tables (final_db (main schema d0 s)) ''inequality_metrics'' = Some (IneqTable i) \<and>
    tables (final_db (main schema d0 s)) ''poverty_indicators'' = Some (PovTable p) \<and>
    tables (final_db (main schema d0 s)) ''trade_education'' = Some (TradeTable t) \<and>
    set (map gdp_country_code g) \<subseteq> set (map country_code cm) \<and>
    set (map ineq_country_code i) \<subseteq> set (map country_code cm) \<and>
    set (map pov_country_code p) \<subseteq> set (map country_code cm) \<and>
    set (map te_country_code t) \<subseteq> set (map country_code cm)"
proof -
  obtain g i p t where gen: "gdp_data catalog s = Inr (g, sdrop 528 s)"
      "ineq_data catalog (sdrop 528 s) = Inr (i, sdrop 1296 s)"
      "pov_data catalog (sdrop 1296 s) = Inr (p, sdrop 1362 s)"
      "te_data catalog (sdrop 1362 s) = Inr (t, sdrop 2418 s)"
    and r: "main schema d0 s = \<lparr>final_db = written_db d1 g i p t, conn_closed = True, caught = None,
                         summary = catalog_counts, exit_status = 0\<rparr>"
    using main_catalog_run [where schema = schema and din = d0, OF assms] by blast
  have "set (map gdp_country_code g) \<subseteq> set (map country_code catalog)"
    by (rule keys_in_codes [OF gdp_data_keys [OF gen(1)]])
  moreover have "set (map ineq_country_code i) \<subseteq> set (map country_code catalog)"
    by (rule keys_in_codes [OF ineq_data_keys [OF gen(2)]])
  moreover have "set (map pov_country_code p) \<subseteq> set (map country_code catalog)"
    using keys_in_codes [OF pov_data_keys [OF gen(3), unfolded concat_if_filter]] by auto
  moreover have "set (map te_country_code t) \<subseteq> set (map country_code catalog)"
    by (rule keys_in_codes [OF te_data_keys [OF gen(4)]])
  ultimately show ?thesis by (simp add: r)
qed

section \<open>Witnesses\<close>

lemma half_valid: "valid_rng (sconst (1/2))"
  by (simp add: valid_rng_sconst)

theorem main_catalog_counts_witness:
  "valid_rng (sconst (1/2)) \<and> no_schema fresh_db = (None, fresh_db) \<and>
   set summary_tables \<inter> write_faults fresh_db = {} \<and>
   caught (main no_schema fresh_db (sconst (1/2))) = None \<and> conn_closed (main no_schema fresh_db (sconst (1/2))) \<and>
   summary (main no_schema fresh_db (sconst (1/2))) =
     [(''country_metadata'', 48), (''gdp_data'', 432), (''inequality_metrics'', 240),
      (''poverty_indicators'', 110), (''trade_education'', 432)]"
  using main_catalog_counts [of "sconst (1/2)" no_schema fresh_db fresh_db] half_valid by simp

theorem main_replaces_witness:
  "valid_rng (sconst (1/2)) \<and> no_schema fresh_db = (None, fresh_db) \<and>
   set summary_tables \<inter> write_faults fresh_db = {} \<and>
   no_schema \<lparr>tables = [''gdp_data'' \<mapsto> SchemaTable 7], write_faults = {}\<rparr> =
     (None, \<lparr>tables = [''gdp_data'' \<mapsto> SchemaTable 7], write_faults = {}\<rparr>) \<and>
   set summary_tables \<inter> write_faults \<lparr>tables = [''gdp_data'' \<mapsto> SchemaTable 7], write_faults = {}\<rparr> = {} \<and>
   ''gdp_data'' \<in> set summary_tables \<and>
   tables (final_db (main no_schema fresh_db (sconst (1/2)))) ''gdp_data'' =
   tables (final_db (main no_schema \<lparr>tables = [''gdp_data'' \<mapsto> SchemaTable 7], write_faults = {}\<rparr> (sconst (1/2)))) ''gdp_data''"
  using main_replaces [of "sconst (1/2)" no_schema fresh_db fresh_db no_schema
      "\<lparr>tables = [''gdp_data'' \<mapsto> SchemaTable 7], write_faults = {}\<rparr>"
      "\<lparr>tables = [''gdp_data'' \<mapsto> SchemaTable 7], write_faults = {}\<rparr>" "''gdp_data''"] half_valid
  by (simp add: summary_tables_def)

theorem main_rerun_stable_witness:
  "valid_rng (sconst (1/2)) \<and> valid_rng (sconst (1/4)) \<and>
   (\<forall>d. \<exists>d'. no_schema d = (None, d') \<and> write_faults d' = write_faults d) \<and>
   set summary_tables \<inter> write_faults fresh_db = {} \<and>
   summary (main no_schema (final_db (main no_schema fresh_db (sconst (1/2)))) (sconst (1/4))) =
   summary (main no_schema fresh_db (sconst (1/2)))"
proof -
  have v: "valid_rng (sconst (1/4))" by (simp add: valid_rng_sconst)
  have h: "\<forall>d. \<exists>d'. no_schema d = (None, d') \<and> write_faults d' = write_faults d" by simp
  show ?thesis using main_rerun_stable [OF half_valid v h, of fresh_db] half_valid v h by simp
qed

theorem main_write_fault_witness:
  "valid_rng (sconst (1/2)) \<and>
   no_schema \<lparr>tables = Map.empty, write_faults = {''poverty_indicators''}\<rparr> =
     (None, \<lparr>tables = Map.empty, write_faults = {''poverty_indicators''}\<rparr>) \<and>
   caught (main no_schema \<lparr>tables = Map.empty, write_faults = {''poverty_indicators''}\<rparr> (sconst (1/2))) =
     Some (DatabaseError ''poverty_indicators'') \<and>
   conn_closed (main no_schema \<lparr>tables = Map.empty, write_faults = {''poverty_indicators''}\<rparr> (sconst (1/2))) \<and>
   tables (final_db (main no_schema \<lparr>tables = Map.empty, write_faults = {''poverty_indicators''}\<rparr> (sconst (1/2))))
     ''poverty_indicators'' = None \<and>
   tables (final_db (main no_schema \<lparr>tables = Map.empty, write_faults = {''poverty_indicators''}\<rparr> (sconst (1/2))))
     ''trade_education'' = None \<and>
   (\<exists>tb. tables (final_db (main no_schema \<lparr>tables = Map.empty, write_faults = {''poverty_indicators''}\<rparr> (sconst (1/2))))
     ''inequality_metrics'' = Some tb \<and> table_rows tb = 240)"
proof -
  let ?d = "\<lparr>tables = Map.empty, write_faults = {''poverty_indicators''}\<rparr> :: sqldb"
  have h: "no_schema ?d = (None, ?d)" "3 < length summary_tables" "summary_tables ! 3 \<in> write_faults ?d"
    "set (take 3 summary_tables) \<inter> write_faults ?d = {}"
    by (simp_all add: summary_tables_def)
  show ?thesis using main_write_fault [of "sconst (1/2)" no_schema ?d ?d 3, OF half_valid h] half_valid
    by (simp add: summary_tables_def catalog_counts_def)
qed

theorem main_schema_failure_witness:
  "missing_schema fresh_db = (Some (IOError ''schema.sql''), fresh_db) \<and>
   main missing_schema fresh_db (sconst (1/2)) =
     \<lparr>final_db = fresh_db, conn_closed = True, caught = Some (IOError ''schema.sql''), summary = [], exit_status = 0\<rparr>"
  using main_schema_failure [of missing_schema fresh_db "IOError ''schema.sql''" fresh_db] by simp

theorem catalog_keys_distinct_witness:
  "\<exists>g i p t s1 s2 s3 s4. gdp_data catalog (sconst (1/2)) = Inr (g, s1) \<and>
     ineq_data catalog (sconst (1/2)) = Inr (i, s2) \<and> pov_data catalog (sconst (1/2)) = Inr (p, s3) \<and>
     te_data catalog (sconst (1/2)) = Inr (t, s4) \<and>
     distinct (map (\<lambda>r. (gdp_country_code r, gdp_year r)) g) \<and>
     distinct (map (\<lambda>r. (ineq_country_code r, ineq_year r)) i) \<and>
     distinct (map (\<lambda>r. (pov_country_code r, pov_year r)) p) \<and>
     distinct (map (\<lambda>r. (te_country_code r, te_year r)) t)"
proof -
  obtain g i p t where gen: "gdp_data catalog (sconst (1/2)) = Inr (g, sdrop 528 (sconst (1/2)))"
      "ineq_data catalog (sdrop 528 (sconst (1/2))) = Inr (i, sdrop 1296 (sconst (1/2)))"
      "pov_data catalog (sdrop 1296 (sconst (1/2))) = Inr (p, sdrop 1362 (sconst (1/2)))"
      "te_data catalog (sdrop 1362 (sconst (1/2))) = Inr (t, sdrop 2418 (sconst (1/2)))"
    using catalog_generation [OF half_valid] by blast
  have gen': "gdp_data catalog (sconst (1/2)) = Inr (g, sconst (1/2))"
      "ineq_data catalog (sconst (1/2)) = Inr (i, sconst (1/2))"
      "pov_data catalog (sconst (1/2)) = Inr (p, sconst (1/2))"
      "te_data catalog (sconst (1/2)) = Inr (t, sconst (1/2))"
    using gen by simp_all
  show ?thesis using gen' catalog_keys_distinct [OF gen'] by blast
qed

theorem main_well_typed_witness:
  "db_well_typed (snd (no_schema fresh_db)) \<and> db_well_typed (final_db (main no_schema fresh_db (sconst (1/2))))"
proof -
  have h: "db_well_typed (snd (no_schema fresh_db))" by (simp add: db_well_typed_def)
  show ?thesis using main_well_typed [of no_schema fresh_db "sconst (1/2)", OF h] h by simp
qed

theorem main_refines_counts_witness:
  "valid_rng (sconst (1/2)) \<and>
   no_schema \<lparr>tables = Map.empty, write_faults = {''poverty_indicators''}\<rparr> =
     (None, \<lparr>tables = Map.empty, write_faults = {''poverty_indicators''}\<rparr>) \<and>
   row_counts table_rows (final_db (main no_schema \<lparr>tables = Map.empty, write_faults = {''poverty_indicators''}\<rparr>
     (sconst (1/2)))) ''inequality_metrics'' = Some 240 \<and>
   row_counts table_rows (final_db (main no_schema \<lparr>tables = Map.empty, write_faults = {''poverty_indicators''}\<rparr>
     (sconst (1/2)))) ''poverty_indicators'' = None"
proof -
  let ?d = "\<lparr>tables = Map.empty, write_faults = {''poverty_indicators''}\<rparr> :: sqldb"
  have h: "no_schema ?d = (None, ?d)" by simp
  show ?thesis
    using main_refines_counts [of "sconst (1/2)" no_schema ?d ?d, OF half_valid h] half_valid
    by (simp add: summary_tables_def catalog_counts_def row_counts_def map_add_def)
qed

theorem main_foreign_keys_witness:
  "valid_rng (sconst (1/2)) \<and> no_schema fresh_db = (None, fresh_db) \<and>
   set summary_tables \<inter> write_faults fresh_db = {} \<and>
   (\<exists>cm g i p t.
    tables (final_db (main no_schema fresh_db (sconst (1/2)))) ''country_metadata'' = Some (CountryTable cm) \<and>
    tables (final_db (main no_schema fresh_db (sconst (1/2)))) ''gdp_data'' = Some (GdpTable g) \<and>
    tables (final_db (main no_schema fresh_db (sconst (1/2)))) ''inequality_metrics'' = Some (IneqTable i) \<and>
    tables (final_db (main no_schema fresh_db (sconst (1/2)))) ''poverty_indicators'' = Some (PovTable p) \<and>
    tables (final_db (main no_schema fresh_db (sconst (1/2)))) ''trade_education'' = Some (TradeTable t) \<and>
    set (map gdp_country_code g) \<subseteq> set (map country_code cm) \<and>
    set (map ineq_country_code i) \<subseteq> set (map country_code cm) \<and>
    set (map pov_country_code p) \<subseteq> set (map country_code cm) \<and>
    set (map te_country_code t) \<subseteq> set (map country_code cm))"
  using main_foreign_keys [of "sconst (1/2)" no_schema fresh_db fresh_db] half_valid by simp

end
